theory Spec2Isabelle
  imports Complex_Main
begin

section \<open>Retirement calculator: the simulation engine\<close>

text \<open>
  The engine is the \<^verbatim>\<open>Simulation\<close> object of the calculator's test suites: a return
  generator, two lookup tables and five withdrawal strategies, each a year loop over
  mutable local variables.  JavaScript numbers are modelled as real numbers (no rounding,
  no overflow); ages and year counts are integers.  The places where the code produces a
  non-finite number from finite inputs are written out: the \<^verbatim>\<open>Infinity\<close> spending
  cap is an absent cap, and the quotient \<^verbatim>\<open>withdrawal / portfolioStart\<close> is a
  \<open>jsnum\<close>.  That quotient tells the two zeros of a double apart, so the balance
  \<^verbatim>\<open>portfolio\<close> is modelled by its value together with the sign of its zero; the
  engine divides by nothing else that can be zero, and of every other number the value
  alone is kept.
  \<^verbatim>\<open>Math.random\<close> is an explicit entropy source, so that a stochastic run is a
  function of the values it draws.
\<close>

subsection \<open>Data model\<close>

text \<open>The \<^verbatim>\<open>inputs\<close> object. The four fields the code reads through
  \<^verbatim>\<open>||\<close> or \<^verbatim>\<open>&&\<close> may be missing. The number
  \<^verbatim>\<open>startingPortfolio\<close> is its value and, in \<open>startingPortfolioNegZero\<close>, whether
  it is the negative zero.\<close>

record inputs =
  retirementAge :: int
  planningAge :: int
  startingPortfolio :: real
  expectedReturn :: real
  volatility :: real
  inflationRate :: real
  socialSecurity :: real
  ssStartAge :: int
  oneTimeExpense :: "real option"
  minSpending :: "real option"
  maxSpending :: "real option"
  startingWithdrawal :: "real option"
  startingPortfolioNegZero :: bool

text \<open>A quotient of two finite numbers in JavaScript.\<close>

datatype jsnum = Fin real | PosInf | NegInf | NaN

text \<open>One element of \<^verbatim>\<open>yearResults\<close>. The property \<^verbatim>\<open>ruined\<close> of the
  object literal is the field \<open>ruinedYear\<close>; a property that a strategy does not
  write is \<open>None\<close>.\<close>

record yearRecord =
  year :: nat
  age :: int
  portfolioStart :: real
  returnPct :: real
  withdrawal :: real
  portfolioEnd :: real
  ruinedYear :: bool
  ssReceived :: "real option"
  baseWithdrawal :: "real option"
  targetWithdrawal :: "real option"
  vpwPct :: "real option"
  currentRate :: "jsnum option"
  lifeExp :: "int option"
  rmdWithdrawal :: "real option"

text \<open>The object a strategy returns.\<close>

record simulationResult =
  years :: "yearRecord list"
  finalBalance :: real
  totalWithdrawals :: real
  ruined :: bool
  ruinAge :: "int option"

text \<open>The local variables a year loop mutates: \<^verbatim>\<open>portfolio\<close>,
  \<^verbatim>\<open>withdrawal\<close>, \<^verbatim>\<open>yearResults\<close>, \<^verbatim>\<open>ruined\<close>, \<^verbatim>\<open>ruinAge\<close>,
  and the number of \<^verbatim>\<open>Math.random()\<close> calls made so far. The variable
  \<^verbatim>\<open>portfolio\<close> is its value and, in \<open>portfolioNegZero\<close>, whether it is the
  negative zero.\<close>

record loopState =
  portfolio :: real
  withdrawalVar :: real
  yearResults :: "yearRecord list"
  ruinedVar :: bool
  ruinAgeVar :: "int option"
  rngPos :: nat
  portfolioNegZero :: bool

subsection \<open>JavaScript operators on possibly missing or non-finite numbers\<close>

definition orZero :: "real option \<Rightarrow> real" where
  \<comment> \<open>\<^verbatim>\<open>x || 0\<close>\<close>
  "orZero x = (case x of None \<Rightarrow> 0 | Some v \<Rightarrow> (if v \<noteq> 0 then v else 0))"

definition truthyPositive :: "real option \<Rightarrow> bool" where
  \<comment> \<open>\<^verbatim>\<open>x && x > 0\<close>\<close>
  "truthyPositive x = (case x of None \<Rightarrow> False | Some v \<Rightarrow> v \<noteq> 0 \<and> v > 0)"

definition minCap :: "real \<Rightarrow> real option \<Rightarrow> real" where
  \<comment> \<open>\<^verbatim>\<open>Math.min(t, cap)\<close>, where the cap \<open>None\<close> is \<^verbatim>\<open>Infinity\<close>\<close>
  "minCap t cap = (case cap of None \<Rightarrow> t | Some c \<Rightarrow> min t c)"

definition jsDiv :: "real \<Rightarrow> real \<Rightarrow> bool \<Rightarrow> jsnum" where
  \<comment> \<open>\<^verbatim>\<open>a / b\<close>, where a zero \<open>b\<close> is the negative zero when \<open>bNegZero\<close>\<close>
  "jsDiv a b bNegZero =
     (if b \<noteq> 0 then Fin (a / b)
      else if a > 0 then (if bNegZero then NegInf else PosInf)
      else if a < 0 then (if bNegZero then PosInf else NegInf)
      else NaN)"

definition jsTimes100 :: "jsnum \<Rightarrow> jsnum" where
  \<comment> \<open>\<^verbatim>\<open>x * 100\<close>\<close>
  "jsTimes100 x = (case x of Fin v \<Rightarrow> Fin (v * 100) | PosInf \<Rightarrow> PosInf | NegInf \<Rightarrow> NegInf | NaN \<Rightarrow> NaN)"

definition jsGreater :: "jsnum \<Rightarrow> real \<Rightarrow> bool" where
  \<comment> \<open>\<^verbatim>\<open>x > c\<close>\<close>
  "jsGreater x c = (case x of Fin v \<Rightarrow> v > c | PosInf \<Rightarrow> True | NegInf \<Rightarrow> False | NaN \<Rightarrow> False)"

definition jsLess :: "jsnum \<Rightarrow> real \<Rightarrow> bool" where
  \<comment> \<open>\<^verbatim>\<open>x < c\<close>\<close>
  "jsLess x c = (case x of Fin v \<Rightarrow> v < c | PosInf \<Rightarrow> False | NegInf \<Rightarrow> True | NaN \<Rightarrow> False)"

subsection \<open>The sign of a zero balance\<close>

text \<open>The balance is assigned a difference, the constant 0, or a product. Each
  definition tells whether the assigned number is the negative zero.

  \<^verbatim>\<open>portfolio -= netWithdrawal\<close>: a difference that is zero is the negative zero only
  as -0 - (+0). The subtrahend \<^verbatim>\<open>Math.max(0, ..) + oneTimeExpenseThisYear\<close> is never
  the negative zero: \<^verbatim>\<open>Math.max(0, x)\<close> is not, and a sum is only when both summands
  are.\<close>

definition subNegZero :: "real \<Rightarrow> bool \<Rightarrow> real \<Rightarrow> bool" where
  "subNegZero p pNegZero net = (p = 0 \<and> pNegZero \<and> net = 0)"

text \<open>\<^verbatim>\<open>portfolio *= (1 + returnPct)\<close>: a product that is zero is the negative zero
  when exactly one factor is negative or the negative zero. The factor
  \<^verbatim>\<open>1 + returnPct\<close> is never the negative zero.\<close>

definition mulNegZero :: "real \<Rightarrow> bool \<Rightarrow> real \<Rightarrow> bool" where
  "mulNegZero p pNegZero f = (if p = 0 then pNegZero \<noteq> (f < 0) else p < 0 \<and> f = 0)"

subsection \<open>The return generator\<close>

text \<open>The entropy source is the sequence of values that successive calls of
  \<^verbatim>\<open>Math.random()\<close> return; a position in it counts the calls made.\<close>

type_synonym entropy = "nat \<Rightarrow> real"

text \<open>\<^verbatim>\<open>let u = 0; while (u === 0) u = Math.random();\<close> The loop does not end on a
  source that returns zero forever.\<close>

partial_function (option) drawNonzero :: "entropy \<Rightarrow> nat \<Rightarrow> (real \<times> nat) option" where
  "drawNonzero src k = (if src k = 0 then drawNonzero src (Suc k) else Some (src k, Suc k))"

definition randomNormal :: "entropy \<Rightarrow> nat \<Rightarrow> (real \<times> nat) option" where
  "randomNormal src k =
     (case drawNonzero src k of
        None \<Rightarrow> None
      | Some (u, k1) \<Rightarrow>
          (case drawNonzero src k1 of
             None \<Rightarrow> None
           | Some (v, k2) \<Rightarrow> Some (sqrt (- 2.0 * ln u) * cos (2.0 * pi * v), k2)))"

definition generateReturn :: "real \<Rightarrow> real \<Rightarrow> bool \<Rightarrow> entropy \<Rightarrow> nat \<Rightarrow> (real \<times> nat) option" where
  "generateReturn mean vol deterministic src k =
     (if deterministic then Some (mean / 100, k)
      else (case randomNormal src k of
              None \<Rightarrow> None
            | Some (z, k') \<Rightarrow> Some ((mean + z * vol) / 100, k')))"

subsection \<open>The lookup tables\<close>

definition lifeExpectancy :: "int \<Rightarrow> int" where
  "lifeExpectancy a =
     (if a < 60 then 95 - a
      else if a < 70 then 90 - a
      else if a < 80 then 87 - a
      else if a < 90 then 94 - a
      else max 2 (100 - a))"

definition vpwPercentage :: "int \<Rightarrow> real \<Rightarrow> real" where
  "vpwPercentage yearsRemaining stockAllocation =
     (if yearsRemaining \<ge> 30 then 3.0 + stockAllocation * 0.02
      else if yearsRemaining \<ge> 25 then 3.5 + stockAllocation * 0.02
      else if yearsRemaining \<ge> 20 then 4.0 + stockAllocation * 0.025
      else if yearsRemaining \<ge> 15 then 5.0 + stockAllocation * 0.03
      else if yearsRemaining \<ge> 10 then 6.5 + stockAllocation * 0.035
      else if yearsRemaining \<ge> 5 then 9.0 + stockAllocation * 0.04
      else min 100 (20.0 + real_of_int yearsRemaining * 2))"

subsection \<open>The year loop\<close>

text \<open>\<^verbatim>\<open>for (let i = 0; i < years; i++) body\<close>, started at \<open>i\<close>. The body may fail
  to return (the return generator may), and then so does the loop.\<close>

function forLoop :: "(nat \<Rightarrow> 's \<Rightarrow> 's option) \<Rightarrow> int \<Rightarrow> nat \<Rightarrow> 's \<Rightarrow> 's option" where
  "forLoop body n i st =
     (if int i < n
      then (case body i st of None \<Rightarrow> None | Some st' \<Rightarrow> forLoop body n (Suc i) st')
      else Some st)"
  by pat_completeness auto
termination
  by (relation "measure (\<lambda>(body, n, i, st). nat (n - int i))") auto

declare forLoop.simps [simp del]

text \<open>\<^verbatim>\<open>yearResults.reduce((sum, y) => sum + y.withdrawal, 0)\<close>\<close>

definition sumWithdrawals :: "yearRecord list \<Rightarrow> real" where
  "sumWithdrawals ys = foldl (\<lambda>sum y. sum + withdrawal y) 0 ys"

text \<open>The object literal every strategy returns, from the loop's final variables.\<close>

definition resultOf :: "loopState \<Rightarrow> simulationResult \<times> nat" where
  "resultOf st =
     (\<lparr> years = yearResults st,
        finalBalance = portfolio st,
        totalWithdrawals = sumWithdrawals (yearResults st),
        ruined = ruinedVar st,
        ruinAge = ruinAgeVar st \<rparr>, rngPos st)"

subsection \<open>Constant real withdrawal\<close>

text \<open>One iteration of the loop of \<^verbatim>\<open>strategyConstantReal\<close>, at index \<open>i\<close>. A
  variable that the code assigns more than once is numbered by assignment
  (\<open>portfolio1\<close>, \<open>portfolio2\<close>, ...), and the local \<^verbatim>\<open>returnPct\<close>, a fraction,
  is \<open>returnFraction\<close>: the record's \<^verbatim>\<open>returnPct\<close> is a hundred times it. The same
  holds for the other strategies.\<close>

definition constantRealYear :: "inputs \<Rightarrow> bool \<Rightarrow> entropy \<Rightarrow> nat \<Rightarrow> loopState \<Rightarrow> loopState option" where
  "constantRealYear inputs deterministic src i st =
     (let inflationMultiplier = 1 + inflationRate inputs / 100;
          baseMaxSpending = orZero (maxSpending inputs);
          age = retirementAge inputs + int i;
          portfolioStart = portfolio st;
          withdrawal1 =
            (if baseMaxSpending > 0
             then min (withdrawalVar st) (baseMaxSpending * inflationMultiplier ^ i)
             else withdrawalVar st);
          isExpenseYear = ((i + 1) mod 5 = 0);
          oneTimeExpenseThisYear =
            (if isExpenseYear then orZero (oneTimeExpense inputs) * inflationMultiplier ^ i else 0);
          ssYearsReceiving = max 0 (age - ssStartAge inputs);
          ss = (if age \<ge> ssStartAge inputs
                then socialSecurity inputs * inflationMultiplier ^ nat ssYearsReceiving else 0);
          netWithdrawal = max 0 (withdrawal1 - ss) + oneTimeExpenseThisYear;
          portfolio1 = portfolio st - netWithdrawal;
          negZero1 = subNegZero (portfolio st) (portfolioNegZero st) netWithdrawal;
          portfolio2 = (if portfolio1 < 0 then 0 else portfolio1);
          negZero2 = (if portfolio1 < 0 then False else negZero1);
          ruined1 = (if portfolio1 < 0 \<and> \<not> ruinedVar st then True else ruinedVar st);
          ruinAge1 = (if portfolio1 < 0 \<and> \<not> ruinedVar st then Some age else ruinAgeVar st)
      in case generateReturn (expectedReturn inputs) (volatility inputs) deterministic src (rngPos st) of
           None \<Rightarrow> None
         | Some (returnFraction, k') \<Rightarrow>
             (let portfolio3 = portfolio2 * (1 + returnFraction);
                  negZero3 = mulNegZero portfolio2 negZero2 (1 + returnFraction);
                  record = \<lparr> year = i, age = age, portfolioStart = portfolioStart,
                             returnPct = returnFraction * 100, withdrawal = netWithdrawal,
                             portfolioEnd = portfolio3, ruinedYear = (portfolio3 \<le> 0),
                             ssReceived = Some ss, baseWithdrawal = Some withdrawal1,
                             targetWithdrawal = None, vpwPct = None, currentRate = None,
                             lifeExp = None, rmdWithdrawal = None \<rparr>;
                  ruined2 = (if portfolio3 \<le> 0 \<and> \<not> ruined1 then True else ruined1);
                  ruinAge2 = (if portfolio3 \<le> 0 \<and> \<not> ruined1 then Some age else ruinAge1)
              in Some \<lparr> portfolio = portfolio3,
                        withdrawalVar = withdrawal1 * inflationMultiplier,
                        yearResults = yearResults st @ [record],
                        ruinedVar = ruined2, ruinAgeVar = ruinAge2, rngPos = k',
                        portfolioNegZero = negZero3 \<rparr>))"

text \<open>\<^verbatim>\<open>strategyConstantReal(inputs, deterministic)\<close>, reading the entropy source from
  position \<open>k\<close>; the result comes with the position reached.\<close>

definition strategyConstantReal ::
  "inputs \<Rightarrow> bool \<Rightarrow> entropy \<Rightarrow> nat \<Rightarrow> (simulationResult \<times> nat) option" where
  "strategyConstantReal inputs deterministic src k =
     (let years = planningAge inputs - retirementAge inputs;
          initialRate = 4.5;
          baseWithdrawal =
            (if truthyPositive (startingWithdrawal inputs)
             then orZero (startingWithdrawal inputs)
             else startingPortfolio inputs * (initialRate / 100));
          initialWithdrawal0 = max baseWithdrawal (orZero (minSpending inputs));
          initialWithdrawal =
            (if truthyPositive (maxSpending inputs)
             then min initialWithdrawal0 (orZero (maxSpending inputs))
             else initialWithdrawal0);
          st0 = \<lparr> portfolio = startingPortfolio inputs, withdrawalVar = initialWithdrawal,
                  yearResults = [], ruinedVar = False, ruinAgeVar = None, rngPos = k,
                  portfolioNegZero = (startingPortfolio inputs = 0 \<and> startingPortfolioNegZero inputs) \<rparr>
      in map_option resultOf (forLoop (constantRealYear inputs deterministic src) years 0 st0))"

subsection \<open>Constant real withdrawal, the earlier copy\<close>

text \<open>The suite that predates the \<^verbatim>\<open>startingWithdrawal\<close> and
  \<^verbatim>\<open>maxSpending\<close> inputs carries its own copy of the strategy.\<close>

definition constantRealYear_old :: "inputs \<Rightarrow> bool \<Rightarrow> entropy \<Rightarrow> nat \<Rightarrow> loopState \<Rightarrow> loopState option" where
  "constantRealYear_old inputs deterministic src i st =
     (let inflationMultiplier = 1 + inflationRate inputs / 100;
          age = retirementAge inputs + int i;
          portfolioStart = portfolio st;
          isExpenseYear = ((i + 1) mod 5 = 0);
          oneTimeExpenseThisYear =
            (if isExpenseYear then orZero (oneTimeExpense inputs) * inflationMultiplier ^ i else 0);
          ssYearsReceiving = max 0 (age - ssStartAge inputs);
          ss = (if age \<ge> ssStartAge inputs
                then socialSecurity inputs * inflationMultiplier ^ nat ssYearsReceiving else 0);
          netWithdrawal = max 0 (withdrawalVar st - ss) + oneTimeExpenseThisYear;
          portfolio1 = portfolio st - netWithdrawal;
          negZero1 = subNegZero (portfolio st) (portfolioNegZero st) netWithdrawal;
          portfolio2 = (if portfolio1 < 0 then 0 else portfolio1);
          negZero2 = (if portfolio1 < 0 then False else negZero1);
          ruined1 = (if portfolio1 < 0 \<and> \<not> ruinedVar st then True else ruinedVar st);
          ruinAge1 = (if portfolio1 < 0 \<and> \<not> ruinedVar st then Some age else ruinAgeVar st)
      in case generateReturn (expectedReturn inputs) (volatility inputs) deterministic src (rngPos st) of
           None \<Rightarrow> None
         | Some (returnFraction, k') \<Rightarrow>
             (let portfolio3 = portfolio2 * (1 + returnFraction);
                  negZero3 = mulNegZero portfolio2 negZero2 (1 + returnFraction);
                  record = \<lparr> year = i, age = age, portfolioStart = portfolioStart,
                             returnPct = returnFraction * 100, withdrawal = netWithdrawal,
                             portfolioEnd = portfolio3, ruinedYear = (portfolio3 \<le> 0),
                             ssReceived = Some ss, baseWithdrawal = Some (withdrawalVar st),
                             targetWithdrawal = None, vpwPct = None, currentRate = None,
                             lifeExp = None, rmdWithdrawal = None \<rparr>;
                  ruined2 = (if portfolio3 \<le> 0 \<and> \<not> ruined1 then True else ruined1);
                  ruinAge2 = (if portfolio3 \<le> 0 \<and> \<not> ruined1 then Some age else ruinAge1)
              in Some \<lparr> portfolio = portfolio3,
                        withdrawalVar = withdrawalVar st * inflationMultiplier,
                        yearResults = yearResults st @ [record],
                        ruinedVar = ruined2, ruinAgeVar = ruinAge2, rngPos = k',
                        portfolioNegZero = negZero3 \<rparr>))"

definition strategyConstantReal_old ::
  "inputs \<Rightarrow> bool \<Rightarrow> entropy \<Rightarrow> nat \<Rightarrow> (simulationResult \<times> nat) option" where
  "strategyConstantReal_old inputs deterministic src k =
     (let years = planningAge inputs - retirementAge inputs;
          initialRate = 4.5;
          calculatedWithdrawal = startingPortfolio inputs * (initialRate / 100);
          initialWithdrawal = max calculatedWithdrawal (orZero (minSpending inputs));
          st0 = \<lparr> portfolio = startingPortfolio inputs, withdrawalVar = initialWithdrawal,
                  yearResults = [], ruinedVar = False, ruinAgeVar = None, rngPos = k,
                  portfolioNegZero = (startingPortfolio inputs = 0 \<and> startingPortfolioNegZero inputs) \<rparr>
      in map_option resultOf (forLoop (constantRealYear_old inputs deterministic src) years 0 st0))"

subsection \<open>Constant percentage\<close>

definition constantPercentYear :: "inputs \<Rightarrow> bool \<Rightarrow> entropy \<Rightarrow> nat \<Rightarrow> loopState \<Rightarrow> loopState option" where
  "constantPercentYear inputs deterministic src i st =
     (let withdrawalRate = 4.0;
          inflationMultiplier = 1 + inflationRate inputs / 100;
          baseMinSpending = orZero (minSpending inputs);
          baseMaxSpending = orZero (maxSpending inputs);
          baseStartingWithdrawal = orZero (startingWithdrawal inputs);
          age = retirementAge inputs + int i;
          portfolioStart = portfolio st;
          inflationAdjustedMinSpending = baseMinSpending * inflationMultiplier ^ i;
          inflationAdjustedMaxSpending =
            (if baseMaxSpending > 0 then Some (baseMaxSpending * inflationMultiplier ^ i) else None);
          isExpenseYear = ((i + 1) mod 5 = 0);
          oneTimeExpenseThisYear =
            (if isExpenseYear then orZero (oneTimeExpense inputs) * inflationMultiplier ^ i else 0);
          ssYearsReceiving = max 0 (age - ssStartAge inputs);
          ss = (if age \<ge> ssStartAge inputs
                then socialSecurity inputs * inflationMultiplier ^ nat ssYearsReceiving else 0);
          targetWithdrawal0 =
            (if i = 0 \<and> baseStartingWithdrawal > 0 then baseStartingWithdrawal
             else portfolio st * (withdrawalRate / 100));
          targetWithdrawal1 = max targetWithdrawal0 inflationAdjustedMinSpending;
          targetWithdrawal2 = minCap targetWithdrawal1 inflationAdjustedMaxSpending;
          netWithdrawal = max 0 (targetWithdrawal2 - ss) + oneTimeExpenseThisYear;
          portfolio1 = portfolio st - netWithdrawal;
          negZero1 = subNegZero (portfolio st) (portfolioNegZero st) netWithdrawal;
          portfolio2 = (if portfolio1 < 0 then 0 else portfolio1);
          negZero2 = (if portfolio1 < 0 then False else negZero1);
          ruined1 = (if portfolio1 < 0 \<and> \<not> ruinedVar st then True else ruinedVar st);
          ruinAge1 = (if portfolio1 < 0 \<and> \<not> ruinedVar st then Some age else ruinAgeVar st)
      in case generateReturn (expectedReturn inputs) (volatility inputs) deterministic src (rngPos st) of
           None \<Rightarrow> None
         | Some (returnFraction, k') \<Rightarrow>
             (let portfolio3 = portfolio2 * (1 + returnFraction);
                  negZero3 = mulNegZero portfolio2 negZero2 (1 + returnFraction);
                  record = \<lparr> year = i, age = age, portfolioStart = portfolioStart,
                             returnPct = returnFraction * 100, withdrawal = netWithdrawal,
                             portfolioEnd = portfolio3, ruinedYear = (portfolio3 \<le> 0),
                             ssReceived = None, baseWithdrawal = None,
                             targetWithdrawal = Some targetWithdrawal2, vpwPct = None,
                             currentRate = None, lifeExp = None, rmdWithdrawal = None \<rparr>;
                  ruined2 = (if portfolio3 \<le> 0 \<and> \<not> ruined1 then True else ruined1);
                  ruinAge2 = (if portfolio3 \<le> 0 \<and> \<not> ruined1 then Some age else ruinAge1)
              in Some \<lparr> portfolio = portfolio3,
                        withdrawalVar = withdrawalVar st,
                        yearResults = yearResults st @ [record],
                        ruinedVar = ruined2, ruinAgeVar = ruinAge2, rngPos = k',
                        portfolioNegZero = negZero3 \<rparr>))"

text \<open>The strategies without a carried \<^verbatim>\<open>withdrawal\<close> variable leave
  \<open>withdrawalVar\<close> at 0.\<close>

definition strategyConstantPercent ::
  "inputs \<Rightarrow> bool \<Rightarrow> entropy \<Rightarrow> nat \<Rightarrow> (simulationResult \<times> nat) option" where
  "strategyConstantPercent inputs deterministic src k =
     (let years = planningAge inputs - retirementAge inputs;
          st0 = \<lparr> portfolio = startingPortfolio inputs, withdrawalVar = 0,
                  yearResults = [], ruinedVar = False, ruinAgeVar = None, rngPos = k,
                  portfolioNegZero = (startingPortfolio inputs = 0 \<and> startingPortfolioNegZero inputs) \<rparr>
      in map_option resultOf (forLoop (constantPercentYear inputs deterministic src) years 0 st0))"

subsection \<open>Variable percentage withdrawal\<close>

definition vpwYear :: "inputs \<Rightarrow> bool \<Rightarrow> entropy \<Rightarrow> nat \<Rightarrow> loopState \<Rightarrow> loopState option" where
  "vpwYear inputs deterministic src i st =
     (let inflationMultiplier = 1 + inflationRate inputs / 100;
          baseMinSpending = orZero (minSpending inputs);
          baseMaxSpending = orZero (maxSpending inputs);
          baseStartingWithdrawal = orZero (startingWithdrawal inputs);
          age = retirementAge inputs + int i;
          portfolioStart = portfolio st;
          inflationAdjustedMinSpending = baseMinSpending * inflationMultiplier ^ i;
          inflationAdjustedMaxSpending =
            (if baseMaxSpending > 0 then Some (baseMaxSpending * inflationMultiplier ^ i) else None);
          isExpenseYear = ((i + 1) mod 5 = 0);
          oneTimeExpenseThisYear =
            (if isExpenseYear then orZero (oneTimeExpense inputs) * inflationMultiplier ^ i else 0);
          ssYearsReceiving = max 0 (age - ssStartAge inputs);
          ss = (if age \<ge> ssStartAge inputs
                then socialSecurity inputs * inflationMultiplier ^ nat ssYearsReceiving else 0);
          yearsRemaining = planningAge inputs - age;
          vpwPct = vpwPercentage yearsRemaining 60;
          vpwWithdrawal = portfolio st * (vpwPct / 100);
          targetWithdrawal0 =
            (if i = 0 \<and> baseStartingWithdrawal > 0 then baseStartingWithdrawal else vpwWithdrawal);
          targetWithdrawal1 = max targetWithdrawal0 inflationAdjustedMinSpending;
          targetWithdrawal2 = minCap targetWithdrawal1 inflationAdjustedMaxSpending;
          netWithdrawal = max 0 (targetWithdrawal2 - ss) + oneTimeExpenseThisYear;
          portfolio1 = portfolio st - netWithdrawal;
          negZero1 = subNegZero (portfolio st) (portfolioNegZero st) netWithdrawal;
          portfolio2 = (if portfolio1 < 0 then 0 else portfolio1);
          negZero2 = (if portfolio1 < 0 then False else negZero1);
          ruined1 = (if portfolio1 < 0 \<and> \<not> ruinedVar st then True else ruinedVar st);
          ruinAge1 = (if portfolio1 < 0 \<and> \<not> ruinedVar st then Some age else ruinAgeVar st)
      in case generateReturn (expectedReturn inputs) (volatility inputs) deterministic src (rngPos st) of
           None \<Rightarrow> None
         | Some (returnFraction, k') \<Rightarrow>
             (let portfolio3 = portfolio2 * (1 + returnFraction);
                  negZero3 = mulNegZero portfolio2 negZero2 (1 + returnFraction);
                  record = \<lparr> year = i, age = age, portfolioStart = portfolioStart,
                             returnPct = returnFraction * 100, withdrawal = netWithdrawal,
                             portfolioEnd = portfolio3, ruinedYear = (portfolio3 \<le> 0),
                             ssReceived = None, baseWithdrawal = None,
                             targetWithdrawal = Some targetWithdrawal2, vpwPct = Some vpwPct,
                             currentRate = None, lifeExp = None, rmdWithdrawal = None \<rparr>;
                  ruined2 = (if portfolio3 \<le> 0 \<and> \<not> ruined1 then True else ruined1);
                  ruinAge2 = (if portfolio3 \<le> 0 \<and> \<not> ruined1 then Some age else ruinAge1)
              in Some \<lparr> portfolio = portfolio3,
                        withdrawalVar = withdrawalVar st,
                        yearResults = yearResults st @ [record],
                        ruinedVar = ruined2, ruinAgeVar = ruinAge2, rngPos = k',
                        portfolioNegZero = negZero3 \<rparr>))"

definition strategyVPW ::
  "inputs \<Rightarrow> bool \<Rightarrow> entropy \<Rightarrow> nat \<Rightarrow> (simulationResult \<times> nat) option" where
  "strategyVPW inputs deterministic src k =
     (let years = planningAge inputs - retirementAge inputs;
          st0 = \<lparr> portfolio = startingPortfolio inputs, withdrawalVar = 0,
                  yearResults = [], ruinedVar = False, ruinAgeVar = None, rngPos = k,
                  portfolioNegZero = (startingPortfolio inputs = 0 \<and> startingPortfolioNegZero inputs) \<rparr>
      in map_option resultOf (forLoop (vpwYear inputs deterministic src) years 0 st0))"

subsection \<open>Guardrails\<close>

definition guardrailsYear :: "inputs \<Rightarrow> bool \<Rightarrow> entropy \<Rightarrow> nat \<Rightarrow> loopState \<Rightarrow> loopState option" where
  "guardrailsYear inputs deterministic src i st =
     (let initialRate = 5.0;
          upperGuardrail = initialRate * 1.20;
          lowerGuardrail = initialRate * 0.80;
          adjustmentFactor = 0.10;
          inflationMultiplier = 1 + inflationRate inputs / 100;
          baseMinSpending = orZero (minSpending inputs);
          baseMaxSpending = orZero (maxSpending inputs);
          age = retirementAge inputs + int i;
          portfolioStart = portfolio st;
          inflationAdjustedMinSpending = baseMinSpending * inflationMultiplier ^ i;
          inflationAdjustedMaxSpending =
            (if baseMaxSpending > 0 then Some (baseMaxSpending * inflationMultiplier ^ i) else None);
          isExpenseYear = ((i + 1) mod 5 = 0);
          oneTimeExpenseThisYear =
            (if isExpenseYear then orZero (oneTimeExpense inputs) * inflationMultiplier ^ i else 0);
          ssYearsReceiving = max 0 (age - ssStartAge inputs);
          ss = (if age \<ge> ssStartAge inputs
                then socialSecurity inputs * inflationMultiplier ^ nat ssYearsReceiving else 0);
          currentRate = jsTimes100 (jsDiv (withdrawalVar st) portfolioStart (portfolioNegZero st));
          skipGuardrailsYear1 = (i = 0 \<and> truthyPositive (startingWithdrawal inputs));
          withdrawal1 =
            (if \<not> skipGuardrailsYear1
             then (if jsGreater currentRate upperGuardrail
                   then withdrawalVar st * (1 - adjustmentFactor)
                   else if jsLess currentRate lowerGuardrail \<and> portfolio st > 0
                   then withdrawalVar st * (1 + adjustmentFactor)
                   else withdrawalVar st)
             else withdrawalVar st);
          withdrawal2 = max withdrawal1 inflationAdjustedMinSpending;
          withdrawal3 = minCap withdrawal2 inflationAdjustedMaxSpending;
          netWithdrawal = max 0 (withdrawal3 - ss) + oneTimeExpenseThisYear;
          portfolio1 = portfolio st - netWithdrawal;
          negZero1 = subNegZero (portfolio st) (portfolioNegZero st) netWithdrawal;
          portfolio2 = (if portfolio1 < 0 then 0 else portfolio1);
          negZero2 = (if portfolio1 < 0 then False else negZero1);
          ruined1 = (if portfolio1 < 0 \<and> \<not> ruinedVar st then True else ruinedVar st);
          ruinAge1 = (if portfolio1 < 0 \<and> \<not> ruinedVar st then Some age else ruinAgeVar st)
      in case generateReturn (expectedReturn inputs) (volatility inputs) deterministic src (rngPos st) of
           None \<Rightarrow> None
         | Some (returnFraction, k') \<Rightarrow>
             (let portfolio3 = portfolio2 * (1 + returnFraction);
                  negZero3 = mulNegZero portfolio2 negZero2 (1 + returnFraction);
                  record = \<lparr> year = i, age = age, portfolioStart = portfolioStart,
                             returnPct = returnFraction * 100, withdrawal = netWithdrawal,
                             portfolioEnd = portfolio3, ruinedYear = (portfolio3 \<le> 0),
                             ssReceived = None, baseWithdrawal = Some withdrawal3,
                             targetWithdrawal = None, vpwPct = None,
                             currentRate = Some currentRate, lifeExp = None,
                             rmdWithdrawal = None \<rparr>;
                  ruined2 = (if portfolio3 \<le> 0 \<and> \<not> ruined1 then True else ruined1);
                  ruinAge2 = (if portfolio3 \<le> 0 \<and> \<not> ruined1 then Some age else ruinAge1)
              in Some \<lparr> portfolio = portfolio3,
                        withdrawalVar = withdrawal3 * inflationMultiplier,
                        yearResults = yearResults st @ [record],
                        ruinedVar = ruined2, ruinAgeVar = ruinAge2, rngPos = k',
                        portfolioNegZero = negZero3 \<rparr>))"

definition strategyGuardrails ::
  "inputs \<Rightarrow> bool \<Rightarrow> entropy \<Rightarrow> nat \<Rightarrow> (simulationResult \<times> nat) option" where
  "strategyGuardrails inputs deterministic src k =
     (let years = planningAge inputs - retirementAge inputs;
          initialRate = 5.0;
          baseMinSpending = orZero (minSpending inputs);
          baseMaxSpending = orZero (maxSpending inputs);
          baseWithdrawal =
            (if truthyPositive (startingWithdrawal inputs)
             then orZero (startingWithdrawal inputs)
             else startingPortfolio inputs * (initialRate / 100));
          withdrawal0 = max baseWithdrawal baseMinSpending;
          withdrawal1 = (if baseMaxSpending > 0 then min withdrawal0 baseMaxSpending else withdrawal0);
          st0 = \<lparr> portfolio = startingPortfolio inputs, withdrawalVar = withdrawal1,
                  yearResults = [], ruinedVar = False, ruinAgeVar = None, rngPos = k,
                  portfolioNegZero = (startingPortfolio inputs = 0 \<and> startingPortfolioNegZero inputs) \<rparr>
      in map_option resultOf (forLoop (guardrailsYear inputs deterministic src) years 0 st0))"

subsection \<open>Required minimum distribution\<close>

definition rmdYear :: "inputs \<Rightarrow> bool \<Rightarrow> entropy \<Rightarrow> nat \<Rightarrow> loopState \<Rightarrow> loopState option" where
  "rmdYear inputs deterministic src i st =
     (let inflationMultiplier = 1 + inflationRate inputs / 100;
          baseMinSpending = orZero (minSpending inputs);
          baseMaxSpending = orZero (maxSpending inputs);
          baseStartingWithdrawal = orZero (startingWithdrawal inputs);
          age = retirementAge inputs + int i;
          portfolioStart = portfolio st;
          inflationAdjustedMinSpending = baseMinSpending * inflationMultiplier ^ i;
          inflationAdjustedMaxSpending =
            (if baseMaxSpending > 0 then Some (baseMaxSpending * inflationMultiplier ^ i) else None);
          isExpenseYear = ((i + 1) mod 5 = 0);
          oneTimeExpenseThisYear =
            (if isExpenseYear then orZero (oneTimeExpense inputs) * inflationMultiplier ^ i else 0);
          ssYearsReceiving = max 0 (age - ssStartAge inputs);
          ss = (if age \<ge> ssStartAge inputs
                then socialSecurity inputs * inflationMultiplier ^ nat ssYearsReceiving else 0);
          lifeExp = lifeExpectancy age;
          rmdWithdrawal = portfolio st / real_of_int lifeExp;
          targetWithdrawal0 =
            (if i = 0 \<and> baseStartingWithdrawal > 0 then baseStartingWithdrawal else rmdWithdrawal);
          targetWithdrawal1 = max targetWithdrawal0 inflationAdjustedMinSpending;
          targetWithdrawal2 = minCap targetWithdrawal1 inflationAdjustedMaxSpending;
          netWithdrawal = max 0 (targetWithdrawal2 - ss) + oneTimeExpenseThisYear;
          portfolio1 = portfolio st - netWithdrawal;
          negZero1 = subNegZero (portfolio st) (portfolioNegZero st) netWithdrawal;
          portfolio2 = (if portfolio1 < 0 then 0 else portfolio1);
          negZero2 = (if portfolio1 < 0 then False else negZero1);
          ruined1 = (if portfolio1 < 0 \<and> \<not> ruinedVar st then True else ruinedVar st);
          ruinAge1 = (if portfolio1 < 0 \<and> \<not> ruinedVar st then Some age else ruinAgeVar st)
      in case generateReturn (expectedReturn inputs) (volatility inputs) deterministic src (rngPos st) of
           None \<Rightarrow> None
         | Some (returnFraction, k') \<Rightarrow>
             (let portfolio3 = portfolio2 * (1 + returnFraction);
                  negZero3 = mulNegZero portfolio2 negZero2 (1 + returnFraction);
                  record = \<lparr> year = i, age = age, portfolioStart = portfolioStart,
                             returnPct = returnFraction * 100, withdrawal = netWithdrawal,
                             portfolioEnd = portfolio3, ruinedYear = (portfolio3 \<le> 0),
                             ssReceived = None, baseWithdrawal = None,
                             targetWithdrawal = Some targetWithdrawal2, vpwPct = None,
                             currentRate = None, lifeExp = Some lifeExp,
                             rmdWithdrawal = Some rmdWithdrawal \<rparr>;
                  ruined2 = (if portfolio3 \<le> 0 \<and> \<not> ruined1 then True else ruined1);
                  ruinAge2 = (if portfolio3 \<le> 0 \<and> \<not> ruined1 then Some age else ruinAge1)
              in Some \<lparr> portfolio = portfolio3,
                        withdrawalVar = withdrawalVar st,
                        yearResults = yearResults st @ [record],
                        ruinedVar = ruined2, ruinAgeVar = ruinAge2, rngPos = k',
                        portfolioNegZero = negZero3 \<rparr>))"

definition strategyRMD ::
  "inputs \<Rightarrow> bool \<Rightarrow> entropy \<Rightarrow> nat \<Rightarrow> (simulationResult \<times> nat) option" where
  "strategyRMD inputs deterministic src k =
     (let years = planningAge inputs - retirementAge inputs;
          st0 = \<lparr> portfolio = startingPortfolio inputs, withdrawalVar = 0,
                  yearResults = [], ruinedVar = False, ruinAgeVar = None, rngPos = k,
                  portfolioNegZero = (startingPortfolio inputs = 0 \<and> startingPortfolioNegZero inputs) \<rparr>
      in map_option resultOf (forLoop (rmdYear inputs deterministic src) years 0 st0))"

text \<open>The five strategy methods of the \<^verbatim>\<open>Simulation\<close> object.\<close>

definition strategies ::
  "(inputs \<Rightarrow> bool \<Rightarrow> entropy \<Rightarrow> nat \<Rightarrow> (simulationResult \<times> nat) option) list" where
  "strategies =
     [strategyConstantReal, strategyConstantPercent, strategyVPW, strategyGuardrails, strategyRMD]"

subsection \<open>Vocabulary for the statements\<close>

text \<open>The quantities of year \<open>i\<close> that every strategy computes from the inputs alone:
  the inflation-adjusted one-time expense, Social Security, spending floor and spending
  ceiling (\<open>None\<close> for no ceiling), the clamp of a target between floor and ceiling
  (floor first), and the net withdrawal for a target.\<close>

definition oneTimeExpenseAt :: "inputs \<Rightarrow> nat \<Rightarrow> real" where
  "oneTimeExpenseAt inputs i =
     (if (i + 1) mod 5 = 0
      then orZero (oneTimeExpense inputs) * (1 + inflationRate inputs / 100) ^ i else 0)"

definition ssAt :: "inputs \<Rightarrow> nat \<Rightarrow> real" where
  "ssAt inputs i =
     (if retirementAge inputs + int i \<ge> ssStartAge inputs
      then socialSecurity inputs *
           (1 + inflationRate inputs / 100) ^ nat (max 0 (retirementAge inputs + int i - ssStartAge inputs))
      else 0)"

definition floorAt :: "inputs \<Rightarrow> nat \<Rightarrow> real" where
  "floorAt inputs i = orZero (minSpending inputs) * (1 + inflationRate inputs / 100) ^ i"

definition capAt :: "inputs \<Rightarrow> nat \<Rightarrow> real option" where
  "capAt inputs i =
     (if orZero (maxSpending inputs) > 0
      then Some (orZero (maxSpending inputs) * (1 + inflationRate inputs / 100) ^ i) else None)"

definition clampSpend :: "inputs \<Rightarrow> nat \<Rightarrow> real \<Rightarrow> real" where
  "clampSpend inputs i t = minCap (max t (floorAt inputs i)) (capAt inputs i)"

definition netOf :: "inputs \<Rightarrow> nat \<Rightarrow> real \<Rightarrow> real" where
  "netOf inputs i t = max 0 (t - ssAt inputs i) + oneTimeExpenseAt inputs i"

text \<open>The part of a loop body that all strategies share, from
  \<^verbatim>\<open>portfolio -= netWithdrawal\<close> to the end: \<open>mk\<close> builds the year's record from
  the return and the end balance, \<open>wnext\<close> is the next value of the carried
  \<^verbatim>\<open>withdrawal\<close> variable.\<close>

definition settleYear ::
  "inputs \<Rightarrow> bool \<Rightarrow> entropy \<Rightarrow> nat \<Rightarrow> real \<Rightarrow> (real \<Rightarrow> real \<Rightarrow> yearRecord) \<Rightarrow> real \<Rightarrow>
   loopState \<Rightarrow> loopState option" where
  "settleYear inputs deterministic src i netWithdrawal mk wnext st =
     (let age = retirementAge inputs + int i;
          portfolio1 = portfolio st - netWithdrawal;
          negZero1 = subNegZero (portfolio st) (portfolioNegZero st) netWithdrawal;
          portfolio2 = (if portfolio1 < 0 then 0 else portfolio1);
          negZero2 = (if portfolio1 < 0 then False else negZero1);
          ruined1 = (if portfolio1 < 0 \<and> \<not> ruinedVar st then True else ruinedVar st);
          ruinAge1 = (if portfolio1 < 0 \<and> \<not> ruinedVar st then Some age else ruinAgeVar st)
      in case generateReturn (expectedReturn inputs) (volatility inputs) deterministic src (rngPos st) of
           None \<Rightarrow> None
         | Some (returnFraction, k') \<Rightarrow>
             (let portfolio3 = portfolio2 * (1 + returnFraction);
                  negZero3 = mulNegZero portfolio2 negZero2 (1 + returnFraction);
                  ruined2 = (if portfolio3 \<le> 0 \<and> \<not> ruined1 then True else ruined1);
                  ruinAge2 = (if portfolio3 \<le> 0 \<and> \<not> ruined1 then Some age else ruinAge1)
              in Some \<lparr> portfolio = portfolio3,
                        withdrawalVar = wnext,
                        yearResults = yearResults st @ [mk returnFraction portfolio3],
                        ruinedVar = ruined2, ruinAgeVar = ruinAge2, rngPos = k',
                        portfolioNegZero = negZero3 \<rparr>))"

text \<open>The end balance of a year: the overdraft clamp, then the return.\<close>

definition endBalance :: "real \<Rightarrow> real \<Rightarrow> real \<Rightarrow> real" where
  "endBalance p net r = (if p - net < 0 then 0 else p - net) * (1 + r)"

text \<open>What one iteration of any strategy's loop does to the loop variables, read off the
  record it appends.\<close>

definition yearStep :: "inputs \<Rightarrow> bool \<Rightarrow> nat \<Rightarrow> loopState \<Rightarrow> loopState \<Rightarrow> bool" where
  "yearStep inputs det i st st' =
     (let rec = last (yearResults st');
          p3 = endBalance (portfolio st) (withdrawal rec) (returnPct rec / 100)
      in yearResults st' = yearResults st @ [rec] \<and> year rec = i
         \<and> age rec = retirementAge inputs + int i
         \<and> portfolioStart rec = portfolio st
         \<and> oneTimeExpenseAt inputs i \<le> withdrawal rec
         \<and> portfolioEnd rec = p3 \<and> ruinedYear rec = (p3 \<le> 0) \<and> portfolio st' = p3
         \<and> ruinedVar st' = (ruinedVar st \<or> p3 \<le> 0)
         \<and> ruinAgeVar st' = (if \<not> ruinedVar st \<and> p3 \<le> 0 then Some (age rec) else ruinAgeVar st)
         \<and> (det \<longrightarrow> returnPct rec = expectedReturn inputs \<and> rngPos st' = rngPos st))"

text \<open>The loop variables before the first year, for an initial carried withdrawal.\<close>

definition initState :: "inputs \<Rightarrow> real \<Rightarrow> nat \<Rightarrow> loopState" where
  "initState inputs w0 k =
     \<lparr> portfolio = startingPortfolio inputs, withdrawalVar = w0,
       yearResults = [], ruinedVar = False, ruinAgeVar = None, rngPos = k,
       portfolioNegZero = (startingPortfolio inputs = 0 \<and> startingPortfolioNegZero inputs) \<rparr>"

text \<open>The targets before clamping, and the initial carried withdrawal of the two
  strategies that carry one.\<close>

definition capCR :: "inputs \<Rightarrow> nat \<Rightarrow> real \<Rightarrow> real" where
  "capCR inputs i w =
     (if orZero (maxSpending inputs) > 0
      then min w (orZero (maxSpending inputs) * (1 + inflationRate inputs / 100) ^ i) else w)"

definition initialCR :: "inputs \<Rightarrow> real" where
  "initialCR inputs =
     (if truthyPositive (maxSpending inputs)
      then min (max (if truthyPositive (startingWithdrawal inputs)
                     then orZero (startingWithdrawal inputs)
                     else startingPortfolio inputs * (4.5 / 100))
                    (orZero (minSpending inputs)))
               (orZero (maxSpending inputs))
      else max (if truthyPositive (startingWithdrawal inputs)
                then orZero (startingWithdrawal inputs)
                else startingPortfolio inputs * (4.5 / 100))
               (orZero (minSpending inputs)))"

definition initialGuardrails :: "inputs \<Rightarrow> real" where
  "initialGuardrails inputs =
     (if orZero (maxSpending inputs) > 0
      then min (max (if truthyPositive (startingWithdrawal inputs)
                     then orZero (startingWithdrawal inputs)
                     else startingPortfolio inputs * (5.0 / 100))
                    (orZero (minSpending inputs)))
               (orZero (maxSpending inputs))
      else max (if truthyPositive (startingWithdrawal inputs)
                then orZero (startingWithdrawal inputs)
                else startingPortfolio inputs * (5.0 / 100))
               (orZero (minSpending inputs)))"

definition rawConstantPercent :: "inputs \<Rightarrow> nat \<Rightarrow> real \<Rightarrow> real" where
  "rawConstantPercent inputs i p =
     (if i = 0 \<and> orZero (startingWithdrawal inputs) > 0
      then orZero (startingWithdrawal inputs) else p * (4.0 / 100))"

definition rawVPW :: "inputs \<Rightarrow> nat \<Rightarrow> real \<Rightarrow> real" where
  "rawVPW inputs i p =
     (if i = 0 \<and> orZero (startingWithdrawal inputs) > 0
      then orZero (startingWithdrawal inputs)
      else p * (vpwPercentage (planningAge inputs - (retirementAge inputs + int i)) 60 / 100))"

definition rawRMD :: "inputs \<Rightarrow> nat \<Rightarrow> real \<Rightarrow> real" where
  "rawRMD inputs i p =
     (if i = 0 \<and> orZero (startingWithdrawal inputs) > 0
      then orZero (startingWithdrawal inputs)
      else p / real_of_int (lifeExpectancy (retirementAge inputs + int i)))"

definition guardrailRate :: "real \<Rightarrow> real \<Rightarrow> bool \<Rightarrow> jsnum" where
  "guardrailRate w p pNegZero = jsTimes100 (jsDiv w p pNegZero)"

definition guardrailAdjust :: "inputs \<Rightarrow> nat \<Rightarrow> real \<Rightarrow> real \<Rightarrow> bool \<Rightarrow> real" where
  "guardrailAdjust inputs i w p pNegZero =
     (if \<not> (i = 0 \<and> truthyPositive (startingWithdrawal inputs))
      then (if jsGreater (guardrailRate w p pNegZero) (5.0 * 1.20) then w * (1 - 0.10)
            else if jsLess (guardrailRate w p pNegZero) (5.0 * 0.80) \<and> p > 0 then w * (1 + 0.10)
            else w)
      else w)"

text \<open>The withdrawal target a year record reports: \<^verbatim>\<open>targetWithdrawal\<close> where the
  strategy writes it, else \<^verbatim>\<open>baseWithdrawal\<close>.\<close>

definition targetOf :: "yearRecord \<Rightarrow> real" where
  "targetOf y =
     (case targetWithdrawal y of
        Some t \<Rightarrow> t
      | None \<Rightarrow> (case baseWithdrawal y of Some b \<Rightarrow> b | None \<Rightarrow> 0))"

text \<open>The amount carried into year \<open>j\<close> by the two strategies that carry one: the
  initial amount in the first year, afterwards the previous year's target times the
  inflation multiplier.\<close>

definition carriedInto :: "inputs \<Rightarrow> real \<Rightarrow> yearRecord list \<Rightarrow> nat \<Rightarrow> real" where
  "carriedInto inputs w0 ys j =
     (if j = 0 then w0 else targetOf (ys ! (j - 1)) * (1 + inflationRate inputs / 100))"

text \<open>The constant real strategy's amount before the initial floor and ceiling.\<close>

definition baseCR :: "inputs \<Rightarrow> real" where
  "baseCR inputs =
     (if truthyPositive (startingWithdrawal inputs)
      then orZero (startingWithdrawal inputs)
      else startingPortfolio inputs * (4.5 / 100))"

text \<open>The guardrail rule in the words of the specification, for the baseline \<open>w\<close>, the
  year's rate and the start balance \<open>p\<close>: against the guardrails 6.0 and 4.0, a cut or a
  raise of 10 percent, skipped in the first year when a starting withdrawal above zero
  was supplied.\<close>

definition guardrailRule_spec :: "inputs \<Rightarrow> nat \<Rightarrow> real \<Rightarrow> jsnum \<Rightarrow> real \<Rightarrow> real" where
  "guardrailRule_spec inputs j w rate p =
     (if j = 0 \<and> truthyPositive (startingWithdrawal inputs) then w
      else if jsGreater rate 6.0 then w * 0.9
      else if jsLess rate 4.0 \<and> p > 0 then w * 1.1
      else w)"

text \<open>The sign of the zero of a year's end balance, from the start balance \<open>p\<close>, the sign
  of its zero, the net withdrawal and the return: the three assignments of the shared
  part.\<close>

definition endNegZero :: "real \<Rightarrow> bool \<Rightarrow> real \<Rightarrow> real \<Rightarrow> bool" where
  "endNegZero p pNegZero net r =
     mulNegZero (if p - net < 0 then 0 else p - net)
       (if p - net < 0 then False else subNegZero p pNegZero net) (1 + r)"

text \<open>Whether the balance at the start of year \<open>j\<close> is the negative zero, read off the
  year records before it.\<close>

fun startNegZero :: "inputs \<Rightarrow> yearRecord list \<Rightarrow> nat \<Rightarrow> bool" where
  "startNegZero inputs ys 0 = (startingPortfolio inputs = 0 \<and> startingPortfolioNegZero inputs)"
| "startNegZero inputs ys (Suc j) =
     endNegZero (portfolioStart (ys ! j)) (startNegZero inputs ys j) (withdrawal (ys ! j))
       (returnPct (ys ! j) / 100)"

subsection \<open>The shared part in rounded arithmetic\<close>

text \<open>How far the withdrawals and the balance add up to the starting portfolio is a
  matter of the rounding of doubles. For that question the shared part of the loop
  bodies is modelled once more, in deterministic mode, with every arithmetic operation
  rounded: \<open>rnd\<close> takes the exact result of an operation to the number the operation
  returns. What differs between the strategies, and is itself computed in rounded
  arithmetic, is a parameter: the year's net withdrawal, the strategy's own fields of
  the year record, and the next value of the carried \<^verbatim>\<open>withdrawal\<close> variable. The
  sign of a zero is as before.\<close>

definition settleYearRounded ::
  "(real \<Rightarrow> real) \<Rightarrow> inputs \<Rightarrow> nat \<Rightarrow> real \<Rightarrow> yearRecord \<Rightarrow> real \<Rightarrow> loopState \<Rightarrow> loopState" where
  "settleYearRounded rnd inputs i netWithdrawal strategyFields wnext st =
     (let age = retirementAge inputs + int i;
          portfolioStart = portfolio st;
          portfolio1 = rnd (portfolio st - netWithdrawal);
          negZero1 = subNegZero (portfolio st) (portfolioNegZero st) netWithdrawal;
          portfolio2 = (if portfolio1 < 0 then 0 else portfolio1);
          negZero2 = (if portfolio1 < 0 then False else negZero1);
          ruined1 = (if portfolio1 < 0 \<and> \<not> ruinedVar st then True else ruinedVar st);
          ruinAge1 = (if portfolio1 < 0 \<and> \<not> ruinedVar st then Some age else ruinAgeVar st);
          returnFraction = rnd (expectedReturn inputs / 100);
          portfolio3 = rnd (portfolio2 * rnd (1 + returnFraction));
          negZero3 = mulNegZero portfolio2 negZero2 (rnd (1 + returnFraction));
          record = strategyFields \<lparr> year := i, age := age, portfolioStart := portfolioStart,
                            returnPct := rnd (returnFraction * 100), withdrawal := netWithdrawal,
                            portfolioEnd := portfolio3, ruinedYear := (portfolio3 \<le> 0) \<rparr>;
          ruined2 = (if portfolio3 \<le> 0 \<and> \<not> ruined1 then True else ruined1);
          ruinAge2 = (if portfolio3 \<le> 0 \<and> \<not> ruined1 then Some age else ruinAge1)
      in \<lparr> portfolio = portfolio3, withdrawalVar = wnext,
           yearResults = yearResults st @ [record],
           ruinedVar = ruined2, ruinAgeVar = ruinAge2, rngPos = rngPos st,
           portfolioNegZero = negZero3 \<rparr>)"

text \<open>\<^verbatim>\<open>yearResults.reduce((sum, y) => sum + y.withdrawal, 0)\<close> and the object a
  strategy returns, with the sum rounded at every step.\<close>

definition sumWithdrawalsRounded :: "(real \<Rightarrow> real) \<Rightarrow> yearRecord list \<Rightarrow> real" where
  "sumWithdrawalsRounded rnd ys = foldl (\<lambda>sum y. rnd (sum + withdrawal y)) 0 ys"

definition resultOfRounded :: "(real \<Rightarrow> real) \<Rightarrow> loopState \<Rightarrow> simulationResult \<times> nat" where
  "resultOfRounded rnd st =
     (\<lparr> years = yearResults st,
        finalBalance = portfolio st,
        totalWithdrawals = sumWithdrawalsRounded rnd (yearResults st),
        ruined = ruinedVar st,
        ruinAge = ruinAgeVar st \<rparr>, rngPos st)"

text \<open>A strategy in rounded arithmetic: the year loop over the shared part, for the
  strategy's net withdrawal \<open>net\<close>, record fields \<open>strategyFields\<close> and carried
  withdrawal \<open>wnext\<close>, each a function of the year and the loop variables, and its
  initial carried withdrawal \<open>w0\<close>.\<close>

definition roundedRun ::
  "(real \<Rightarrow> real) \<Rightarrow> inputs \<Rightarrow> (nat \<Rightarrow> loopState \<Rightarrow> real) \<Rightarrow> (nat \<Rightarrow> loopState \<Rightarrow> yearRecord)
   \<Rightarrow> (nat \<Rightarrow> loopState \<Rightarrow> real) \<Rightarrow> real \<Rightarrow> nat \<Rightarrow> (simulationResult \<times> nat) option" where
  "roundedRun rnd inputs net strategyFields wnext w0 k =
     map_option (resultOfRounded rnd)
       (forLoop (\<lambda>i st. Some (settleYearRounded rnd inputs i (net i st) (strategyFields i st) (wnext i st) st))
          (planningAge inputs - retirementAge inputs) 0 (initState inputs w0 k))"

subsection \<open>Example inputs\<close>

text \<open>An entropy source for the deterministic examples, which read nothing from it.\<close>

definition silentSource :: entropy where
  "silentSource = (\<lambda>_. 0)"

definition lateInputs :: inputs where
  "lateInputs = \<lparr> retirementAge = 99, planningAge = 100, startingPortfolio = 1000,
     expectedReturn = 0, volatility = 0, inflationRate = 0, socialSecurity = 0, ssStartAge = 67,
     oneTimeExpense = Some 0, minSpending = Some 0, maxSpending = None,
     startingWithdrawal = None,
     startingPortfolioNegZero = False \<rparr>"

definition lateResult :: simulationResult where
  "lateResult = \<lparr> years = [\<lparr> year = 0, age = 99, portfolioStart = 1000, returnPct = 0,
                         withdrawal = 500, portfolioEnd = 500, ruinedYear = False,
                         ssReceived = None, baseWithdrawal = None, targetWithdrawal = Some 500,
                         vpwPct = None, currentRate = None, lifeExp = Some 2,
                         rmdWithdrawal = Some 500 \<rparr>],
              finalBalance = 500, totalWithdrawals = 500, ruined = False, ruinAge = None \<rparr>"

text \<open>The suites' reference scenario: one million at 6 percent return and 2.5 percent
  inflation, no Social Security, cut down to two years.\<close>

definition twoYearInputs :: inputs where
  "twoYearInputs = \<lparr> retirementAge = 65, planningAge = 67, startingPortfolio = 1000000,
     expectedReturn = 6, volatility = 0, inflationRate = 2.5, socialSecurity = 0,
     ssStartAge = 67, oneTimeExpense = Some 0, minSpending = Some 0, maxSpending = Some 0,
     startingWithdrawal = None,
     startingPortfolioNegZero = False \<rparr>"

definition twoYearResult :: simulationResult where
  "twoYearResult =
     \<lparr> years =
         [\<lparr> year = 0, age = 65, portfolioStart = 1000000, returnPct = 6, withdrawal = 45000,
             portfolioEnd = 1012300, ruinedYear = False, ssReceived = Some 0,
             baseWithdrawal = Some 45000, targetWithdrawal = None, vpwPct = None,
             currentRate = None, lifeExp = None, rmdWithdrawal = None \<rparr>,
          \<lparr> year = 1, age = 66, portfolioStart = 1012300, returnPct = 6, withdrawal = 46125,
             portfolioEnd = 2048291 / 2, ruinedYear = False, ssReceived = Some 0,
             baseWithdrawal = Some 46125, targetWithdrawal = None, vpwPct = None,
             currentRate = None, lifeExp = None, rmdWithdrawal = None \<rparr>],
       finalBalance = 2048291 / 2, totalWithdrawals = 91125, ruined = False, ruinAge = None \<rparr>"



text \<open>The suites' all-zero scenario (no return, no inflation, no Social Security) with a
  spending floor that the portfolio carries for less than two years.\<close>

definition overdrawnInputs :: inputs where
  "overdrawnInputs = \<lparr> retirementAge = 65, planningAge = 68, startingPortfolio = 100000,
     expectedReturn = 0, volatility = 0, inflationRate = 0, socialSecurity = 0,
     ssStartAge = 70, oneTimeExpense = Some 0, minSpending = Some 60000,
     maxSpending = None, startingWithdrawal = None,
     startingPortfolioNegZero = False \<rparr>"

definition overdrawnResult :: simulationResult where
  "overdrawnResult =
     \<lparr> years =
         [\<lparr> year = 0, age = 65, portfolioStart = 100000, returnPct = 0, withdrawal = 60000,
             portfolioEnd = 40000, ruinedYear = False, ssReceived = Some 0,
             baseWithdrawal = Some 60000, targetWithdrawal = None, vpwPct = None,
             currentRate = None, lifeExp = None, rmdWithdrawal = None \<rparr>,
          \<lparr> year = 1, age = 66, portfolioStart = 40000, returnPct = 0, withdrawal = 60000,
             portfolioEnd = 0, ruinedYear = True, ssReceived = Some 0,
             baseWithdrawal = Some 60000, targetWithdrawal = None, vpwPct = None,
             currentRate = None, lifeExp = None, rmdWithdrawal = None \<rparr>,
          \<lparr> year = 2, age = 67, portfolioStart = 0, returnPct = 0, withdrawal = 60000,
             portfolioEnd = 0, ruinedYear = True, ssReceived = Some 0,
             baseWithdrawal = Some 60000, targetWithdrawal = None, vpwPct = None,
             currentRate = None, lifeExp = None, rmdWithdrawal = None \<rparr>],
       finalBalance = 0, totalWithdrawals = 180000, ruined = True, ruinAge = Some 66 \<rparr>"

text \<open>The same scenario without the floor: the default 4.5 percent for two years.\<close>

definition flatInputs :: inputs where
  "flatInputs = \<lparr> retirementAge = 65, planningAge = 67, startingPortfolio = 100000,
     expectedReturn = 0, volatility = 0, inflationRate = 0, socialSecurity = 0,
     ssStartAge = 70, oneTimeExpense = Some 0, minSpending = Some 0,
     maxSpending = None, startingWithdrawal = None,
     startingPortfolioNegZero = False \<rparr>"

definition flatResult :: simulationResult where
  "flatResult =
     \<lparr> years =
         [\<lparr> year = 0, age = 65, portfolioStart = 100000, returnPct = 0, withdrawal = 4500,
             portfolioEnd = 95500, ruinedYear = False, ssReceived = Some 0,
             baseWithdrawal = Some 4500, targetWithdrawal = None, vpwPct = None,
             currentRate = None, lifeExp = None, rmdWithdrawal = None \<rparr>,
          \<lparr> year = 1, age = 66, portfolioStart = 95500, returnPct = 0, withdrawal = 4500,
             portfolioEnd = 91000, ruinedYear = False, ssReceived = Some 0,
             baseWithdrawal = Some 4500, targetWithdrawal = None, vpwPct = None,
             currentRate = None, lifeExp = None, rmdWithdrawal = None \<rparr>],
       finalBalance = 91000, totalWithdrawals = 9000, ruined = False, ruinAge = None \<rparr>"

text \<open>One year at 5 percent expected return and the volatility of 100 that the suites
  run, on an entropy source whose first two values make the Box-Muller deviate -2; and one
  deterministic year at an expected return of -200 percent.\<close>

definition crashInputs :: inputs where
  "crashInputs = \<lparr> retirementAge = 65, planningAge = 66, startingPortfolio = 1000,
     expectedReturn = 5, volatility = 100, inflationRate = 0, socialSecurity = 0,
     ssStartAge = 67, oneTimeExpense = Some 0, minSpending = Some 0,
     maxSpending = None, startingWithdrawal = None,
     startingPortfolioNegZero = False \<rparr>"

definition crashSource :: entropy where
  "crashSource = (\<lambda>n. if n = 0 then exp (- 2) else 1 / 2)"

definition crashResult :: simulationResult where
  "crashResult =
     \<lparr> years =
         [\<lparr> year = 0, age = 65, portfolioStart = 1000, returnPct = - 195, withdrawal = 45,
             portfolioEnd = - 907.25, ruinedYear = True, ssReceived = Some 0,
             baseWithdrawal = Some 45, targetWithdrawal = None, vpwPct = None,
             currentRate = None, lifeExp = None, rmdWithdrawal = None \<rparr>],
       finalBalance = - 907.25, totalWithdrawals = 45, ruined = True, ruinAge = Some 65 \<rparr>"

definition plungeInputs :: inputs where
  "plungeInputs = \<lparr> retirementAge = 65, planningAge = 66, startingPortfolio = 1000,
     expectedReturn = - 200, volatility = 0, inflationRate = 0, socialSecurity = 0,
     ssStartAge = 67, oneTimeExpense = Some 0, minSpending = Some 0,
     maxSpending = None, startingWithdrawal = None,
     startingPortfolioNegZero = False \<rparr>"

definition plungeResult :: simulationResult where
  "plungeResult =
     \<lparr> years =
         [\<lparr> year = 0, age = 65, portfolioStart = 1000, returnPct = - 200, withdrawal = 45,
             portfolioEnd = - 955, ruinedYear = True, ssReceived = Some 0,
             baseWithdrawal = Some 45, targetWithdrawal = None, vpwPct = None,
             currentRate = None, lifeExp = None, rmdWithdrawal = None \<rparr>],
       finalBalance = - 955, totalWithdrawals = 45, ruined = True, ruinAge = Some 65 \<rparr>"

text \<open>The suites' scenario of a starting withdrawal above the spending ceiling, for one
  year.\<close>

definition capInputs :: inputs where
  "capInputs = \<lparr> retirementAge = 65, planningAge = 66, startingPortfolio = 3000000,
     expectedReturn = 5, volatility = 0, inflationRate = 3, socialSecurity = 0,
     ssStartAge = 67, oneTimeExpense = Some 0, minSpending = Some 80000,
     maxSpending = Some 200000, startingWithdrawal = Some 250000,
     startingPortfolioNegZero = False \<rparr>"


text \<open>An inflation rate of -200 percent, which makes the inflation multiplier -1, with a
  spending floor and no ceiling, for two years.\<close>

definition deflationInputs :: inputs where
  "deflationInputs = \<lparr> retirementAge = 65, planningAge = 67, startingPortfolio = 1000,
     expectedReturn = 0, volatility = 0, inflationRate = - 200, socialSecurity = 0,
     ssStartAge = 70, oneTimeExpense = Some 0, minSpending = Some 10,
     maxSpending = None, startingWithdrawal = None,
     startingPortfolioNegZero = False \<rparr>"

definition deflationResult :: simulationResult where
  "deflationResult =
     \<lparr> years =
         [\<lparr> year = 0, age = 65, portfolioStart = 1000, returnPct = 0, withdrawal = 45,
             portfolioEnd = 955, ruinedYear = False, ssReceived = Some 0,
             baseWithdrawal = Some 45, targetWithdrawal = None, vpwPct = None,
             currentRate = None, lifeExp = None, rmdWithdrawal = None \<rparr>,
          \<lparr> year = 1, age = 66, portfolioStart = 955, returnPct = 0, withdrawal = 0,
             portfolioEnd = 955, ruinedYear = False, ssReceived = Some 0,
             baseWithdrawal = Some (- 45), targetWithdrawal = None, vpwPct = None,
             currentRate = None, lifeExp = None, rmdWithdrawal = None \<rparr>],
       finalBalance = 955, totalWithdrawals = 45, ruined = False, ruinAge = None \<rparr>"

text \<open>The same scenario with Social Security of 20000 from the first year on.\<close>

definition pensionInputs :: inputs where
  "pensionInputs = \<lparr> retirementAge = 65, planningAge = 66, startingPortfolio = 3000000,
     expectedReturn = 5, volatility = 0, inflationRate = 3, socialSecurity = 20000,
     ssStartAge = 65, oneTimeExpense = Some 0, minSpending = Some 80000,
     maxSpending = Some 200000, startingWithdrawal = Some 250000,
     startingPortfolioNegZero = False \<rparr>"

definition pensionResult :: simulationResult where
  "pensionResult =
     \<lparr> years =
         [\<lparr> year = 0, age = 65, portfolioStart = 3000000, returnPct = 5, withdrawal = 180000,
             portfolioEnd = 2961000, ruinedYear = False, ssReceived = Some 20000,
             baseWithdrawal = Some 200000, targetWithdrawal = None, vpwPct = None,
             currentRate = None, lifeExp = None, rmdWithdrawal = None \<rparr>],
       finalBalance = 2961000, totalWithdrawals = 180000, ruined = False, ruinAge = None \<rparr>"




text \<open>A rounding that returns every result a thousandth too large, and a year record
  without strategy fields.\<close>

definition inflatingRound :: "real \<Rightarrow> real" where
  "inflatingRound x = x * (1001 / 1000)"

definition plainFields :: yearRecord where
  "plainFields = \<lparr> year = 0, age = 0, portfolioStart = 0, returnPct = 0, withdrawal = 0,
     portfolioEnd = 0, ruinedYear = False, ssReceived = None, baseWithdrawal = None,
     targetWithdrawal = None, vpwPct = None, currentRate = None, lifeExp = None,
     rmdWithdrawal = None \<rparr>"

section \<open>Properties\<close>

subsection \<open>The year loop\<close>

lemma forLoop_invariant:
  assumes "forLoop body n i st = Some st'"
    and "P i st"
    and "\<And>j s s'. P j s \<Longrightarrow> int j < n \<Longrightarrow> body j s = Some s' \<Longrightarrow> P (Suc j) s'"
  shows "P (if int i < n then nat n else i) st'"
  using assms
proof (induction body n i st rule: forLoop.induct)
  case (1 body n i st)
  show ?case
  proof (cases "int i < n")
    case False
    with "1.prems"(1,2) show ?thesis by (simp add: forLoop.simps)
  next
    case True
    with "1.prems"(1) obtain s1 where b: "body i st = Some s1" and r: "forLoop body n (Suc i) s1 = Some st'"
      by (auto simp: forLoop.simps[of body n i st] split: option.splits)
    have p1: "P (Suc i) s1" using "1.prems"(2,3) True b by blast
    have "P (if int (Suc i) < n then nat n else Suc i) st'"
      using "1.IH"[OF True b r p1] "1.prems"(3) by blast
    moreover have "(if int (Suc i) < n then nat n else Suc i) = nat n" using True by auto
    ultimately show ?thesis using True by simp
  qed
qed

lemma forLoop_invariant_0:
  assumes "forLoop body n 0 st = Some st'"
    and "P 0 st"
    and "\<And>j s s'. P j s \<Longrightarrow> int j < n \<Longrightarrow> body j s = Some s' \<Longrightarrow> P (Suc j) s'"
  shows "P (nat n) st'"
proof -
  have "P (if int 0 < n then nat n else 0) st'"
    by (rule forLoop_invariant[OF assms(1)]) (use assms(2,3) in blast)+
  moreover have "(if int 0 < n then nat n else 0) = nat n" by simp
  ultimately show ?thesis by (simp only:)
qed

lemma forLoop_total:
  assumes "\<And>j s. \<exists>s'. body j s = Some s'"
  shows "\<exists>st'. forLoop body n i st = Some st'"
  using assms
proof (induction body n i st rule: forLoop.induct)
  case (1 body n i st)
  show ?case
  proof (cases "int i < n")
    case False
    then show ?thesis by (simp add: forLoop.simps)
  next
    case True
    obtain s1 where b: "body i st = Some s1" using "1.prems" by blast
    from "1.IH"[OF True b "1.prems"] obtain st' where "forLoop body n (Suc i) s1 = Some st'" by blast
    with True b show ?thesis by (simp add: forLoop.simps[of body n i st])
  qed
qed

subsection \<open>The loop bodies in terms of their shared part\<close>

lemma constantRealYear_eq:
  "constantRealYear inputs det src i st =
     settleYear inputs det src i (netOf inputs i (capCR inputs i (withdrawalVar st)))
       (\<lambda>r p3. \<lparr> year = i, age = retirementAge inputs + int i, portfolioStart = portfolio st,
                 returnPct = r * 100,
                 withdrawal = netOf inputs i (capCR inputs i (withdrawalVar st)),
                 portfolioEnd = p3, ruinedYear = (p3 \<le> 0),
                 ssReceived = Some (ssAt inputs i),
                 baseWithdrawal = Some (capCR inputs i (withdrawalVar st)),
                 targetWithdrawal = None, vpwPct = None, currentRate = None,
                 lifeExp = None, rmdWithdrawal = None \<rparr>)
       (capCR inputs i (withdrawalVar st) * (1 + inflationRate inputs / 100)) st"
  unfolding constantRealYear_def settleYear_def Let_def netOf_def capCR_def ssAt_def oneTimeExpenseAt_def
  by (rule refl)

lemma constantRealYear_old_eq:
  "constantRealYear_old inputs det src i st =
     settleYear inputs det src i (netOf inputs i (withdrawalVar st))
       (\<lambda>r p3. \<lparr> year = i, age = retirementAge inputs + int i, portfolioStart = portfolio st,
                 returnPct = r * 100,
                 withdrawal = netOf inputs i (withdrawalVar st),
                 portfolioEnd = p3, ruinedYear = (p3 \<le> 0),
                 ssReceived = Some (ssAt inputs i),
                 baseWithdrawal = Some (withdrawalVar st),
                 targetWithdrawal = None, vpwPct = None, currentRate = None,
                 lifeExp = None, rmdWithdrawal = None \<rparr>)
       (withdrawalVar st * (1 + inflationRate inputs / 100)) st"
  unfolding constantRealYear_old_def settleYear_def Let_def netOf_def ssAt_def oneTimeExpenseAt_def
  by (rule refl)

lemma constantPercentYear_eq:
  "constantPercentYear inputs det src i st =
     settleYear inputs det src i
       (netOf inputs i (clampSpend inputs i (rawConstantPercent inputs i (portfolio st))))
       (\<lambda>r p3. \<lparr> year = i, age = retirementAge inputs + int i, portfolioStart = portfolio st,
                 returnPct = r * 100,
                 withdrawal = netOf inputs i (clampSpend inputs i (rawConstantPercent inputs i (portfolio st))),
                 portfolioEnd = p3, ruinedYear = (p3 \<le> 0),
                 ssReceived = None, baseWithdrawal = None,
                 targetWithdrawal = Some (clampSpend inputs i (rawConstantPercent inputs i (portfolio st))),
                 vpwPct = None, currentRate = None, lifeExp = None, rmdWithdrawal = None \<rparr>)
       (withdrawalVar st) st"
  unfolding constantPercentYear_def settleYear_def Let_def netOf_def clampSpend_def floorAt_def capAt_def
    rawConstantPercent_def ssAt_def oneTimeExpenseAt_def
  by (rule refl)

lemma vpwYear_eq:
  "vpwYear inputs det src i st =
     settleYear inputs det src i
       (netOf inputs i (clampSpend inputs i (rawVPW inputs i (portfolio st))))
       (\<lambda>r p3. \<lparr> year = i, age = retirementAge inputs + int i, portfolioStart = portfolio st,
                 returnPct = r * 100,
                 withdrawal = netOf inputs i (clampSpend inputs i (rawVPW inputs i (portfolio st))),
                 portfolioEnd = p3, ruinedYear = (p3 \<le> 0),
                 ssReceived = None, baseWithdrawal = None,
                 targetWithdrawal = Some (clampSpend inputs i (rawVPW inputs i (portfolio st))),
                 vpwPct = Some (vpwPercentage (planningAge inputs - (retirementAge inputs + int i)) 60),
                 currentRate = None, lifeExp = None, rmdWithdrawal = None \<rparr>)
       (withdrawalVar st) st"
  unfolding vpwYear_def settleYear_def Let_def netOf_def clampSpend_def floorAt_def capAt_def
    rawVPW_def ssAt_def oneTimeExpenseAt_def
  by (rule refl)

lemma guardrailsYear_eq:
  "guardrailsYear inputs det src i st =
     settleYear inputs det src i
       (netOf inputs i (clampSpend inputs i (guardrailAdjust inputs i (withdrawalVar st) (portfolio st) (portfolioNegZero st))))
       (\<lambda>r p3. \<lparr> year = i, age = retirementAge inputs + int i, portfolioStart = portfolio st,
                 returnPct = r * 100,
                 withdrawal = netOf inputs i (clampSpend inputs i (guardrailAdjust inputs i (withdrawalVar st) (portfolio st) (portfolioNegZero st))),
                 portfolioEnd = p3, ruinedYear = (p3 \<le> 0),
                 ssReceived = None,
                 baseWithdrawal = Some (clampSpend inputs i (guardrailAdjust inputs i (withdrawalVar st) (portfolio st) (portfolioNegZero st))),
                 targetWithdrawal = None, vpwPct = None,
                 currentRate = Some (guardrailRate (withdrawalVar st) (portfolio st) (portfolioNegZero st)),
                 lifeExp = None, rmdWithdrawal = None \<rparr>)
       (clampSpend inputs i (guardrailAdjust inputs i (withdrawalVar st) (portfolio st) (portfolioNegZero st)) * (1 + inflationRate inputs / 100)) st"
  unfolding guardrailsYear_def settleYear_def Let_def netOf_def clampSpend_def floorAt_def capAt_def
    guardrailAdjust_def guardrailRate_def ssAt_def oneTimeExpenseAt_def
  by (rule refl)

lemma rmdYear_eq:
  "rmdYear inputs det src i st =
     settleYear inputs det src i
       (netOf inputs i (clampSpend inputs i (rawRMD inputs i (portfolio st))))
       (\<lambda>r p3. \<lparr> year = i, age = retirementAge inputs + int i, portfolioStart = portfolio st,
                 returnPct = r * 100,
                 withdrawal = netOf inputs i (clampSpend inputs i (rawRMD inputs i (portfolio st))),
                 portfolioEnd = p3, ruinedYear = (p3 \<le> 0),
                 ssReceived = None, baseWithdrawal = None,
                 targetWithdrawal = Some (clampSpend inputs i (rawRMD inputs i (portfolio st))),
                 vpwPct = None, currentRate = None,
                 lifeExp = Some (lifeExpectancy (retirementAge inputs + int i)),
                 rmdWithdrawal = Some (portfolio st / real_of_int (lifeExpectancy (retirementAge inputs + int i))) \<rparr>)
       (withdrawalVar st) st"
  unfolding rmdYear_def settleYear_def Let_def netOf_def clampSpend_def floorAt_def capAt_def
    rawRMD_def ssAt_def oneTimeExpenseAt_def
  by (rule refl)

lemma strategyConstantReal_eq:
  "strategyConstantReal inputs det src k =
     map_option resultOf (forLoop (constantRealYear inputs det src)
        (planningAge inputs - retirementAge inputs) 0 (initState inputs (initialCR inputs) k))"
  unfolding strategyConstantReal_def Let_def initState_def initialCR_def
  by simp

lemma strategyConstantPercent_eq:
  "strategyConstantPercent inputs det src k =
     map_option resultOf (forLoop (constantPercentYear inputs det src)
        (planningAge inputs - retirementAge inputs) 0 (initState inputs 0 k))"
  unfolding strategyConstantPercent_def Let_def initState_def
  by simp

lemma strategyVPW_eq:
  "strategyVPW inputs det src k =
     map_option resultOf (forLoop (vpwYear inputs det src)
        (planningAge inputs - retirementAge inputs) 0 (initState inputs 0 k))"
  unfolding strategyVPW_def Let_def initState_def
  by simp

lemma strategyGuardrails_eq:
  "strategyGuardrails inputs det src k =
     map_option resultOf (forLoop (guardrailsYear inputs det src)
        (planningAge inputs - retirementAge inputs) 0 (initState inputs (initialGuardrails inputs) k))"
  unfolding strategyGuardrails_def Let_def initState_def initialGuardrails_def
  by simp

lemma strategyRMD_eq:
  "strategyRMD inputs det src k =
     map_option resultOf (forLoop (rmdYear inputs det src)
        (planningAge inputs - retirementAge inputs) 0 (initState inputs 0 k))"
  unfolding strategyRMD_def Let_def initState_def
  by simp

subsection \<open>The year step\<close>

lemma generateReturn_det: "generateReturn mean vol True src k = Some (mean / 100, k)"
  by (simp add: generateReturn_def)

lemma settleYear_Some:
  assumes "settleYear inputs det src i net mk wnext st = Some st'"
  shows "\<exists>r k'. generateReturn (expectedReturn inputs) (volatility inputs) det src (rngPos st) = Some (r, k')
           \<and> st' = \<lparr> portfolio = endBalance (portfolio st) net r, withdrawalVar = wnext,
                     yearResults = yearResults st @ [mk r (endBalance (portfolio st) net r)],
                     ruinedVar = (ruinedVar st \<or> endBalance (portfolio st) net r \<le> 0),
                     ruinAgeVar = (if \<not> ruinedVar st \<and> endBalance (portfolio st) net r \<le> 0
                                   then Some (retirementAge inputs + int i) else ruinAgeVar st),
                     rngPos = k',
                     portfolioNegZero = endNegZero (portfolio st) (portfolioNegZero st) net r \<rparr>"
proof -
  obtain r k' where g: "generateReturn (expectedReturn inputs) (volatility inputs) det src (rngPos st) = Some (r, k')"
    using assms by (auto simp: settleYear_def Let_def split: option.splits)
  have "st' = \<lparr> portfolio = endBalance (portfolio st) net r, withdrawalVar = wnext,
                     yearResults = yearResults st @ [mk r (endBalance (portfolio st) net r)],
                     ruinedVar = (ruinedVar st \<or> endBalance (portfolio st) net r \<le> 0),
                     ruinAgeVar = (if \<not> ruinedVar st \<and> endBalance (portfolio st) net r \<le> 0
                                   then Some (retirementAge inputs + int i) else ruinAgeVar st),
                     rngPos = k',
                     portfolioNegZero = endNegZero (portfolio st) (portfolioNegZero st) net r \<rparr>"
    using assms unfolding settleYear_def g Let_def endBalance_def endNegZero_def
    by (cases "portfolio st - net < 0") auto
  with g show ?thesis by blast
qed

lemma settleYear_det_sim:
  assumes "settleYear inputs True src0 j net mk w s = Some s'"
  shows "settleYear inputs True src j net mk w (s\<lparr>rngPos := k\<rparr>) = Some (s'\<lparr>rngPos := k\<rparr>)"
  using assms unfolding settleYear_def Let_def generateReturn_det
  by (cases "portfolio s - net < 0") auto

lemma settleYear_det_total: "\<exists>s'. settleYear inputs True src j net mk w s = Some s'"
  unfolding settleYear_def Let_def generateReturn_det by simp

lemma settleYear_det:
  "settleYear inputs True src i net mk wnext st =
     Some \<lparr> portfolio = endBalance (portfolio st) net (expectedReturn inputs / 100),
            withdrawalVar = wnext,
            yearResults = yearResults st @
              [mk (expectedReturn inputs / 100) (endBalance (portfolio st) net (expectedReturn inputs / 100))],
            ruinedVar = (ruinedVar st \<or> endBalance (portfolio st) net (expectedReturn inputs / 100) \<le> 0),
            ruinAgeVar = (if \<not> ruinedVar st \<and> endBalance (portfolio st) net (expectedReturn inputs / 100) \<le> 0
                          then Some (retirementAge inputs + int i) else ruinAgeVar st),
            rngPos = rngPos st,
            portfolioNegZero = endNegZero (portfolio st) (portfolioNegZero st) net (expectedReturn inputs / 100) \<rparr>"
proof -
  obtain s' where s: "settleYear inputs True src i net mk wnext st = Some s'"
    using settleYear_det_total by blast
  from settleYear_Some[OF s] show ?thesis
    unfolding s by (auto simp: generateReturn_det)
qed

lemma settleYear_yearStep:
  assumes run: "settleYear inputs det src i net mk wnext st = Some st'"
    and mk: "\<And>r p. year (mk r p) = i \<and> age (mk r p) = retirementAge inputs + int i
                 \<and> portfolioStart (mk r p) = portfolio st \<and> returnPct (mk r p) = r * 100
                 \<and> withdrawal (mk r p) = net \<and> portfolioEnd (mk r p) = p
                 \<and> ruinedYear (mk r p) = (p \<le> 0)"
    and net: "oneTimeExpenseAt inputs i \<le> net"
  shows "yearStep inputs det i st st'"
proof -
  from settleYear_Some[OF run] obtain r k' where
    g: "generateReturn (expectedReturn inputs) (volatility inputs) det src (rngPos st) = Some (r, k')"
    and st': "st' = \<lparr> portfolio = endBalance (portfolio st) net r, withdrawalVar = wnext,
                     yearResults = yearResults st @ [mk r (endBalance (portfolio st) net r)],
                     ruinedVar = (ruinedVar st \<or> endBalance (portfolio st) net r \<le> 0),
                     ruinAgeVar = (if \<not> ruinedVar st \<and> endBalance (portfolio st) net r \<le> 0
                                   then Some (retirementAge inputs + int i) else ruinAgeVar st),
                     rngPos = k',
                     portfolioNegZero = endNegZero (portfolio st) (portfolioNegZero st) net r \<rparr>"
    by blast
  have d: "det \<Longrightarrow> r * 100 = expectedReturn inputs \<and> k' = rngPos st"
    using g by (simp add: generateReturn_def)
  show ?thesis
    unfolding yearStep_def Let_def st' using mk net d by simp
qed

lemma netOf_ge: "oneTimeExpenseAt inputs i \<le> netOf inputs i t"
  by (simp add: netOf_def)

lemma constantRealYear_yearStep:
  "constantRealYear inputs det src i st = Some st' \<Longrightarrow> yearStep inputs det i st st'"
  unfolding constantRealYear_eq by (erule settleYear_yearStep) (simp_all add: netOf_ge)

lemma constantRealYear_old_yearStep:
  "constantRealYear_old inputs det src i st = Some st' \<Longrightarrow> yearStep inputs det i st st'"
  unfolding constantRealYear_old_eq by (erule settleYear_yearStep) (simp_all add: netOf_ge)

lemma constantPercentYear_yearStep:
  "constantPercentYear inputs det src i st = Some st' \<Longrightarrow> yearStep inputs det i st st'"
  unfolding constantPercentYear_eq by (erule settleYear_yearStep) (simp_all add: netOf_ge)

lemma vpwYear_yearStep:
  "vpwYear inputs det src i st = Some st' \<Longrightarrow> yearStep inputs det i st st'"
  unfolding vpwYear_eq by (erule settleYear_yearStep) (simp_all add: netOf_ge)

lemma guardrailsYear_yearStep:
  "guardrailsYear inputs det src i st = Some st' \<Longrightarrow> yearStep inputs det i st st'"
  unfolding guardrailsYear_eq by (erule settleYear_yearStep) (simp_all add: netOf_ge)

lemma rmdYear_yearStep:
  "rmdYear inputs det src i st = Some st' \<Longrightarrow> yearStep inputs det i st st'"
  unfolding rmdYear_eq by (erule settleYear_yearStep) (simp_all add: netOf_ge)

text \<open>Every strategy is the year loop over a body that makes a year step, started from
  the initial variables, with the result read off the final variables.\<close>

lemma strategy_run:
  assumes "strategy \<in> set strategies" and "strategy inputs det src k = Some (res, k')"
  shows "\<exists>body w0 st'. (\<forall>i s s'. body i s = Some s' \<longrightarrow> yearStep inputs det i s s')
           \<and> forLoop body (planningAge inputs - retirementAge inputs) 0 (initState inputs w0 k) = Some st'
           \<and> resultOf st' = (res, k')"
proof -
  consider "strategy = strategyConstantReal" | "strategy = strategyConstantPercent"
    | "strategy = strategyVPW" | "strategy = strategyGuardrails" | "strategy = strategyRMD"
    using assms(1) by (auto simp: strategies_def)
  then show ?thesis
  proof cases
    case 1
    with assms(2) obtain st' where
      "forLoop (constantRealYear inputs det src) (planningAge inputs - retirementAge inputs) 0
         (initState inputs (initialCR inputs) k) = Some st'" "resultOf st' = (res, k')"
      by (auto simp: strategyConstantReal_eq)
    then show ?thesis using constantRealYear_yearStep by blast
  next
    case 2
    with assms(2) obtain st' where
      "forLoop (constantPercentYear inputs det src) (planningAge inputs - retirementAge inputs) 0
         (initState inputs 0 k) = Some st'" "resultOf st' = (res, k')"
      by (auto simp: strategyConstantPercent_eq)
    then show ?thesis using constantPercentYear_yearStep by blast
  next
    case 3
    with assms(2) obtain st' where
      "forLoop (vpwYear inputs det src) (planningAge inputs - retirementAge inputs) 0
         (initState inputs 0 k) = Some st'" "resultOf st' = (res, k')"
      by (auto simp: strategyVPW_eq)
    then show ?thesis using vpwYear_yearStep by blast
  next
    case 4
    with assms(2) obtain st' where
      "forLoop (guardrailsYear inputs det src) (planningAge inputs - retirementAge inputs) 0
         (initState inputs (initialGuardrails inputs) k) = Some st'" "resultOf st' = (res, k')"
      by (auto simp: strategyGuardrails_eq)
    then show ?thesis using guardrailsYear_yearStep by blast
  next
    case 5
    with assms(2) obtain st' where
      "forLoop (rmdYear inputs det src) (planningAge inputs - retirementAge inputs) 0
         (initState inputs 0 k) = Some st'" "resultOf st' = (res, k')"
      by (auto simp: strategyRMD_eq)
    then show ?thesis using rmdYear_yearStep by blast
  qed
qed

lemma forLoop_records_all:
  assumes "forLoop body n i st = Some st'"
    and "\<forall>y\<in>set (yearResults st). R y"
    and "\<And>j s s'. body j s = Some s' \<Longrightarrow> \<exists>rec. yearResults s' = yearResults s @ [rec] \<and> R rec"
  shows "\<forall>y\<in>set (yearResults st'). R y"
proof -
  have "(\<lambda>j s. \<forall>y\<in>set (yearResults s). R y) (if int i < n then nat n else i) st'"
  proof (rule forLoop_invariant[OF assms(1)])
    show "\<forall>y\<in>set (yearResults st). R y" by (rule assms(2))
  next
    fix j s s'
    assume a: "\<forall>y\<in>set (yearResults s). R y" and b: "body j s = Some s'"
    from assms(3)[OF b] obtain rec where "yearResults s' = yearResults s @ [rec]" "R rec" by blast
    with a show "\<forall>y\<in>set (yearResults s'). R y" by auto
  qed
  then show ?thesis .
qed

lemma forLoop_sim:
  assumes "forLoop b1 n i st = Some st'"
    and "\<And>j s s'. b1 j s = Some s' \<Longrightarrow> b2 j (f s) = Some (f s')"
  shows "forLoop b2 n i (f st) = Some (f st')"
  using assms
proof (induction b1 n i st rule: forLoop.induct)
  case (1 body n i st)
  show ?case
  proof (cases "int i < n")
    case False
    with "1.prems"(1) show ?thesis by (simp add: forLoop.simps)
  next
    case True
    with "1.prems"(1) obtain s1 where b: "body i st = Some s1"
      and r: "forLoop body n (Suc i) s1 = Some st'"
      by (auto simp: forLoop.simps[of body n i st] split: option.splits)
    have "forLoop b2 n (Suc i) (f s1) = Some (f st')"
      using "1.IH"[OF True b r] "1.prems"(2) by blast
    moreover have "b2 i (f st) = Some (f s1)" using "1.prems"(2) b by blast
    ultimately show ?thesis using True by (simp add: forLoop.simps[of b2 n i "f st"])
  qed
qed

subsection \<open>The lookup tables\<close>

lemma lifeExpectancy_ge_2: "2 \<le> lifeExpectancy a"
  by (simp add: lifeExpectancy_def)

lemma vpwPercentage_le_100: "vpwPercentage y 60 \<le> 100"
  by (simp add: vpwPercentage_def)

lemma rmdYear_record:
  assumes "rmdYear inputs det src j s = Some s'"
  shows "\<exists>rec. yearResults s' = yearResults s @ [rec]
           \<and> lifeExp rec = Some (lifeExpectancy (age rec))
           \<and> rmdWithdrawal rec = Some (portfolioStart rec / real_of_int (lifeExpectancy (age rec)))"
proof -
  from settleYear_Some[OF assms[unfolded rmdYear_eq]] obtain r k' where
    "yearResults s' = yearResults s @ [\<lparr> year = j, age = retirementAge inputs + int j, portfolioStart = portfolio s,
                 returnPct = r * 100,
                 withdrawal = netOf inputs j (clampSpend inputs j (rawRMD inputs j (portfolio s))),
                 portfolioEnd = endBalance (portfolio s) (netOf inputs j (clampSpend inputs j (rawRMD inputs j (portfolio s)))) r,
                 ruinedYear = (endBalance (portfolio s) (netOf inputs j (clampSpend inputs j (rawRMD inputs j (portfolio s)))) r \<le> 0),
                 ssReceived = None, baseWithdrawal = None,
                 targetWithdrawal = Some (clampSpend inputs j (rawRMD inputs j (portfolio s))),
                 vpwPct = None, currentRate = None,
                 lifeExp = Some (lifeExpectancy (retirementAge inputs + int j)),
                 rmdWithdrawal = Some (portfolio s / real_of_int (lifeExpectancy (retirementAge inputs + int j))) \<rparr>]"
    by auto
  then show ?thesis by simp
qed

lemma strategyRMD_records:
  assumes "strategyRMD inputs det src k = Some (res, k')"
  shows "\<forall>y\<in>set (years res). lifeExp y = Some (lifeExpectancy (age y))
           \<and> rmdWithdrawal y = Some (portfolioStart y / real_of_int (lifeExpectancy (age y)))"
proof -
  from assms obtain st' where
    run: "forLoop (rmdYear inputs det src) (planningAge inputs - retirementAge inputs) 0
            (initState inputs 0 k) = Some st'" and res: "resultOf st' = (res, k')"
    by (auto simp: strategyRMD_eq)
  have "\<forall>y\<in>set (yearResults st'). lifeExp y = Some (lifeExpectancy (age y))
           \<and> rmdWithdrawal y = Some (portfolioStart y / real_of_int (lifeExpectancy (age y)))"
    by (rule forLoop_records_all[OF run]) (simp add: initState_def, erule rmdYear_record)
  moreover have "years res = yearResults st'" using res by (auto simp: resultOf_def)
  ultimately show ?thesis by simp
qed

subsection \<open>Invariants of every strategy's run\<close>

lemma yearStepE:
  assumes "yearStep inputs det i s s'"
  obtains rec where "yearResults s' = yearResults s @ [rec]"
    and "year rec = i" and "age rec = retirementAge inputs + int i"
    and "portfolioStart rec = portfolio s"
    and "oneTimeExpenseAt inputs i \<le> withdrawal rec"
    and "portfolioEnd rec = endBalance (portfolio s) (withdrawal rec) (returnPct rec / 100)"
    and "portfolio s' = portfolioEnd rec"
    and "ruinedYear rec = (portfolio s' \<le> 0)"
    and "ruinedVar s' = (ruinedVar s \<or> portfolio s' \<le> 0)"
    and "ruinAgeVar s' = (if \<not> ruinedVar s \<and> portfolio s' \<le> 0 then Some (age rec) else ruinAgeVar s)"
    and "det \<Longrightarrow> returnPct rec = expectedReturn inputs \<and> rngPos s' = rngPos s"
  using assms unfolding yearStep_def Let_def by auto







subsection \<open>Year records by index\<close>

lemma strategy_invariant_indexed:
  assumes mem: "strategy \<in> set strategies"
    and run: "strategy inputs det src k = Some (res, k')"
    and base: "\<And>w0. P 0 (initState inputs w0 k)"
    and step: "\<And>i s s'. P i s \<Longrightarrow> yearStep inputs det i s s' \<Longrightarrow> P (Suc i) s'"
  shows "\<exists>st'. P (nat (planningAge inputs - retirementAge inputs)) st' \<and> resultOf st' = (res, k')"
proof -
  from strategy_run[OF mem run] obtain body w0 st' where
    body: "\<And>i s s'. body i s = Some s' \<Longrightarrow> yearStep inputs det i s s'"
    and loop: "forLoop body (planningAge inputs - retirementAge inputs) 0 (initState inputs w0 k) = Some st'"
    and res: "resultOf st' = (res, k')"
    by blast
  have "P (if int 0 < planningAge inputs - retirementAge inputs
           then nat (planningAge inputs - retirementAge inputs) else 0) st'"
    by (rule forLoop_invariant[OF loop]) (use base step body in blast)+
  moreover have "(if int 0 < planningAge inputs - retirementAge inputs
           then nat (planningAge inputs - retirementAge inputs) else 0)
         = nat (planningAge inputs - retirementAge inputs)" by simp
  ultimately show ?thesis using res by auto
qed

lemma run_indexed:
  assumes "strategy \<in> set strategies" and "strategy inputs det src k = Some (res, k')"
  shows "length (years res) = nat (planningAge inputs - retirementAge inputs)"
    and "\<forall>i<length (years res). year (years res ! i) = i"
proof -
  let ?P = "\<lambda>j s. length (yearResults s) = j \<and> (\<forall>i<j. year (yearResults s ! i) = i)"
  have "\<exists>st'. ?P (nat (planningAge inputs - retirementAge inputs)) st' \<and> resultOf st' = (res, k')"
  proof (rule strategy_invariant_indexed[OF assms])
    show "?P 0 (initState inputs w0 k)" for w0 by (simp add: initState_def)
  next
    fix i s s'
    assume inv: "?P i s" and st: "yearStep inputs det i s s'"
    from st obtain rec where r: "yearResults s' = yearResults s @ [rec]" "year rec = i"
      by (rule yearStepE)
    show "?P (Suc i) s'"
      using inv r by (auto simp: nth_append less_Suc_eq)
  qed
  then show "length (years res) = nat (planningAge inputs - retirementAge inputs)"
    and "\<forall>i<length (years res). year (years res ! i) = i"
    by (auto simp: resultOf_def)
qed


subsection \<open>The spending clamp\<close>

lemma capAt_None_iff: "capAt inputs i = None \<longleftrightarrow> \<not> 0 < orZero (maxSpending inputs)"
  by (simp add: capAt_def)

lemma clampSpend_capped:
  assumes "capAt inputs i = Some c"
  shows "clampSpend inputs i t = min (max t (floorAt inputs i)) c"
  using assms by (simp add: clampSpend_def minCap_def)

lemma clampSpend_uncapped:
  assumes "\<not> 0 < orZero (maxSpending inputs)"
  shows "clampSpend inputs i t = max t (floorAt inputs i)"
  using assms by (simp add: clampSpend_def minCap_def capAt_def)

lemma truthyPositive_orZero: "truthyPositive x \<longleftrightarrow> 0 < orZero x"
  by (cases x) (auto simp: truthyPositive_def orZero_def)

lemma capCR_minCap: "capCR inputs i w = minCap w (capAt inputs i)"
  by (simp add: capCR_def capAt_def minCap_def)

lemma initialCR_clamp: "initialCR inputs = clampSpend inputs 0 (baseCR inputs)"
  by (simp add: initialCR_def clampSpend_def floorAt_def capAt_def minCap_def baseCR_def
      truthyPositive_orZero)

lemma initialGuardrails_clamp:
  "initialGuardrails inputs =
     clampSpend inputs 0 (if truthyPositive (startingWithdrawal inputs)
                          then orZero (startingWithdrawal inputs)
                          else startingPortfolio inputs * (5.0 / 100))"
  by (simp add: initialGuardrails_def clampSpend_def floorAt_def capAt_def minCap_def)

lemma clampSpend_idem: "clampSpend inputs i (clampSpend inputs i t) = clampSpend inputs i t"
  by (cases "capAt inputs i") (auto simp: clampSpend_def minCap_def)

lemma guardrailAdjust_spec:
  "guardrailAdjust inputs j w p pNegZero
     = guardrailRule_spec inputs j w (jsTimes100 (jsDiv w p pNegZero)) p"
  by (simp add: guardrailAdjust_def guardrailRule_spec_def guardrailRate_def)

lemma clampSpend_above_cap:
  assumes "startingWithdrawal inputs = Some sw" and "maxSpending inputs = Some mx"
    and "0 < mx" and "mx < sw"
  shows "clampSpend inputs 0 sw = mx"
  using assms by (simp add: clampSpend_def capAt_def floorAt_def minCap_def orZero_def)


subsection \<open>The records each strategy writes\<close>

lemma settleYear_record:
  assumes "settleYear inputs det src i net mk wnext st = Some st'"
  shows "\<exists>r p. yearResults st' = yearResults st @ [mk r p] \<and> withdrawalVar st' = wnext"
proof -
  from settleYear_Some[OF assms] obtain r k' where
    "yearResults st' = yearResults st @ [mk r (endBalance (portfolio st) net r)]"
    "withdrawalVar st' = wnext" by auto
  then show ?thesis by blast
qed

lemma constantPercentYear_record:
  assumes "constantPercentYear inputs det src j s = Some s'"
  shows "\<exists>rec. yearResults s' = yearResults s @ [rec]
           \<and> targetWithdrawal rec =
               Some (clampSpend inputs (year rec) (rawConstantPercent inputs (year rec) (portfolioStart rec)))
           \<and> withdrawal rec = netOf inputs (year rec) (targetOf rec)"
  using settleYear_record[OF assms[unfolded constantPercentYear_eq]]
  by (auto simp: targetOf_def)

lemma vpwYear_record:
  assumes "vpwYear inputs det src j s = Some s'"
  shows "\<exists>rec. yearResults s' = yearResults s @ [rec]
           \<and> targetWithdrawal rec =
               Some (clampSpend inputs (year rec) (rawVPW inputs (year rec) (portfolioStart rec)))
           \<and> withdrawal rec = netOf inputs (year rec) (targetOf rec)"
  using settleYear_record[OF assms[unfolded vpwYear_eq]]
  by (auto simp: targetOf_def)

lemma rmdYear_target:
  assumes "rmdYear inputs det src j s = Some s'"
  shows "\<exists>rec. yearResults s' = yearResults s @ [rec]
           \<and> targetWithdrawal rec =
               Some (clampSpend inputs (year rec) (rawRMD inputs (year rec) (portfolioStart rec)))
           \<and> withdrawal rec = netOf inputs (year rec) (targetOf rec)"
  using settleYear_record[OF assms[unfolded rmdYear_eq]]
  by (auto simp: targetOf_def)

lemma constantRealYear_record:
  assumes "constantRealYear inputs det src j s = Some s'"
  shows "\<exists>rec. yearResults s' = yearResults s @ [rec]
           \<and> targetOf rec = capCR inputs j (withdrawalVar s)
           \<and> baseWithdrawal rec = Some (targetOf rec)
           \<and> withdrawal rec = netOf inputs j (targetOf rec)
           \<and> withdrawalVar s' = targetOf rec * (1 + inflationRate inputs / 100)"
  using settleYear_record[OF assms[unfolded constantRealYear_eq]]
  by (auto simp: targetOf_def)

lemma guardrailsYear_record:
  assumes "guardrailsYear inputs det src j s = Some s'"
  shows "\<exists>rec. yearResults s' = yearResults s @ [rec]
           \<and> portfolioStart rec = portfolio s
           \<and> currentRate rec = Some (jsTimes100 (jsDiv (withdrawalVar s) (portfolio s) (portfolioNegZero s)))
           \<and> targetOf rec = clampSpend inputs j
                (guardrailRule_spec inputs j (withdrawalVar s)
                   (jsTimes100 (jsDiv (withdrawalVar s) (portfolio s) (portfolioNegZero s))) (portfolio s))
           \<and> baseWithdrawal rec = Some (targetOf rec)
           \<and> withdrawal rec = netOf inputs j (targetOf rec)
           \<and> withdrawalVar s' = targetOf rec * (1 + inflationRate inputs / 100)
           \<and> portfolioNegZero s'
               = endNegZero (portfolio s) (portfolioNegZero s) (withdrawal rec) (returnPct rec / 100)"
proof -
  from settleYear_Some[OF assms[unfolded guardrailsYear_eq]] obtain r k' where
    "s' = \<lparr> portfolio = endBalance (portfolio s)
                  (netOf inputs j (clampSpend inputs j
                     (guardrailAdjust inputs j (withdrawalVar s) (portfolio s) (portfolioNegZero s)))) r,
              withdrawalVar = clampSpend inputs j
                  (guardrailAdjust inputs j (withdrawalVar s) (portfolio s) (portfolioNegZero s))
                  * (1 + inflationRate inputs / 100),
              yearResults = yearResults s @
                [\<lparr> year = j, age = retirementAge inputs + int j, portfolioStart = portfolio s,
                   returnPct = r * 100,
                   withdrawal = netOf inputs j (clampSpend inputs j
                     (guardrailAdjust inputs j (withdrawalVar s) (portfolio s) (portfolioNegZero s))),
                   portfolioEnd = endBalance (portfolio s)
                     (netOf inputs j (clampSpend inputs j
                        (guardrailAdjust inputs j (withdrawalVar s) (portfolio s) (portfolioNegZero s)))) r,
                   ruinedYear = (endBalance (portfolio s)
                     (netOf inputs j (clampSpend inputs j
                        (guardrailAdjust inputs j (withdrawalVar s) (portfolio s) (portfolioNegZero s)))) r \<le> 0),
                   ssReceived = None,
                   baseWithdrawal = Some (clampSpend inputs j
                     (guardrailAdjust inputs j (withdrawalVar s) (portfolio s) (portfolioNegZero s))),
                   targetWithdrawal = None, vpwPct = None,
                   currentRate = Some (guardrailRate (withdrawalVar s) (portfolio s) (portfolioNegZero s)),
                   lifeExp = None, rmdWithdrawal = None \<rparr>],
              ruinedVar = (ruinedVar s \<or> endBalance (portfolio s)
                  (netOf inputs j (clampSpend inputs j
                     (guardrailAdjust inputs j (withdrawalVar s) (portfolio s) (portfolioNegZero s)))) r \<le> 0),
              ruinAgeVar = (if \<not> ruinedVar s \<and> endBalance (portfolio s)
                  (netOf inputs j (clampSpend inputs j
                     (guardrailAdjust inputs j (withdrawalVar s) (portfolio s) (portfolioNegZero s)))) r \<le> 0
                            then Some (retirementAge inputs + int j) else ruinAgeVar s),
              rngPos = k',
              portfolioNegZero = endNegZero (portfolio s) (portfolioNegZero s)
                  (netOf inputs j (clampSpend inputs j
                     (guardrailAdjust inputs j (withdrawalVar s) (portfolio s) (portfolioNegZero s)))) r \<rparr>"
    by blast
  then show ?thesis
    by (simp add: targetOf_def guardrailAdjust_spec guardrailRate_def)
qed

lemma strategyConstantPercent_targets:
  assumes "strategyConstantPercent inputs det src k = Some (res, k')"
  shows "\<forall>y\<in>set (years res).
           targetWithdrawal y = Some (clampSpend inputs (year y) (rawConstantPercent inputs (year y) (portfolioStart y)))
           \<and> withdrawal y = netOf inputs (year y) (targetOf y)"
proof -
  from assms obtain st' where
    run: "forLoop (constantPercentYear inputs det src) (planningAge inputs - retirementAge inputs) 0
            (initState inputs 0 k) = Some st'" and res: "resultOf st' = (res, k')"
    by (auto simp: strategyConstantPercent_eq)
  have "\<forall>y\<in>set (yearResults st').
           targetWithdrawal y = Some (clampSpend inputs (year y) (rawConstantPercent inputs (year y) (portfolioStart y)))
           \<and> withdrawal y = netOf inputs (year y) (targetOf y)"
    by (rule forLoop_records_all[OF run]) (simp add: initState_def, erule constantPercentYear_record)
  moreover have "years res = yearResults st'" using res by (auto simp: resultOf_def)
  ultimately show ?thesis by simp
qed

lemma strategyVPW_targets:
  assumes "strategyVPW inputs det src k = Some (res, k')"
  shows "\<forall>y\<in>set (years res).
           targetWithdrawal y = Some (clampSpend inputs (year y) (rawVPW inputs (year y) (portfolioStart y)))
           \<and> withdrawal y = netOf inputs (year y) (targetOf y)"
proof -
  from assms obtain st' where
    run: "forLoop (vpwYear inputs det src) (planningAge inputs - retirementAge inputs) 0
            (initState inputs 0 k) = Some st'" and res: "resultOf st' = (res, k')"
    by (auto simp: strategyVPW_eq)
  have "\<forall>y\<in>set (yearResults st').
           targetWithdrawal y = Some (clampSpend inputs (year y) (rawVPW inputs (year y) (portfolioStart y)))
           \<and> withdrawal y = netOf inputs (year y) (targetOf y)"
    by (rule forLoop_records_all[OF run]) (simp add: initState_def, erule vpwYear_record)
  moreover have "years res = yearResults st'" using res by (auto simp: resultOf_def)
  ultimately show ?thesis by simp
qed

lemma strategyRMD_targets:
  assumes "strategyRMD inputs det src k = Some (res, k')"
  shows "\<forall>y\<in>set (years res).
           targetWithdrawal y = Some (clampSpend inputs (year y) (rawRMD inputs (year y) (portfolioStart y)))
           \<and> withdrawal y = netOf inputs (year y) (targetOf y)"
proof -
  from assms obtain st' where
    run: "forLoop (rmdYear inputs det src) (planningAge inputs - retirementAge inputs) 0
            (initState inputs 0 k) = Some st'" and res: "resultOf st' = (res, k')"
    by (auto simp: strategyRMD_eq)
  have "\<forall>y\<in>set (yearResults st').
           targetWithdrawal y = Some (clampSpend inputs (year y) (rawRMD inputs (year y) (portfolioStart y)))
           \<and> withdrawal y = netOf inputs (year y) (targetOf y)"
    by (rule forLoop_records_all[OF run]) (simp add: initState_def, erule rmdYear_target)
  moreover have "years res = yearResults st'" using res by (auto simp: resultOf_def)
  ultimately show ?thesis by simp
qed

lemma carriedInto_append:
  assumes "i \<le> length ys"
  shows "carriedInto inputs w0 (ys @ zs) i = carriedInto inputs w0 ys i"
  using assms by (cases i) (auto simp: carriedInto_def nth_append)

lemma carriedInto_Suc:
  "carriedInto inputs w0 (ys @ [rec]) (Suc (length ys)) = targetOf rec * (1 + inflationRate inputs / 100)"
  by (simp add: carriedInto_def)

lemma startNegZero_append:
  assumes "i \<le> length ys"
  shows "startNegZero inputs (ys @ zs) i = startNegZero inputs ys i"
  using assms by (induction i) (simp_all add: nth_append)

lemma startNegZero_Suc:
  "startNegZero inputs (ys @ [rec]) (Suc (length ys))
     = endNegZero (portfolioStart rec) (startNegZero inputs ys (length ys)) (withdrawal rec)
         (returnPct rec / 100)"
  by (simp add: startNegZero_append)

lemma strategyGuardrails_trace:
  assumes "strategyGuardrails inputs det src k = Some (res, k')"
  shows "length (years res) = nat (planningAge inputs - retirementAge inputs)"
    and "\<forall>j<length (years res).
           currentRate (years res ! j)
             = Some (jsTimes100 (jsDiv (carriedInto inputs (initialGuardrails inputs) (years res) j)
                                       (portfolioStart (years res ! j))
                                       (startNegZero inputs (years res) j)))
           \<and> baseWithdrawal (years res ! j) = Some (targetOf (years res ! j))
           \<and> targetOf (years res ! j)
             = clampSpend inputs j
                 (guardrailRule_spec inputs j (carriedInto inputs (initialGuardrails inputs) (years res) j)
                    (jsTimes100 (jsDiv (carriedInto inputs (initialGuardrails inputs) (years res) j)
                                       (portfolioStart (years res ! j))
                                       (startNegZero inputs (years res) j)))
                    (portfolioStart (years res ! j)))
           \<and> withdrawal (years res ! j) = netOf inputs j (targetOf (years res ! j))"
proof -
  let ?w0 = "initialGuardrails inputs"
  let ?R = "\<lambda>ys j. jsTimes100 (jsDiv (carriedInto inputs ?w0 ys j) (portfolioStart (ys ! j))
                                   (startNegZero inputs ys j))"
  let ?G = "\<lambda>ys j. currentRate (ys ! j) = Some (?R ys j)
           \<and> baseWithdrawal (ys ! j) = Some (targetOf (ys ! j))
           \<and> targetOf (ys ! j)
             = clampSpend inputs j (guardrailRule_spec inputs j (carriedInto inputs ?w0 ys j) (?R ys j)
                                     (portfolioStart (ys ! j)))
           \<and> withdrawal (ys ! j) = netOf inputs j (targetOf (ys ! j))"
  let ?P = "\<lambda>j s. length (yearResults s) = j
                \<and> withdrawalVar s = carriedInto inputs ?w0 (yearResults s) j
                \<and> portfolioNegZero s = startNegZero inputs (yearResults s) j
                \<and> (\<forall>i<j. ?G (yearResults s) i)"
  let ?n = "planningAge inputs - retirementAge inputs"
  from assms obtain st' where
    run: "forLoop (guardrailsYear inputs det src) ?n 0 (initState inputs ?w0 k) = Some st'"
    and res: "resultOf st' = (res, k')"
    by (auto simp: strategyGuardrails_eq)
  have "?P (if int 0 < ?n then nat ?n else 0) st'"
  proof (rule forLoop_invariant[OF run])
    show "?P 0 (initState inputs ?w0 k)" by (simp add: initState_def carriedInto_def)
  next
    fix j s s'
    assume inv: "?P j s" and body: "guardrailsYear inputs det src j s = Some s'"
    from guardrailsYear_record[OF body] obtain rec where
      r: "yearResults s' = yearResults s @ [rec]" "portfolioStart rec = portfolio s"
        "currentRate rec = Some (jsTimes100 (jsDiv (withdrawalVar s) (portfolio s) (portfolioNegZero s)))"
        "targetOf rec = clampSpend inputs j
           (guardrailRule_spec inputs j (withdrawalVar s)
              (jsTimes100 (jsDiv (withdrawalVar s) (portfolio s) (portfolioNegZero s))) (portfolio s))"
        "baseWithdrawal rec = Some (targetOf rec)"
        "withdrawal rec = netOf inputs j (targetOf rec)"
        "withdrawalVar s' = targetOf rec * (1 + inflationRate inputs / 100)"
        "portfolioNegZero s'
           = endNegZero (portfolio s) (portfolioNegZero s) (withdrawal rec) (returnPct rec / 100)"
      by blast
    from inv have len: "length (yearResults s) = j"
      and w: "withdrawalVar s = carriedInto inputs ?w0 (yearResults s) j"
      and z: "portfolioNegZero s = startNegZero inputs (yearResults s) j"
      and old: "\<forall>i<j. ?G (yearResults s) i" by blast+
    have c: "carriedInto inputs ?w0 (yearResults s') i = carriedInto inputs ?w0 (yearResults s) i"
      if "i \<le> j" for i using that len by (simp add: r(1) carriedInto_append)
    have sz: "startNegZero inputs (yearResults s') i = startNegZero inputs (yearResults s) i"
      if "i \<le> j" for i using that len by (simp add: r(1) startNegZero_append)
    have n: "yearResults s' ! i = yearResults s ! i" if "i < j" for i
      using that len by (simp add: r(1) nth_append)
    have last: "yearResults s' ! j = rec" using len by (auto simp: r(1))
    have "?G (yearResults s') i" if "i < Suc j" for i
    proof (cases "i = j")
      case True
      then show ?thesis using r w z c[of j] sz[of j] last by simp
    next
      case False
      with that have "i < j" by simp
      then show ?thesis using old c[of i] sz[of i] n[of i] by simp
    qed
    moreover have "withdrawalVar s' = carriedInto inputs ?w0 (yearResults s') (Suc j)"
      using r(1,7) len carriedInto_Suc[of inputs ?w0 "yearResults s" rec] by simp
    moreover have "portfolioNegZero s' = startNegZero inputs (yearResults s') (Suc j)"
      using r(1,2,8) z len startNegZero_Suc[of inputs "yearResults s" rec] by simp
    moreover have "length (yearResults s') = Suc j" using len r(1) by simp
    ultimately show "?P (Suc j) s'" by blast
  qed
  moreover have "(if int 0 < ?n then nat ?n else 0) = nat ?n" by simp
  moreover have "years res = yearResults st'" using res by (auto simp: resultOf_def)
  ultimately show "length (years res) = nat ?n"
    and "\<forall>j<length (years res). ?G (years res) j"
    by simp_all
qed

lemma minCap_clampSpend:
  assumes "floorAt inputs j \<le> w \<or> capAt inputs j = Some w"
  shows "minCap w (capAt inputs j) = clampSpend inputs j w"
  using assms by (cases "capAt inputs j") (auto simp: clampSpend_def minCap_def)

lemma floorAt_Suc: "floorAt inputs (Suc j) = floorAt inputs j * (1 + inflationRate inputs / 100)"
  by (simp add: floorAt_def)

lemma capAt_Suc:
  "capAt inputs (Suc j) = map_option (\<lambda>c. c * (1 + inflationRate inputs / 100)) (capAt inputs j)"
  by (simp add: capAt_def)

lemma minCap_floor_or_cap:
  assumes "floorAt inputs j \<le> w \<or> capAt inputs j = Some w"
    and "0 \<le> 1 + inflationRate inputs / 100"
  shows "floorAt inputs (Suc j) \<le> minCap w (capAt inputs j) * (1 + inflationRate inputs / 100)
         \<or> capAt inputs (Suc j) = Some (minCap w (capAt inputs j) * (1 + inflationRate inputs / 100))"
proof (cases "capAt inputs j")
  case None
  with assms(1) have "floorAt inputs j \<le> w" by simp
  then have "floorAt inputs j * (1 + inflationRate inputs / 100) \<le> w * (1 + inflationRate inputs / 100)"
    using assms(2) by (rule mult_right_mono)
  with None show ?thesis by (simp add: floorAt_Suc minCap_def)
next
  case (Some c)
  show ?thesis
  proof (cases "w \<le> c")
    case True
    then have m: "minCap w (capAt inputs j) = w" using Some by (simp add: minCap_def)
    from assms(1) show ?thesis
    proof
      assume "floorAt inputs j \<le> w"
      then have "floorAt inputs j * (1 + inflationRate inputs / 100) \<le> w * (1 + inflationRate inputs / 100)"
        using assms(2) by (rule mult_right_mono)
      then show ?thesis by (simp add: m floorAt_Suc)
    next
      assume "capAt inputs j = Some w"
      then show ?thesis by (simp add: capAt_Suc minCap_def)
    qed
  next
    case False
    then have "minCap w (capAt inputs j) = c" using Some by (simp add: minCap_def)
    then show ?thesis using Some by (simp add: capAt_Suc)
  qed
qed

lemma clampSpend_floor_or_cap:
  "floorAt inputs j \<le> clampSpend inputs j t \<or> capAt inputs j = Some (clampSpend inputs j t)"
  by (cases "capAt inputs j") (auto simp: clampSpend_def minCap_def)

lemma carriedInto_pos: "0 < j \<Longrightarrow> carriedInto inputs w0 ys j = carriedInto inputs w1 ys j"
  by (simp add: carriedInto_def)

text \<open>The constant real strategy caps the carried amount every year; the floor is applied
  to the initial amount only.\<close>

lemma strategyConstantReal_trace:
  assumes "strategyConstantReal inputs det src k = Some (res, k')"
  shows "length (years res) = nat (planningAge inputs - retirementAge inputs)"
    and "\<forall>j<length (years res).
           baseWithdrawal (years res ! j) = Some (targetOf (years res ! j))
           \<and> targetOf (years res ! j)
               = minCap (carriedInto inputs (initialCR inputs) (years res) j) (capAt inputs j)
           \<and> withdrawal (years res ! j) = netOf inputs j (targetOf (years res ! j))"
    and "- 100 \<le> inflationRate inputs \<Longrightarrow>
         \<forall>j<length (years res).
           targetOf (years res ! j) = clampSpend inputs j (carriedInto inputs (baseCR inputs) (years res) j)"
proof -
  let ?w0 = "initialCR inputs"
  let ?m = "1 + inflationRate inputs / 100"
  let ?C = "\<lambda>ys j. baseWithdrawal (ys ! j) = Some (targetOf (ys ! j))
           \<and> targetOf (ys ! j) = minCap (carriedInto inputs ?w0 ys j) (capAt inputs j)
           \<and> withdrawal (ys ! j) = netOf inputs j (targetOf (ys ! j))"
  let ?E = "\<lambda>ys j. targetOf (ys ! j) = clampSpend inputs j (carriedInto inputs (baseCR inputs) ys j)"
  let ?P = "\<lambda>j s. length (yearResults s) = j
                \<and> withdrawalVar s = carriedInto inputs ?w0 (yearResults s) j
                \<and> (\<forall>i<j. ?C (yearResults s) i)
                \<and> (0 \<le> ?m \<longrightarrow>
                     (floorAt inputs j \<le> withdrawalVar s \<or> capAt inputs j = Some (withdrawalVar s))
                     \<and> (\<forall>i<j. ?E (yearResults s) i))"
  let ?n = "planningAge inputs - retirementAge inputs"
  from assms obtain st' where
    run: "forLoop (constantRealYear inputs det src) ?n 0 (initState inputs ?w0 k) = Some st'"
    and res: "resultOf st' = (res, k')"
    by (auto simp: strategyConstantReal_eq)
  have fin: "?P (nat ?n) st'"
  proof (rule forLoop_invariant_0[OF run])
    show "?P 0 (initState inputs ?w0 k)"
      using clampSpend_floor_or_cap[of inputs 0 "baseCR inputs"]
      by (simp add: initState_def carriedInto_def initialCR_clamp)
  next
    fix j s s'
    assume inv: "?P j s" and body: "constantRealYear inputs det src j s = Some s'"
    from constantRealYear_record[OF body] obtain rec where
      r: "yearResults s' = yearResults s @ [rec]"
        "targetOf rec = capCR inputs j (withdrawalVar s)"
        "baseWithdrawal rec = Some (targetOf rec)"
        "withdrawal rec = netOf inputs j (targetOf rec)"
        "withdrawalVar s' = targetOf rec * ?m"
      by blast
    from inv have len: "length (yearResults s) = j"
      and w: "withdrawalVar s = carriedInto inputs ?w0 (yearResults s) j"
      and old: "\<forall>i<j. ?C (yearResults s) i" by blast+
    have c: "carriedInto inputs w1 (yearResults s') i = carriedInto inputs w1 (yearResults s) i"
      if "i \<le> j" for i w1 using that len by (simp add: r(1) carriedInto_append)
    have n: "yearResults s' ! i = yearResults s ! i" if "i < j" for i
      using that len by (simp add: r(1) nth_append)
    have last: "yearResults s' ! j = rec" using len by (auto simp: r(1))
    have t: "targetOf rec = minCap (withdrawalVar s) (capAt inputs j)"
      using r(2) by (simp add: capCR_minCap)
    have C: "?C (yearResults s') i" if "i < Suc j" for i
    proof (cases "i = j")
      case True
      then show ?thesis using r(3,4) t w c[of j ?w0] last by simp
    next
      case False
      with that have "i < j" by simp
      then show ?thesis using old c[of i ?w0] n[of i] by simp
    qed
    have W: "withdrawalVar s' = carriedInto inputs ?w0 (yearResults s') (Suc j)"
      using r(1,5) len carriedInto_Suc[of inputs ?w0 "yearResults s" rec] by simp
    have L: "length (yearResults s') = Suc j" using len r(1) by simp
    have M: "(floorAt inputs (Suc j) \<le> withdrawalVar s' \<or> capAt inputs (Suc j) = Some (withdrawalVar s'))
             \<and> (\<forall>i<Suc j. ?E (yearResults s') i)" if m: "0 \<le> ?m"
    proof
      from inv m have fc: "floorAt inputs j \<le> withdrawalVar s \<or> capAt inputs j = Some (withdrawalVar s)"
        and oldE: "\<forall>i<j. ?E (yearResults s) i" by blast+
      show "floorAt inputs (Suc j) \<le> withdrawalVar s' \<or> capAt inputs (Suc j) = Some (withdrawalVar s')"
        using minCap_floor_or_cap[OF fc m] by (simp add: r(5) t)
      have new: "?E (yearResults s') j"
      proof (cases "j = 0")
        case True
        have "targetOf rec = clampSpend inputs 0 (clampSpend inputs 0 (baseCR inputs))"
          using t w True minCap_clampSpend[OF fc] by (simp add: carriedInto_def initialCR_clamp)
        then show ?thesis using True last by (simp add: carriedInto_def clampSpend_idem)
      next
        case False
        then have "carriedInto inputs (baseCR inputs) (yearResults s') j = withdrawalVar s"
          using w c[of j "baseCR inputs"] carriedInto_pos[of j inputs "baseCR inputs" "yearResults s" ?w0]
          by simp
        then show ?thesis using t last minCap_clampSpend[OF fc] by simp
      qed
      show "\<forall>i<Suc j. ?E (yearResults s') i"
      proof (intro allI impI)
        fix i assume "i < Suc j"
        show "?E (yearResults s') i"
        proof (cases "i = j")
          case True
          then show ?thesis using new by simp
        next
          case False
          with \<open>i < Suc j\<close> have "i < j" by simp
          then show ?thesis using oldE c[of i "baseCR inputs"] n[of i] by simp
        qed
      qed
    qed
    show "?P (Suc j) s'" using L W C M by blast
  qed
  have y: "years res = yearResults st'" using res by (auto simp: resultOf_def)
  from fin y show "length (years res) = nat ?n" by simp
  from fin y show "\<forall>j<length (years res). ?C (years res) j" by simp
  show "\<forall>j<length (years res). ?E (years res) j" if "- 100 \<le> inflationRate inputs"
  proof -
    from that have "0 \<le> ?m" by simp
    with fin have "length (yearResults st') = nat ?n"
      and "\<forall>j<nat ?n. ?E (yearResults st') j" by blast+
    then show ?thesis by (simp only: y)
  qed
qed

subsection \<open>Example runs\<close>

lemmas forLoop_unroll =
  forLoop.simps[of _ _ 0] forLoop.simps[of _ _ "Suc 0"] forLoop.simps[of _ _ "Suc (Suc 0)"]
  forLoop.simps[of _ _ "Suc (Suc (Suc 0))"] forLoop.simps[of _ _ "Suc (Suc (Suc (Suc 0)))"]
  forLoop.simps[of _ _ "Suc (Suc (Suc (Suc (Suc 0))))"]


lemmas year_eval =
  settleYear_det netOf_def clampSpend_def floorAt_def capAt_def ssAt_def oneTimeExpenseAt_def
  endBalance_def minCap_def orZero_def truthyPositive_def capCR_def initState_def
  resultOf_def sumWithdrawals_def


lemma overdrawn_run:
  "strategyConstantReal overdrawnInputs True silentSource 0 = Some (overdrawnResult, 0)"
  unfolding strategyConstantReal_eq forLoop_unroll constantRealYear_eq
  by (simp add: overdrawnInputs_def overdrawnResult_def year_eval initialCR_def)

lemma flat_run:
  "strategyConstantReal flatInputs True silentSource 0 = Some (flatResult, 0)"
  unfolding strategyConstantReal_eq forLoop_unroll constantRealYear_eq
  by (simp add: flatInputs_def flatResult_def year_eval initialCR_def)

lemma plunge_run:
  "strategyConstantReal plungeInputs True silentSource 0 = Some (plungeResult, 0)"
  unfolding strategyConstantReal_eq forLoop_unroll constantRealYear_eq
  by (simp add: plungeInputs_def plungeResult_def year_eval initialCR_def)

lemma twoYearInputs_run:
  "strategyConstantReal twoYearInputs True src 0 = Some (twoYearResult, 0)"
  unfolding strategyConstantReal_eq forLoop_unroll constantRealYear_eq
  by (simp add: twoYearInputs_def twoYearResult_def year_eval initialCR_def)

lemma lifeExpectancy_99: "lifeExpectancy 99 = 2"
  by (simp add: lifeExpectancy_def)

lemma lateInputs_rmd_run:
  "strategyRMD lateInputs True src 0 = Some (lateResult, 0)"
  unfolding strategyRMD_eq forLoop_unroll rmdYear_eq
  by (simp add: lateInputs_def lateResult_def year_eval rawRMD_def lifeExpectancy_99)

lemma deflation_run:
  "strategyConstantReal deflationInputs True silentSource 0 = Some (deflationResult, 0)"
  unfolding strategyConstantReal_eq forLoop_unroll constantRealYear_eq
  by (simp add: deflationInputs_def deflationResult_def year_eval initialCR_def)

lemma pension_run:
  "strategyConstantReal pensionInputs True silentSource 0 = Some (pensionResult, 0)"
  unfolding strategyConstantReal_eq forLoop_unroll constantRealYear_eq
  by (simp add: pensionInputs_def pensionResult_def year_eval initialCR_def)


lemma crashSource_deviate: "randomNormal crashSource 0 = Some (- 2, 2)"
proof -
  have "drawNonzero crashSource 0 = Some (exp (- 2), 1)"
    by (subst drawNonzero.simps) (simp add: crashSource_def)
  moreover have "drawNonzero crashSource 1 = Some (1 / 2, 2)"
    by (subst drawNonzero.simps) (simp add: crashSource_def)
  moreover have "sqrt (- 2.0 * ln (exp (- 2))) * cos (2.0 * pi * (1 / 2)) = - 2"
  proof -
    have "sqrt (- 2.0 * ln (exp (- 2 :: real))) = sqrt (2 ^ 2)" by simp
    then show ?thesis by (simp del: real_sqrt_four)
  qed
  ultimately show ?thesis by (simp add: randomNormal_def)
qed

lemma crash_run:
  "strategyConstantReal crashInputs False crashSource 0 = Some (crashResult, 2)"
  unfolding strategyConstantReal_def forLoop_unroll
  by (simp add: crashInputs_def crashResult_def Let_def constantRealYear_def generateReturn_def
       crashSource_deviate orZero_def truthyPositive_def resultOf_def sumWithdrawals_def)


subsection \<open>Runs that return\<close>






subsection \<open>Rounded arithmetic\<close>

text \<open>In exact arithmetic the rounded shared part is the shared part, and each strategy is
  a rounded run.\<close>

lemma settleYear_rounded_exact:
  assumes "\<And>r p. mk r p = strategyFields \<lparr> year := i, age := retirementAge inputs + int i,
                portfolioStart := portfolio st, returnPct := r * 100, withdrawal := net,
                portfolioEnd := p, ruinedYear := (p \<le> 0) \<rparr>"
  shows "settleYear inputs True src i net mk wnext st
         = Some (settleYearRounded (\<lambda>x. x) inputs i net strategyFields wnext st)"
  unfolding settleYear_def settleYearRounded_def Let_def generateReturn_det assms
  by simp

lemma constantRealYear_rounded:
  "constantRealYear inputs True src i st =
     Some (settleYearRounded (\<lambda>x. x) inputs i (netOf inputs i (capCR inputs i (withdrawalVar st)))
       \<lparr> year = 0, age = 0, portfolioStart = 0, returnPct = 0, withdrawal = 0, portfolioEnd = 0,
         ruinedYear = False, ssReceived = Some (ssAt inputs i),
         baseWithdrawal = Some (capCR inputs i (withdrawalVar st)),
         targetWithdrawal = None, vpwPct = None, currentRate = None,
         lifeExp = None, rmdWithdrawal = None \<rparr>
       (capCR inputs i (withdrawalVar st) * (1 + inflationRate inputs / 100)) st)"
  unfolding constantRealYear_eq
  by (rule settleYear_rounded_exact) simp

text \<open>A rounding of relative error at most \<open>u\<close>.\<close>

lemma rnd_bounds:
  fixes rnd :: "real \<Rightarrow> real"
  assumes "\<forall>x. \<bar>rnd x - x\<bar> \<le> u * \<bar>x\<bar>" and "0 \<le> x"
  shows "(1 - u) * x \<le> rnd x" and "rnd x \<le> (1 + u) * x"
proof -
  from assms have "\<bar>rnd x - x\<bar> \<le> u * x" by (metis abs_of_nonneg)
  then have "rnd x - x \<le> u * x" and "x - rnd x \<le> u * x" by linarith+
  then show "(1 - u) * x \<le> rnd x" and "rnd x \<le> (1 + u) * x"
    by (simp_all add: algebra_simps)
qed

lemma rnd_zero:
  fixes rnd :: "real \<Rightarrow> real"
  assumes "\<forall>x. \<bar>rnd x - x\<bar> \<le> u * \<bar>x\<bar>"
  shows "rnd 0 = 0"
proof -
  from assms have "\<bar>rnd 0 - 0\<bar> \<le> u * \<bar>0\<bar>" by blast
  then show ?thesis by simp
qed

lemma rnd_nonneg:
  fixes rnd :: "real \<Rightarrow> real"
  assumes "\<forall>x. \<bar>rnd x - x\<bar> \<le> u * \<bar>x\<bar>" and "u \<le> 1" and "0 \<le> x"
  shows "0 \<le> rnd x"
proof -
  have "0 \<le> (1 - u) * x" using assms(2,3) by simp
  with rnd_bounds(1)[OF assms(1,3)] show ?thesis by linarith
qed

lemma rounded_once:
  fixes rnd :: "real \<Rightarrow> real"
  assumes R: "\<forall>x. \<bar>rnd x - x\<bar> \<le> u * \<bar>x\<bar>" and u0: "0 \<le> u" and u1: "u \<le> 1"
    and s: "0 \<le> s"
  shows "(1 - u) ^ 3 * s \<le> rnd s" and "rnd s \<le> (1 + u) ^ 3 * s"
proof -
  have "(1 - u) ^ 3 \<le> (1 - u) ^ 1" using u0 u1 by (intro power_decreasing) simp_all
  then have "(1 - u) ^ 3 * s \<le> (1 - u) * s" using s by (simp add: mult_right_mono)
  with rnd_bounds(1)[OF R s] show "(1 - u) ^ 3 * s \<le> rnd s" by linarith
  have "(1 + u) ^ 1 \<le> (1 + u) ^ 3" using u0 by (intro power_increasing) simp_all
  then have "(1 + u) * s \<le> (1 + u) ^ 3 * s" using s by (simp add: mult_right_mono)
  with rnd_bounds(2)[OF R s] show "rnd s \<le> (1 + u) ^ 3 * s" by linarith
qed

lemma rounded_thrice:
  fixes rnd :: "real \<Rightarrow> real"
  assumes R: "\<forall>x. \<bar>rnd x - x\<bar> \<le> u * \<bar>x\<bar>" and u0: "0 \<le> u" and u1: "u \<le> 1"
    and d: "0 \<le> d"
  shows "(1 - u) ^ 3 * d \<le> rnd (rnd d * rnd 1)" and "rnd (rnd d * rnd 1) \<le> (1 + u) ^ 3 * d"
    and "0 \<le> rnd (rnd d * rnd 1)"
proof -
  have lo: "0 \<le> 1 - u" using u1 by simp
  have hi: "0 \<le> 1 + u" using u0 by simp
  have a: "(1 - u) * d \<le> rnd d" "rnd d \<le> (1 + u) * d" using rnd_bounds[OF R d] by simp_all
  have a0: "0 \<le> rnd d" by (rule rnd_nonneg[OF R u1 d])
  have b: "1 - u \<le> rnd 1" "rnd 1 \<le> 1 + u" using rnd_bounds[OF R, of 1] by simp_all
  have b0: "0 \<le> rnd 1" using b(1) lo by linarith
  have ab0: "0 \<le> rnd d * rnd 1" using a0 b0 by simp
  have "((1 - u) * d) * (1 - u) \<le> rnd d * rnd 1"
    by (rule mult_mono[OF a(1) b(1) a0 lo])
  then have ab1: "(1 - u) ^ 2 * d \<le> rnd d * rnd 1" by (simp add: power2_eq_square algebra_simps)
  have "rnd d * rnd 1 \<le> ((1 + u) * d) * (1 + u)"
    by (rule mult_mono[OF a(2) b(2)]) (use d hi b0 in simp_all)
  then have ab2: "rnd d * rnd 1 \<le> (1 + u) ^ 2 * d" by (simp add: power2_eq_square algebra_simps)
  have c: "(1 - u) * (rnd d * rnd 1) \<le> rnd (rnd d * rnd 1)"
    "rnd (rnd d * rnd 1) \<le> (1 + u) * (rnd d * rnd 1)"
    using rnd_bounds[OF R ab0] by simp_all
  have "(1 - u) * ((1 - u) ^ 2 * d) \<le> (1 - u) * (rnd d * rnd 1)"
    by (rule mult_left_mono[OF ab1 lo])
  with c(1) show "(1 - u) ^ 3 * d \<le> rnd (rnd d * rnd 1)"
    by (simp add: power3_eq_cube power2_eq_square algebra_simps)
  have "(1 + u) * (rnd d * rnd 1) \<le> (1 + u) * ((1 + u) ^ 2 * d)"
    by (rule mult_left_mono[OF ab2 hi])
  with c(2) show "rnd (rnd d * rnd 1) \<le> (1 + u) ^ 3 * d"
    by (simp add: power3_eq_cube power2_eq_square algebra_simps)
  show "0 \<le> rnd (rnd d * rnd 1)" by (rule rnd_nonneg[OF R u1 ab0])
qed

lemma settleYearRounded_record:
  "\<exists>rec. yearResults (settleYearRounded rnd inputs i net flds wnext st) = yearResults st @ [rec]
      \<and> withdrawal rec = net \<and> portfolioStart rec = portfolio st"
  by (simp add: settleYearRounded_def Let_def)

lemma settleYearRounded_balance:
  fixes rnd :: "real \<Rightarrow> real"
  assumes R: "\<forall>x. \<bar>rnd x - x\<bar> \<le> u * \<bar>x\<bar>" and u1: "u \<le> 1"
    and er: "expectedReturn inputs = 0" and w: "net \<le> portfolio st"
  shows "portfolio (settleYearRounded rnd inputs i net flds wnext st)
         = rnd (rnd (portfolio st - net) * rnd 1)"
proof -
  have "0 \<le> rnd (portfolio st - net)" using w by (intro rnd_nonneg[OF R u1]) simp
  then have "\<not> rnd (portfolio st - net) < 0" by simp
  then show ?thesis
    by (simp add: settleYearRounded_def Let_def er rnd_zero[OF R])
qed

lemma sumWithdrawalsRounded_snoc:
  "sumWithdrawalsRounded rnd (ys @ [y]) = rnd (sumWithdrawalsRounded rnd ys + withdrawal y)"
  by (simp add: sumWithdrawalsRounded_def)

lemma roundedRun_total:
  "\<exists>res k'. roundedRun rnd inputs net flds wnext w0 k = Some (res, k')"
proof -
  let ?body = "\<lambda>i st. Some (settleYearRounded rnd inputs i (net i st) (flds i st) (wnext i st) st)"
  have "\<exists>s'. ?body j s = Some s'" for j s by simp
  from forLoop_total[of ?body, OF this]
  obtain st' where "forLoop ?body (planningAge inputs - retirementAge inputs) 0 (initState inputs w0 k) = Some st'"
    by blast
  then show ?thesis by (cases "resultOfRounded rnd st'") (simp add: roundedRun_def)
qed

lemma roundedRun_bounds:
  fixes rnd :: "real \<Rightarrow> real"
  assumes R: "\<forall>x. \<bar>rnd x - x\<bar> \<le> u * \<bar>x\<bar>" and u0: "0 \<le> u" and u1: "u \<le> 1"
    and er: "expectedReturn inputs = 0"
    and run: "roundedRun rnd inputs net flds wnext w0 k = Some (res, k')"
  shows "length (years res) = nat (planningAge inputs - retirementAge inputs)"
    and "k' = k"
    and "(\<forall>y\<in>set (years res). 0 \<le> withdrawal y \<and> withdrawal y \<le> portfolioStart y) \<longrightarrow>
           startingPortfolio inputs * (1 - u) ^ (3 * length (years res))
             \<le> totalWithdrawals res + finalBalance res
           \<and> totalWithdrawals res + finalBalance res
             \<le> startingPortfolio inputs * (1 + u) ^ (3 * length (years res))"
proof -
  let ?body = "\<lambda>i st. Some (settleYearRounded rnd inputs i (net i st) (flds i st) (wnext i st) st)"
  let ?n = "planningAge inputs - retirementAge inputs"
  let ?S = "\<lambda>s. sumWithdrawalsRounded rnd (yearResults s)"
  let ?ok = "\<lambda>s. \<forall>y\<in>set (yearResults s). 0 \<le> withdrawal y \<and> withdrawal y \<le> portfolioStart y"
  let ?P = "\<lambda>j s. length (yearResults s) = j \<and> rngPos s = k
      \<and> (?ok s \<longrightarrow> 0 \<le> ?S s \<and> (0 < j \<longrightarrow> 0 \<le> portfolio s)
            \<and> startingPortfolio inputs * (1 - u) ^ (3 * j) \<le> ?S s + portfolio s
            \<and> ?S s + portfolio s \<le> startingPortfolio inputs * (1 + u) ^ (3 * j))"
  from run obtain st' where
    loop: "forLoop ?body ?n 0 (initState inputs w0 k) = Some st'"
    and res: "resultOfRounded rnd st' = (res, k')"
    by (auto simp: roundedRun_def)
  have "?P (nat ?n) st'"
  proof (rule forLoop_invariant_0[OF loop])
    show "?P 0 (initState inputs w0 k)"
      by (simp add: initState_def sumWithdrawalsRounded_def)
  next
    fix j s s'
    assume inv: "?P j s" and b: "?body j s = Some s'"
    from b have s': "s' = settleYearRounded rnd inputs j (net j s) (flds j s) (wnext j s) s" by simp
    from settleYearRounded_record[of rnd inputs j "net j s" "flds j s" "wnext j s" s]
    obtain rec where r: "yearResults s' = yearResults s @ [rec]" "withdrawal rec = net j s"
      "portfolioStart rec = portfolio s" unfolding s' by blast
    have len: "length (yearResults s') = Suc j" using inv r(1) by simp
    have pos: "rngPos s' = k" using inv by (simp add: s' settleYearRounded_def Let_def)
    have main: "0 \<le> ?S s' \<and> (0 < Suc j \<longrightarrow> 0 \<le> portfolio s')
            \<and> startingPortfolio inputs * (1 - u) ^ (3 * Suc j) \<le> ?S s' + portfolio s'
            \<and> ?S s' + portfolio s' \<le> startingPortfolio inputs * (1 + u) ^ (3 * Suc j)"
      if ok': "?ok s'"
    proof -
      from ok' r have ok: "?ok s" and w0: "0 \<le> net j s" and w1: "net j s \<le> portfolio s" by auto
      from inv ok have S0: "0 \<le> ?S s"
        and lo: "startingPortfolio inputs * (1 - u) ^ (3 * j) \<le> ?S s + portfolio s"
        and hi: "?S s + portfolio s \<le> startingPortfolio inputs * (1 + u) ^ (3 * j)" by blast+
      let ?d = "portfolio s - net j s"
      let ?t = "?S s + net j s"
      have d0: "0 \<le> ?d" using w1 by simp
      have t0: "0 \<le> ?t" using S0 w0 by simp
      have p': "portfolio s' = rnd (rnd ?d * rnd 1)"
        unfolding s' by (rule settleYearRounded_balance[OF R u1 er w1])
      have S': "?S s' = rnd ?t" by (simp add: r(1,2) sumWithdrawalsRounded_snoc)
      note P = rounded_thrice[OF R u0 u1 d0]
      note Q = rounded_once[OF R u0 u1 t0]
      have T: "?t + ?d = ?S s + portfolio s" by simp
      have c0: "0 \<le> (1 - u) ^ 3" using u1 by simp
      have c1: "0 \<le> (1 + u) ^ 3" using u0 by simp
      have "(1 - u) ^ 3 * (startingPortfolio inputs * (1 - u) ^ (3 * j)) \<le> (1 - u) ^ 3 * (?t + ?d)"
        unfolding T by (rule mult_left_mono[OF lo c0])
      also have "\<dots> \<le> rnd ?t + rnd (rnd ?d * rnd 1)" using P(1) Q(1) by (simp add: algebra_simps)
      finally have L: "startingPortfolio inputs * (1 - u) ^ (3 * Suc j) \<le> ?S s' + portfolio s'"
        by (simp add: S' p' power_add algebra_simps power3_eq_cube)
      have "rnd ?t + rnd (rnd ?d * rnd 1) \<le> (1 + u) ^ 3 * (?t + ?d)"
        using P(2) Q(2) by (simp add: algebra_simps)
      also have "\<dots> \<le> (1 + u) ^ 3 * (startingPortfolio inputs * (1 + u) ^ (3 * j))"
        unfolding T by (rule mult_left_mono[OF hi c1])
      finally have H: "?S s' + portfolio s' \<le> startingPortfolio inputs * (1 + u) ^ (3 * Suc j)"
        by (simp add: S' p' power_add algebra_simps power3_eq_cube)
      have "0 \<le> ?S s'" unfolding S' by (rule rnd_nonneg[OF R u1 t0])
      moreover have "0 \<le> portfolio s'" unfolding p' by (rule P(3))
      ultimately show ?thesis using L H by blast
    qed
    from len pos main show "?P (Suc j) s'" by blast
  qed
  moreover from res have "years res = yearResults st'" "finalBalance res = portfolio st'"
    "totalWithdrawals res = sumWithdrawalsRounded rnd (yearResults st')" "k' = rngPos st'"
    by (auto simp: resultOfRounded_def)
  ultimately show "length (years res) = nat ?n" and "k' = k"
    and "(\<forall>y\<in>set (years res). 0 \<le> withdrawal y \<and> withdrawal y \<le> portfolioStart y) \<longrightarrow>
           startingPortfolio inputs * (1 - u) ^ (3 * length (years res))
             \<le> totalWithdrawals res + finalBalance res
           \<and> totalWithdrawals res + finalBalance res
             \<le> startingPortfolio inputs * (1 + u) ^ (3 * length (years res))"
    by simp_all
qed

lemma constantPercentYear_rounded:
  "constantPercentYear inputs True src i st =
     Some (settleYearRounded (\<lambda>x. x) inputs i
       (netOf inputs i (clampSpend inputs i (rawConstantPercent inputs i (portfolio st))))
       \<lparr> year = 0, age = 0, portfolioStart = 0, returnPct = 0, withdrawal = 0, portfolioEnd = 0,
         ruinedYear = False, ssReceived = None, baseWithdrawal = None,
         targetWithdrawal = Some (clampSpend inputs i (rawConstantPercent inputs i (portfolio st))),
         vpwPct = None, currentRate = None, lifeExp = None, rmdWithdrawal = None \<rparr>
       (withdrawalVar st) st)"
  unfolding constantPercentYear_eq
  by (rule settleYear_rounded_exact) simp

lemma vpwYear_rounded:
  "vpwYear inputs True src i st =
     Some (settleYearRounded (\<lambda>x. x) inputs i
       (netOf inputs i (clampSpend inputs i (rawVPW inputs i (portfolio st))))
       \<lparr> year = 0, age = 0, portfolioStart = 0, returnPct = 0, withdrawal = 0, portfolioEnd = 0,
         ruinedYear = False, ssReceived = None, baseWithdrawal = None,
         targetWithdrawal = Some (clampSpend inputs i (rawVPW inputs i (portfolio st))),
         vpwPct = Some (vpwPercentage (planningAge inputs - (retirementAge inputs + int i)) 60),
         currentRate = None, lifeExp = None, rmdWithdrawal = None \<rparr>
       (withdrawalVar st) st)"
  unfolding vpwYear_eq
  by (rule settleYear_rounded_exact) simp

lemma guardrailsYear_rounded:
  "guardrailsYear inputs True src i st =
     Some (settleYearRounded (\<lambda>x. x) inputs i
       (netOf inputs i (clampSpend inputs i
          (guardrailAdjust inputs i (withdrawalVar st) (portfolio st) (portfolioNegZero st))))
       \<lparr> year = 0, age = 0, portfolioStart = 0, returnPct = 0, withdrawal = 0, portfolioEnd = 0,
         ruinedYear = False, ssReceived = None,
         baseWithdrawal = Some (clampSpend inputs i
            (guardrailAdjust inputs i (withdrawalVar st) (portfolio st) (portfolioNegZero st))),
         targetWithdrawal = None, vpwPct = None,
         currentRate = Some (guardrailRate (withdrawalVar st) (portfolio st) (portfolioNegZero st)),
         lifeExp = None, rmdWithdrawal = None \<rparr>
       (clampSpend inputs i
          (guardrailAdjust inputs i (withdrawalVar st) (portfolio st) (portfolioNegZero st))
        * (1 + inflationRate inputs / 100)) st)"
  unfolding guardrailsYear_eq
  by (rule settleYear_rounded_exact) simp

lemma rmdYear_rounded:
  "rmdYear inputs True src i st =
     Some (settleYearRounded (\<lambda>x. x) inputs i
       (netOf inputs i (clampSpend inputs i (rawRMD inputs i (portfolio st))))
       \<lparr> year = 0, age = 0, portfolioStart = 0, returnPct = 0, withdrawal = 0, portfolioEnd = 0,
         ruinedYear = False, ssReceived = None, baseWithdrawal = None,
         targetWithdrawal = Some (clampSpend inputs i (rawRMD inputs i (portfolio st))),
         vpwPct = None, currentRate = None,
         lifeExp = Some (lifeExpectancy (retirementAge inputs + int i)),
         rmdWithdrawal = Some (portfolio st / real_of_int (lifeExpectancy (retirementAge inputs + int i))) \<rparr>
       (withdrawalVar st) st)"
  unfolding rmdYear_eq
  by (rule settleYear_rounded_exact) simp

lemma roundedRun_exact:
  assumes "\<And>i st. body i st
      = Some (settleYearRounded (\<lambda>x. x) inputs i (net i st) (flds i st) (wnext i st) st)"
  shows "map_option resultOf
           (forLoop body (planningAge inputs - retirementAge inputs) 0 (initState inputs w0 k))
         = roundedRun (\<lambda>x. x) inputs net flds wnext w0 k"
proof -
  have "body = (\<lambda>i st. Some (settleYearRounded (\<lambda>x. x) inputs i (net i st) (flds i st) (wnext i st) st))"
    by (intro ext) (rule assms)
  moreover have "resultOf = resultOfRounded (\<lambda>x. x)"
    by (intro ext) (simp add: resultOf_def resultOfRounded_def sumWithdrawals_def sumWithdrawalsRounded_def)
  ultimately show ?thesis by (simp add: roundedRun_def)
qed

lemma strategies_rounded_exact:
  assumes "strategy \<in> set strategies"
  shows "\<exists>net flds wnext w0. \<forall>src k.
           strategy inputs True src k = roundedRun (\<lambda>x. x) inputs net flds wnext w0 k"
proof -
  consider "strategy = strategyConstantReal" | "strategy = strategyConstantPercent"
    | "strategy = strategyVPW" | "strategy = strategyGuardrails" | "strategy = strategyRMD"
    using assms by (auto simp: strategies_def)
  then show ?thesis
  proof cases
    case 1
    have "strategyConstantReal inputs True src k = roundedRun (\<lambda>x. x) inputs
        (\<lambda>i st. netOf inputs i (capCR inputs i (withdrawalVar st)))
        (\<lambda>i st. \<lparr> year = 0, age = 0, portfolioStart = 0, returnPct = 0, withdrawal = 0, portfolioEnd = 0,
         ruinedYear = False, ssReceived = Some (ssAt inputs i),
         baseWithdrawal = Some (capCR inputs i (withdrawalVar st)),
         targetWithdrawal = None, vpwPct = None, currentRate = None,
         lifeExp = None, rmdWithdrawal = None \<rparr>)
        (\<lambda>i st. capCR inputs i (withdrawalVar st) * (1 + inflationRate inputs / 100))
        (initialCR inputs) k" for src k
      unfolding strategyConstantReal_eq by (rule roundedRun_exact) (rule constantRealYear_rounded)
    with 1 show ?thesis by blast
  next
    case 2
    have "strategyConstantPercent inputs True src k = roundedRun (\<lambda>x. x) inputs
        (\<lambda>i st. netOf inputs i (clampSpend inputs i (rawConstantPercent inputs i (portfolio st))))
        (\<lambda>i st. \<lparr> year = 0, age = 0, portfolioStart = 0, returnPct = 0, withdrawal = 0, portfolioEnd = 0,
         ruinedYear = False, ssReceived = None, baseWithdrawal = None,
         targetWithdrawal = Some (clampSpend inputs i (rawConstantPercent inputs i (portfolio st))),
         vpwPct = None, currentRate = None, lifeExp = None, rmdWithdrawal = None \<rparr>)
        (\<lambda>i st. withdrawalVar st) 0 k" for src k
      unfolding strategyConstantPercent_eq by (rule roundedRun_exact) (rule constantPercentYear_rounded)
    with 2 show ?thesis by blast
  next
    case 3
    have "strategyVPW inputs True src k = roundedRun (\<lambda>x. x) inputs
        (\<lambda>i st. netOf inputs i (clampSpend inputs i (rawVPW inputs i (portfolio st))))
        (\<lambda>i st. \<lparr> year = 0, age = 0, portfolioStart = 0, returnPct = 0, withdrawal = 0, portfolioEnd = 0,
         ruinedYear = False, ssReceived = None, baseWithdrawal = None,
         targetWithdrawal = Some (clampSpend inputs i (rawVPW inputs i (portfolio st))),
         vpwPct = Some (vpwPercentage (planningAge inputs - (retirementAge inputs + int i)) 60),
         currentRate = None, lifeExp = None, rmdWithdrawal = None \<rparr>)
        (\<lambda>i st. withdrawalVar st) 0 k" for src k
      unfolding strategyVPW_eq by (rule roundedRun_exact) (rule vpwYear_rounded)
    with 3 show ?thesis by blast
  next
    case 4
    have "strategyGuardrails inputs True src k = roundedRun (\<lambda>x. x) inputs
        (\<lambda>i st. netOf inputs i (clampSpend inputs i
          (guardrailAdjust inputs i (withdrawalVar st) (portfolio st) (portfolioNegZero st))))
        (\<lambda>i st. \<lparr> year = 0, age = 0, portfolioStart = 0, returnPct = 0, withdrawal = 0, portfolioEnd = 0,
         ruinedYear = False, ssReceived = None,
         baseWithdrawal = Some (clampSpend inputs i
            (guardrailAdjust inputs i (withdrawalVar st) (portfolio st) (portfolioNegZero st))),
         targetWithdrawal = None, vpwPct = None,
         currentRate = Some (guardrailRate (withdrawalVar st) (portfolio st) (portfolioNegZero st)),
         lifeExp = None, rmdWithdrawal = None \<rparr>)
        (\<lambda>i st. clampSpend inputs i
          (guardrailAdjust inputs i (withdrawalVar st) (portfolio st) (portfolioNegZero st))
          * (1 + inflationRate inputs / 100))
        (initialGuardrails inputs) k" for src k
      unfolding strategyGuardrails_eq by (rule roundedRun_exact) (rule guardrailsYear_rounded)
    with 4 show ?thesis by blast
  next
    case 5
    have "strategyRMD inputs True src k = roundedRun (\<lambda>x. x) inputs
        (\<lambda>i st. netOf inputs i (clampSpend inputs i (rawRMD inputs i (portfolio st))))
        (\<lambda>i st. \<lparr> year = 0, age = 0, portfolioStart = 0, returnPct = 0, withdrawal = 0, portfolioEnd = 0,
         ruinedYear = False, ssReceived = None, baseWithdrawal = None,
         targetWithdrawal = Some (clampSpend inputs i (rawRMD inputs i (portfolio st))),
         vpwPct = None, currentRate = None,
         lifeExp = Some (lifeExpectancy (retirementAge inputs + int i)),
         rmdWithdrawal = Some (portfolio st / real_of_int (lifeExpectancy (retirementAge inputs + int i))) \<rparr>)
        (\<lambda>i st. withdrawalVar st) 0 k" for src k
      unfolding strategyRMD_eq by (rule roundedRun_exact) (rule rmdYear_rounded)
    with 5 show ?thesis by blast
  qed
qed

lemma two_sided_abs:
  fixes u :: real
  assumes u0: "0 \<le> u" and u1: "u \<le> 1"
    and lo: "P * (1 - u) ^ m \<le> T" and hi: "T \<le> P * (1 + u) ^ m"
  shows "\<bar>T - P\<bar> \<le> P * ((1 + u) ^ m - 1)"
proof (cases "u = 0 \<or> m = 0")
  case True
  with lo hi show ?thesis by auto
next
  case False
  then have u: "0 < u" and m: "0 < m" using u0 by simp_all
  have b1: "1 + real m * u \<le> (1 + u) ^ m" using Bernoulli_inequality[of u m] u0 by simp
  have b2: "1 - real m * u \<le> (1 - u) ^ m" using Bernoulli_inequality[of "- u" m] u1 by simp
  have "0 < real m * u" using u m by simp
  with b1 b2 have gap: "(1 - u) ^ m < (1 + u) ^ m"
  proof -
    have "(1 - u) ^ m \<le> 1 ^ m" using u0 u1 by (intro power_mono) simp_all
    then have "(1 - u) ^ m \<le> 1" by simp
    with b1 \<open>0 < real m * u\<close> show ?thesis by linarith
  qed
  from lo hi have "P * (1 - u) ^ m \<le> P * (1 + u) ^ m" by linarith
  then have P0: "0 \<le> P"
    using gap by (metis mult_le_cancel_left not_le)
  have up: "T - P \<le> P * ((1 + u) ^ m - 1)" using hi by (simp add: algebra_simps)
  have "P - T \<le> P * (1 - (1 - u) ^ m)" using lo by (simp add: algebra_simps)
  also have "\<dots> \<le> P * (real m * u)" using b2 P0 by (intro mult_left_mono) simp_all
  also have "\<dots> \<le> P * ((1 + u) ^ m - 1)" using b1 P0 by (intro mult_left_mono) simp_all
  finally have "P - T \<le> P * ((1 + u) ^ m - 1)" .
  with up show ?thesis by (simp add: abs_le_iff)
qed

lemma inflating_run:
  "\<exists>res. roundedRun inflatingRound flatInputs (\<lambda>i st. 4500) (\<lambda>i st. plainFields) (\<lambda>i st. 0) 0 0
            = Some (res, 0)
     \<and> map (\<lambda>y. (withdrawal y, 4500 \<le> portfolioStart y)) (years res) = [(4500, True), (4500, True)]
     \<and> totalWithdrawals res = 90135045 / 10000
     \<and> 100000 < totalWithdrawals res + finalBalance res"
  unfolding roundedRun_def forLoop_unroll
  by (simp add: flatInputs_def initState_def settleYearRounded_def Let_def inflatingRound_def
      resultOfRounded_def sumWithdrawalsRounded_def plainFields_def)

text \<open>Claim C8. \<open>lifeExpectancy\<close> is the piecewise step function of the age and is at
  least 2 at every age; every record of a run of the RMD strategy carries the life
  expectancy of its age, which is at least 2 and so not zero, and the RMD amount is the
  start balance divided by it.\<close>

theorem lifeExpectancy_floor:
  "lifeExpectancy a =
     (if a < 60 then 95 - a else if a < 70 then 90 - a else if a < 80 then 87 - a
      else if a < 90 then 94 - a else max 2 (100 - a))
   \<and> 2 \<le> lifeExpectancy a
   \<and> (strategyRMD inputs det src k = Some (res, k') \<longrightarrow>
        (\<forall>y\<in>set (years res). \<exists>l. lifeExp y = Some l \<and> l = lifeExpectancy (age y) \<and> 2 \<le> l
            \<and> real_of_int l \<noteq> 0
            \<and> rmdWithdrawal y = Some (portfolioStart y / real_of_int l)))"
proof (intro conjI impI)
  show "lifeExpectancy a =
     (if a < 60 then 95 - a else if a < 70 then 90 - a else if a < 80 then 87 - a
      else if a < 90 then 94 - a else max 2 (100 - a))"
    by (simp add: lifeExpectancy_def)
  show "2 \<le> lifeExpectancy a" by (rule lifeExpectancy_ge_2)
next
  assume run: "strategyRMD inputs det src k = Some (res, k')"
  show "\<forall>y\<in>set (years res). \<exists>l. lifeExp y = Some l \<and> l = lifeExpectancy (age y) \<and> 2 \<le> l
            \<and> real_of_int l \<noteq> 0
            \<and> rmdWithdrawal y = Some (portfolioStart y / real_of_int l)"
  proof
    fix y assume "y \<in> set (years res)"
    with strategyRMD_records[OF run] have
      "lifeExp y = Some (lifeExpectancy (age y))"
      "rmdWithdrawal y = Some (portfolioStart y / real_of_int (lifeExpectancy (age y)))"
      by auto
    moreover have "2 \<le> lifeExpectancy (age y)" by (rule lifeExpectancy_ge_2)
    moreover from this have "real_of_int (lifeExpectancy (age y)) \<noteq> 0" by simp
    ultimately show "\<exists>l. lifeExp y = Some l \<and> l = lifeExpectancy (age y) \<and> 2 \<le> l
            \<and> real_of_int l \<noteq> 0
            \<and> rmdWithdrawal y = Some (portfolioStart y / real_of_int l)" by blast
  qed
qed

text \<open>The claim at a one-year run that starts at age 99, where the table is at its
  floor.\<close>

theorem lifeExpectancy_floor_witness:
  "strategyRMD lateInputs True silentSource 0 = Some (lateResult, 0)
      \<and> map lifeExp (years lateResult) = [Some (lifeExpectancy 99)]
      \<and> lifeExpectancy 99 = 2"
proof -
  have run: "strategyRMD lateInputs True silentSource 0 = Some (lateResult, 0)"
    by (rule lateInputs_rmd_run)
  have "\<forall>y\<in>set (years lateResult). \<exists>l. lifeExp y = Some l \<and> l = lifeExpectancy (age y) \<and> 2 \<le> l
            \<and> real_of_int l \<noteq> 0
            \<and> rmdWithdrawal y = Some (portfolioStart y / real_of_int l)"
    using lifeExpectancy_floor[of 99 lateInputs True silentSource 0 lateResult 0] run by blast
  then have "map lifeExp (years lateResult) = [Some (lifeExpectancy 99)]"
    by (simp add: lateResult_def)
  moreover have "lifeExpectancy 99 = 2" by (rule lifeExpectancy_99)
  ultimately show ?thesis using run by simp
qed

text \<open>Claim C6. With four years remaining the percentage is 28, with none it is 20: over
  the last years the percentage falls as the years remaining decrease. The bound of 100
  holds.\<close>

theorem vpwPercentage_final_years:
  "vpwPercentage 4 60 = 28 \<and> vpwPercentage 0 60 = 20
   \<and> \<not> (vpwPercentage 0 60 \<ge> vpwPercentage 4 60)
   \<and> vpwPercentage 4 60 \<le> 100"
  by (simp add: vpwPercentage_def)

subsection \<open>Deterministic runs\<close>

lemma det_loop_result:
  assumes tot: "\<And>j s. \<exists>s'. body (\<lambda>_. 0) j s = Some s'"
    and sim: "\<And>src k j s s'. body (\<lambda>_. 0) j s = Some s' \<Longrightarrow>
                body src j (s\<lparr>rngPos := k\<rparr>) = Some (s'\<lparr>rngPos := k\<rparr>)"
  shows "\<exists>res. \<forall>src k. map_option resultOf (forLoop (body src) n 0 (initState inputs w0 k)) = Some (res, k)"
proof -
  from forLoop_total[of "body (\<lambda>_. 0)" n 0 "initState inputs w0 0", OF tot]
  obtain st' where run: "forLoop (body (\<lambda>_. 0)) n 0 (initState inputs w0 0) = Some st'" by blast
  have "map_option resultOf (forLoop (body src) n 0 (initState inputs w0 k)) = Some (fst (resultOf st'), k)"
    for src k
  proof -
    have "forLoop (body src) n 0 ((initState inputs w0 0)\<lparr>rngPos := k\<rparr>) = Some (st'\<lparr>rngPos := k\<rparr>)"
      by (rule forLoop_sim[OF run]) (rule sim)
    moreover have "(initState inputs w0 0)\<lparr>rngPos := k\<rparr> = initState inputs w0 k"
      by (simp add: initState_def)
    moreover have "resultOf (st'\<lparr>rngPos := k\<rparr>) = (fst (resultOf st'), k)"
      by (simp add: resultOf_def)
    ultimately show ?thesis by simp
  qed
  then show ?thesis by blast
qed

lemma strategyConstantReal_det:
  "\<exists>res. \<forall>src k. strategyConstantReal inputs True src k = Some (res, k)"
  unfolding strategyConstantReal_eq
proof (rule det_loop_result)
  show "\<exists>s'. constantRealYear inputs True (\<lambda>_. 0) j s = Some s'" for j s
    unfolding constantRealYear_eq by (rule settleYear_det_total)
  show "constantRealYear inputs True src j (s\<lparr>rngPos := k\<rparr>) = Some (s'\<lparr>rngPos := k\<rparr>)"
    if "constantRealYear inputs True (\<lambda>_. 0) j s = Some s'" for src k j s s'
    using settleYear_det_sim[OF that[unfolded constantRealYear_eq], of src k]
    unfolding constantRealYear_eq by simp
qed

lemma strategyConstantPercent_det:
  "\<exists>res. \<forall>src k. strategyConstantPercent inputs True src k = Some (res, k)"
  unfolding strategyConstantPercent_eq
proof (rule det_loop_result)
  show "\<exists>s'. constantPercentYear inputs True (\<lambda>_. 0) j s = Some s'" for j s
    unfolding constantPercentYear_eq by (rule settleYear_det_total)
  show "constantPercentYear inputs True src j (s\<lparr>rngPos := k\<rparr>) = Some (s'\<lparr>rngPos := k\<rparr>)"
    if "constantPercentYear inputs True (\<lambda>_. 0) j s = Some s'" for src k j s s'
    using settleYear_det_sim[OF that[unfolded constantPercentYear_eq], of src k]
    unfolding constantPercentYear_eq by simp
qed

lemma strategyVPW_det:
  "\<exists>res. \<forall>src k. strategyVPW inputs True src k = Some (res, k)"
  unfolding strategyVPW_eq
proof (rule det_loop_result)
  show "\<exists>s'. vpwYear inputs True (\<lambda>_. 0) j s = Some s'" for j s
    unfolding vpwYear_eq by (rule settleYear_det_total)
  show "vpwYear inputs True src j (s\<lparr>rngPos := k\<rparr>) = Some (s'\<lparr>rngPos := k\<rparr>)"
    if "vpwYear inputs True (\<lambda>_. 0) j s = Some s'" for src k j s s'
    using settleYear_det_sim[OF that[unfolded vpwYear_eq], of src k]
    unfolding vpwYear_eq by simp
qed

lemma strategyGuardrails_det:
  "\<exists>res. \<forall>src k. strategyGuardrails inputs True src k = Some (res, k)"
  unfolding strategyGuardrails_eq
proof (rule det_loop_result)
  show "\<exists>s'. guardrailsYear inputs True (\<lambda>_. 0) j s = Some s'" for j s
    unfolding guardrailsYear_eq by (rule settleYear_det_total)
  show "guardrailsYear inputs True src j (s\<lparr>rngPos := k\<rparr>) = Some (s'\<lparr>rngPos := k\<rparr>)"
    if "guardrailsYear inputs True (\<lambda>_. 0) j s = Some s'" for src k j s s'
    using settleYear_det_sim[OF that[unfolded guardrailsYear_eq], of src k]
    unfolding guardrailsYear_eq by simp
qed

lemma strategyRMD_det:
  "\<exists>res. \<forall>src k. strategyRMD inputs True src k = Some (res, k)"
  unfolding strategyRMD_eq
proof (rule det_loop_result)
  show "\<exists>s'. rmdYear inputs True (\<lambda>_. 0) j s = Some s'" for j s
    unfolding rmdYear_eq by (rule settleYear_det_total)
  show "rmdYear inputs True src j (s\<lparr>rngPos := k\<rparr>) = Some (s'\<lparr>rngPos := k\<rparr>)"
    if "rmdYear inputs True (\<lambda>_. 0) j s = Some s'" for src k j s s'
    using settleYear_det_sim[OF that[unfolded rmdYear_eq], of src k]
    unfolding rmdYear_eq by simp
qed

text \<open>Claim C9. In deterministic mode \<open>generateReturn\<close> returns \<open>mean / 100\<close> and leaves the
  position in the entropy source where it was. Each of the five strategies, run
  deterministically on given inputs, returns one and the same result whatever the entropy
  source holds and wherever the run starts in it, and consumes none of it.\<close>

theorem deterministic_reproducible:
  "generateReturn mean vol True src k = Some (mean / 100, k)
   \<and> (\<exists>res. \<forall>src k. strategyConstantReal inputs True src k = Some (res, k))
   \<and> (\<exists>res. \<forall>src k. strategyConstantPercent inputs True src k = Some (res, k))
   \<and> (\<exists>res. \<forall>src k. strategyVPW inputs True src k = Some (res, k))
   \<and> (\<exists>res. \<forall>src k. strategyGuardrails inputs True src k = Some (res, k))
   \<and> (\<exists>res. \<forall>src k. strategyRMD inputs True src k = Some (res, k))"
  using generateReturn_det strategyConstantReal_det strategyConstantPercent_det strategyVPW_det
    strategyGuardrails_det strategyRMD_det
  by blast

subsection \<open>The two copies of the constant real strategy\<close>

lemma strategyConstantReal_old_eq:
  "strategyConstantReal_old inputs det src k =
     map_option resultOf (forLoop (constantRealYear_old inputs det src)
        (planningAge inputs - retirementAge inputs) 0
        (initState inputs (max (startingPortfolio inputs * (4.5 / 100)) (orZero (minSpending inputs))) k))"
  unfolding strategyConstantReal_old_def Let_def initState_def
  by simp

lemma absent_or_zero:
  assumes "x \<in> {None, Some 0}"
  shows "orZero x = 0" and "\<not> truthyPositive x"
  using assms by (auto simp: orZero_def truthyPositive_def)

lemma constantRealYear_old_same:
  assumes "maxSpending inputs \<in> {None, Some 0}"
  shows "constantRealYear inputs det src = constantRealYear_old inputs det src"
proof (intro ext)
  fix i and st :: loopState
  have "capCR inputs i (withdrawalVar st) = withdrawalVar st"
    using absent_or_zero(1)[OF assms] by (simp add: capCR_def)
  then show "constantRealYear inputs det src i st = constantRealYear_old inputs det src i st"
    unfolding constantRealYear_eq constantRealYear_old_eq by simp
qed

lemma initialCR_old_same:
  assumes "startingWithdrawal inputs \<in> {None, Some 0}" and "maxSpending inputs \<in> {None, Some 0}"
  shows "initialCR inputs = max (startingPortfolio inputs * (4.5 / 100)) (orZero (minSpending inputs))"
  using absent_or_zero(2)[OF assms(1)] absent_or_zero(2)[OF assms(2)]
  by (simp add: initialCR_def)

text \<open>Claim C10. On inputs whose \<open>startingWithdrawal\<close> and \<open>maxSpending\<close> are 0 or absent,
  the two copies of \<open>strategyConstantReal\<close> return the same result in deterministic mode,
  and they do return one.\<close>

theorem constantReal_copies_agree:
  assumes "startingWithdrawal inputs \<in> {None, Some 0}" and "maxSpending inputs \<in> {None, Some 0}"
  shows "strategyConstantReal_old inputs True src k = strategyConstantReal inputs True src k
         \<and> (\<exists>res. strategyConstantReal inputs True src k = Some (res, k))"
proof -
  have "strategyConstantReal_old inputs True src k = strategyConstantReal inputs True src k"
    unfolding strategyConstantReal_eq strategyConstantReal_old_eq
      constantRealYear_old_same[OF assms(2)] initialCR_old_same[OF assms] ..
  moreover have "\<exists>res. strategyConstantReal inputs True src k = Some (res, k)"
    using strategyConstantReal_det[of inputs] by blast
  ultimately show ?thesis by simp
qed

text \<open>The claim at the suites' reference scenario, where \<open>maxSpending\<close> is 0 and
  \<open>startingWithdrawal\<close> is missing.\<close>

theorem constantReal_copies_agree_witness:
  "strategyConstantReal_old twoYearInputs True silentSource 0 = Some (twoYearResult, 0)"
proof -
  have "startingWithdrawal twoYearInputs \<in> {None, Some 0}" "maxSpending twoYearInputs \<in> {None, Some 0}"
    by (simp_all add: twoYearInputs_def)
  from constantReal_copies_agree[OF this, of silentSource 0] twoYearInputs_run[of silentSource]
  show ?thesis by simp
qed

subsection \<open>Withdrawals, ruin and the end balance\<close>







text \<open>Claim C1. The overdraft is clamped before the return is applied, and nothing clamps
  afterwards: a year whose return is below -100 percent turns a positive balance into a
  negative end-of-year balance. The first run is stochastic on the inputs of the suites'
  volatility test, with a deviate of -2; the second is deterministic with an expected
  return of -200 percent.\<close>

theorem portfolioEnd_negative:
  "strategyConstantReal crashInputs False crashSource 0 = Some (crashResult, 2)
   \<and> portfolioEnd (years crashResult ! 0) = - 907.25
   \<and> strategyConstantReal plungeInputs True silentSource 0 = Some (plungeResult, 0)
   \<and> portfolioEnd (years plungeResult ! 0) = - 955
   \<and> \<not> 0 \<le> portfolioEnd (years crashResult ! 0)
   \<and> \<not> 0 \<le> portfolioEnd (years plungeResult ! 0)"
  using crash_run plunge_run by (simp add: crashResult_def plungeResult_def)

subsection \<open>Guardrails and the spending clamp\<close>

lemma strategyConstantReal_first:
  assumes "strategyConstantReal inputs det src k = Some (res, k')" and "0 < length (years res)"
  shows "targetOf (years res ! 0) = clampSpend inputs 0 (baseCR inputs)"
proof -
  from strategyConstantReal_trace(2)[OF assms(1)] assms(2)
  have "targetOf (years res ! 0) = minCap (carriedInto inputs (initialCR inputs) (years res) 0) (capAt inputs 0)"
    by blast
  then have "targetOf (years res ! 0) = minCap (clampSpend inputs 0 (baseCR inputs)) (capAt inputs 0)"
    by (simp add: carriedInto_def initialCR_clamp)
  also have "\<dots> = clampSpend inputs 0 (clampSpend inputs 0 (baseCR inputs))"
    by (rule minCap_clampSpend) (rule clampSpend_floor_or_cap)
  finally show ?thesis by (simp add: clampSpend_idem)
qed



lemma first_year_target:
  assumes mem: "strategy \<in> set strategies" and run: "strategy inputs det src k = Some (res, k')"
    and ne: "years res \<noteq> []"
    and sw: "startingWithdrawal inputs = Some sw" and mx: "maxSpending inputs = Some mx"
    and pos: "0 < mx" and above: "mx < sw"
  shows "targetOf (years res ! 0) = mx"
    and "withdrawal (years res ! 0) = max 0 (mx - ssAt inputs 0)"
proof -
  have len: "0 < length (years res)" using ne by simp
  then have in_set: "years res ! 0 \<in> set (years res)" by simp
  have y0: "year (years res ! 0) = 0" using run_indexed(2)[OF mem run] len by blast
  have tp: "truthyPositive (startingWithdrawal inputs)" and oz: "orZero (startingWithdrawal inputs) = sw"
    using sw pos above by (simp_all add: truthyPositive_def orZero_def)
  have cl: "clampSpend inputs 0 sw = mx" by (rule clampSpend_above_cap[OF sw mx pos above])
  have net: "netOf inputs 0 mx = max 0 (mx - ssAt inputs 0)"
    by (simp add: netOf_def oneTimeExpenseAt_def)
  consider "strategy = strategyConstantReal" | "strategy = strategyConstantPercent"
    | "strategy = strategyVPW" | "strategy = strategyGuardrails" | "strategy = strategyRMD"
    using mem by (auto simp: strategies_def)
  then have "targetOf (years res ! 0) = mx \<and> withdrawal (years res ! 0) = netOf inputs 0 (targetOf (years res ! 0))"
  proof cases
    case 1
    with run have r: "strategyConstantReal inputs det src k = Some (res, k')" by simp
    have "targetOf (years res ! 0) = clampSpend inputs 0 (baseCR inputs)"
      by (rule strategyConstantReal_first[OF r len])
    moreover have "baseCR inputs = sw" using tp oz by (simp add: baseCR_def)
    moreover have "withdrawal (years res ! 0) = netOf inputs 0 (targetOf (years res ! 0))"
      using strategyConstantReal_trace(2)[OF r] len by blast
    ultimately show ?thesis using cl by simp
  next
    case 2
    with run have r: "strategyConstantPercent inputs det src k = Some (res, k')" by simp
    from strategyConstantPercent_targets[OF r] in_set y0
    have "targetWithdrawal (years res ! 0)
            = Some (clampSpend inputs 0 (rawConstantPercent inputs 0 (portfolioStart (years res ! 0))))"
      and "withdrawal (years res ! 0) = netOf inputs 0 (targetOf (years res ! 0))"
      by auto
    moreover have "rawConstantPercent inputs 0 p = sw" for p
      using oz pos above by (simp add: rawConstantPercent_def)
    ultimately show ?thesis using cl by (simp add: targetOf_def)
  next
    case 3
    with run have r: "strategyVPW inputs det src k = Some (res, k')" by simp
    from strategyVPW_targets[OF r] in_set y0
    have "targetWithdrawal (years res ! 0)
            = Some (clampSpend inputs 0 (rawVPW inputs 0 (portfolioStart (years res ! 0))))"
      and "withdrawal (years res ! 0) = netOf inputs 0 (targetOf (years res ! 0))"
      by auto
    moreover have "rawVPW inputs 0 p = sw" for p
      using oz pos above by (simp add: rawVPW_def)
    ultimately show ?thesis using cl by (simp add: targetOf_def)
  next
    case 4
    with run have r: "strategyGuardrails inputs det src k = Some (res, k')" by simp
    from strategyGuardrails_trace(2)[OF r] len
    have "\<exists>rate. targetOf (years res ! 0)
            = clampSpend inputs 0 (guardrailRule_spec inputs 0
                (carriedInto inputs (initialGuardrails inputs) (years res) 0) rate
                (portfolioStart (years res ! 0)))"
      and w: "withdrawal (years res ! 0) = netOf inputs 0 (targetOf (years res ! 0))"
      by blast+
    then have "targetOf (years res ! 0) = clampSpend inputs 0 (initialGuardrails inputs)"
      using tp by (auto simp: guardrailRule_spec_def carriedInto_def)
    moreover have "initialGuardrails inputs = clampSpend inputs 0 sw"
      using tp oz by (simp add: initialGuardrails_clamp)
    ultimately have "targetOf (years res ! 0) = clampSpend inputs 0 (clampSpend inputs 0 sw)"
      by simp
    then have "targetOf (years res ! 0) = clampSpend inputs 0 sw" by (simp only: clampSpend_idem)
    then have "targetOf (years res ! 0) = mx" by (simp only: cl)
    with w show ?thesis by simp
  next
    case 5
    with run have r: "strategyRMD inputs det src k = Some (res, k')" by simp
    from strategyRMD_targets[OF r] in_set y0
    have "targetWithdrawal (years res ! 0)
            = Some (clampSpend inputs 0 (rawRMD inputs 0 (portfolioStart (years res ! 0))))"
      and "withdrawal (years res ! 0) = netOf inputs 0 (targetOf (years res ! 0))"
      by auto
    moreover have "rawRMD inputs 0 p = sw" for p
      using oz pos above by (simp add: rawRMD_def)
    ultimately show ?thesis using cl by (simp add: targetOf_def)
  qed
  then show "targetOf (years res ! 0) = mx"
    and "withdrawal (years res ! 0) = max 0 (mx - ssAt inputs 0)"
    using net by simp_all
qed

text \<open>Claim C5, amended. In the constant percentage, VPW, RMD and guardrails strategies the
  withdrawal target of every year is the strategy's amount for the year clamped
  floor-first then ceiling. The constant real strategy applies the floor to the initial
  amount only and the ceiling every year: its first target is the starting amount
  clamped floor-first then ceiling, every target is the carried amount cut to the
  ceiling, and when the inflation rate is at least -100 percent that is the carried
  amount clamped floor-first then ceiling. The clamp never exceeds a ceiling that is
  set and equals it when the floor lies above it; a \<open>maxSpending\<close> that is 0 or missing
  sets no ceiling. In every strategy, a starting withdrawal above a positive
  \<open>maxSpending\<close> makes the first year's target \<open>maxSpending\<close>, and the withdrawal recorded
  is that less the year's Social Security.\<close>

theorem spending_clamp:
  "(strategyConstantPercent inputs det src k = Some (res, k') \<longrightarrow>
      (\<forall>y\<in>set (years res). targetWithdrawal y
          = Some (clampSpend inputs (year y) (rawConstantPercent inputs (year y) (portfolioStart y)))))
   \<and> (strategyVPW inputs det src k = Some (res, k') \<longrightarrow>
      (\<forall>y\<in>set (years res). targetWithdrawal y
          = Some (clampSpend inputs (year y) (rawVPW inputs (year y) (portfolioStart y)))))
   \<and> (strategyRMD inputs det src k = Some (res, k') \<longrightarrow>
      (\<forall>y\<in>set (years res). targetWithdrawal y
          = Some (clampSpend inputs (year y) (rawRMD inputs (year y) (portfolioStart y)))))
   \<and> (strategyGuardrails inputs det src k = Some (res, k') \<longrightarrow>
      (\<forall>j<length (years res). \<exists>rate. currentRate (years res ! j) = Some rate
          \<and> baseWithdrawal (years res ! j)
            = Some (clampSpend inputs j
                   (guardrailRule_spec inputs j (carriedInto inputs (initialGuardrails inputs) (years res) j)
                                           rate (portfolioStart (years res ! j))))))
   \<and> (strategyConstantReal inputs det src k = Some (res, k') \<longrightarrow>
      (\<forall>j<length (years res).
          baseWithdrawal (years res ! j)
            = Some (minCap (carriedInto inputs (initialCR inputs) (years res) j) (capAt inputs j))
          \<and> (j = 0 \<or> - 100 \<le> inflationRate inputs \<longrightarrow>
               baseWithdrawal (years res ! j)
                 = Some (clampSpend inputs j (carriedInto inputs (baseCR inputs) (years res) j)))))
   \<and> (capAt inputs i = Some c \<longrightarrow>
        clampSpend inputs i t = min (max t (floorAt inputs i)) c \<and> clampSpend inputs i t \<le> c
        \<and> (c < floorAt inputs i \<longrightarrow> clampSpend inputs i t = c))
   \<and> (maxSpending inputs \<in> {None, Some 0} \<longrightarrow>
        capAt inputs i = None \<and> clampSpend inputs i t = max t (floorAt inputs i))
   \<and> (strategy \<in> set strategies \<and> strategy inputs det src k = Some (res, k') \<and> years res \<noteq> []
        \<and> startingWithdrawal inputs = Some sw \<and> maxSpending inputs = Some mx \<and> 0 < mx \<and> mx < sw \<longrightarrow>
        targetOf (years res ! 0) = mx \<and> withdrawal (years res ! 0) = max 0 (mx - ssAt inputs 0))"
proof (intro conjI impI)
  show "\<forall>y\<in>set (years res). targetWithdrawal y
          = Some (clampSpend inputs (year y) (rawConstantPercent inputs (year y) (portfolioStart y)))"
    if "strategyConstantPercent inputs det src k = Some (res, k')"
    using strategyConstantPercent_targets[OF that] by blast
  show "\<forall>y\<in>set (years res). targetWithdrawal y
          = Some (clampSpend inputs (year y) (rawVPW inputs (year y) (portfolioStart y)))"
    if "strategyVPW inputs det src k = Some (res, k')"
    using strategyVPW_targets[OF that] by blast
  show "\<forall>y\<in>set (years res). targetWithdrawal y
          = Some (clampSpend inputs (year y) (rawRMD inputs (year y) (portfolioStart y)))"
    if "strategyRMD inputs det src k = Some (res, k')"
    using strategyRMD_targets[OF that] by blast
  show "\<forall>j<length (years res). \<exists>rate. currentRate (years res ! j) = Some rate
          \<and> baseWithdrawal (years res ! j)
            = Some (clampSpend inputs j
                   (guardrailRule_spec inputs j (carriedInto inputs (initialGuardrails inputs) (years res) j)
                                           rate (portfolioStart (years res ! j))))"
    if "strategyGuardrails inputs det src k = Some (res, k')"
    using strategyGuardrails_trace(2)[OF that] by simp
  show "\<forall>j<length (years res).
          baseWithdrawal (years res ! j)
            = Some (minCap (carriedInto inputs (initialCR inputs) (years res) j) (capAt inputs j))
          \<and> (j = 0 \<or> - 100 \<le> inflationRate inputs \<longrightarrow>
               baseWithdrawal (years res ! j)
                 = Some (clampSpend inputs j (carriedInto inputs (baseCR inputs) (years res) j)))"
    if r: "strategyConstantReal inputs det src k = Some (res, k')"
  proof (intro allI impI conjI)
    fix j assume j: "j < length (years res)"
    from strategyConstantReal_trace(2)[OF r] j
    have b: "baseWithdrawal (years res ! j) = Some (targetOf (years res ! j))"
      and t: "targetOf (years res ! j)
               = minCap (carriedInto inputs (initialCR inputs) (years res) j) (capAt inputs j)"
      by blast+
    from b t show "baseWithdrawal (years res ! j)
            = Some (minCap (carriedInto inputs (initialCR inputs) (years res) j) (capAt inputs j))"
      by simp
    assume "j = 0 \<or> - 100 \<le> inflationRate inputs"
    then have "targetOf (years res ! j) = clampSpend inputs j (carriedInto inputs (baseCR inputs) (years res) j)"
    proof
      assume "j = 0"
      then show ?thesis using strategyConstantReal_first[OF r] j by (simp add: carriedInto_def)
    next
      assume "- 100 \<le> inflationRate inputs"
      from strategyConstantReal_trace(3)[OF r this] j show ?thesis by blast
    qed
    with b show "baseWithdrawal (years res ! j)
                 = Some (clampSpend inputs j (carriedInto inputs (baseCR inputs) (years res) j))"
      by simp
  qed
  show "clampSpend inputs i t = min (max t (floorAt inputs i)) c"
    and "clampSpend inputs i t \<le> c"
    if "capAt inputs i = Some c"
    using clampSpend_capped[OF that] by simp_all
  show "clampSpend inputs i t = c" if "capAt inputs i = Some c" and "c < floorAt inputs i"
    using clampSpend_capped[OF that(1)] that(2) by simp
  show "capAt inputs i = None" and "clampSpend inputs i t = max t (floorAt inputs i)"
    if "maxSpending inputs \<in> {None, Some 0}"
  proof -
    from that have z: "\<not> 0 < orZero (maxSpending inputs)" by (auto simp: orZero_def)
    then show "capAt inputs i = None" by (simp add: capAt_None_iff)
    from z show "clampSpend inputs i t = max t (floorAt inputs i)" by (rule clampSpend_uncapped)
  qed
  show "targetOf (years res ! 0) = mx" and "withdrawal (years res ! 0) = max 0 (mx - ssAt inputs 0)"
    if "strategy \<in> set strategies \<and> strategy inputs det src k = Some (res, k') \<and> years res \<noteq> []
        \<and> startingWithdrawal inputs = Some sw \<and> maxSpending inputs = Some mx \<and> 0 < mx \<and> mx < sw"
    using first_year_target[of strategy inputs det src k res k' sw mx] that by blast+
qed

text \<open>The claim at the scenario of a starting withdrawal of 250000 above a ceiling of
  200000, in each of the five strategies.\<close>

theorem spending_clamp_witness:
  "(\<exists>res. strategyConstantReal capInputs True silentSource 0 = Some (res, 0)
          \<and> baseWithdrawal (years res ! 0) = Some 200000 \<and> withdrawal (years res ! 0) = 200000)
   \<and> (\<exists>res. strategyConstantPercent capInputs True silentSource 0 = Some (res, 0)
          \<and> targetWithdrawal (years res ! 0) = Some 200000 \<and> withdrawal (years res ! 0) = 200000)
   \<and> (\<exists>res. strategyVPW capInputs True silentSource 0 = Some (res, 0)
          \<and> targetWithdrawal (years res ! 0) = Some 200000 \<and> withdrawal (years res ! 0) = 200000)
   \<and> (\<exists>res. strategyGuardrails capInputs True silentSource 0 = Some (res, 0)
          \<and> baseWithdrawal (years res ! 0) = Some 200000 \<and> withdrawal (years res ! 0) = 200000)
   \<and> (\<exists>res. strategyRMD capInputs True silentSource 0 = Some (res, 0)
          \<and> targetWithdrawal (years res ! 0) = Some 200000 \<and> withdrawal (years res ! 0) = 200000)
   \<and> clampSpend capInputs 0 250000 = 200000"
proof -
  have cap: "capAt capInputs 0 = Some 200000"
    by (simp add: capAt_def capInputs_def orZero_def)
  have ss: "ssAt capInputs 0 = 0" by (simp add: ssAt_def capInputs_def)
  have gen: "length (years res) = 1 \<and> year (years res ! 0) = 0
             \<and> targetOf (years res ! 0) = 200000 \<and> withdrawal (years res ! 0) = 200000"
    if run: "S capInputs True silentSource 0 = Some (res, 0)" and mem: "S \<in> set strategies" for S res
  proof -
    have len: "length (years res) = 1"
      using run_indexed(1)[OF mem run] by (simp add: capInputs_def)
    then have ne: "years res \<noteq> []" by auto
    have "startingWithdrawal capInputs = Some 250000" "maxSpending capInputs = Some 200000"
      by (simp_all add: capInputs_def)
    with mem run ne
    have "targetOf (years res ! 0) = 200000 \<and> withdrawal (years res ! 0) = max 0 (200000 - ssAt capInputs 0)"
      using spending_clamp[where inputs = capInputs and det = True and src = silentSource and k = 0
          and res = res and k' = 0 and strategy = S and sw = 250000 and mx = 200000,
          THEN conjunct2, THEN conjunct2, THEN conjunct2, THEN conjunct2, THEN conjunct2,
          THEN conjunct2, THEN conjunct2]
      by simp
    moreover have "year (years res ! 0) = 0" using run_indexed(2)[OF mem run] len by simp
    ultimately show ?thesis using len ss by simp
  qed
  have a: "\<exists>res. strategyConstantReal capInputs True silentSource 0 = Some (res, 0)
          \<and> baseWithdrawal (years res ! 0) = Some 200000 \<and> withdrawal (years res ! 0) = 200000"
  proof -
    obtain res where run: "strategyConstantReal capInputs True silentSource 0 = Some (res, 0)"
      using strategyConstantReal_det[of capInputs] by blast
    have g: "length (years res) = 1 \<and> year (years res ! 0) = 0
             \<and> targetOf (years res ! 0) = 200000 \<and> withdrawal (years res ! 0) = 200000"
      by (rule gen[of strategyConstantReal res, OF run]) (simp add: strategies_def)
    note cr = spending_clamp[where inputs = capInputs and det = True and src = silentSource
          and k = 0 and res = res and k' = 0, THEN conjunct2, THEN conjunct2, THEN conjunct2,
          THEN conjunct2, THEN conjunct1, THEN mp, OF run]
    have l: "0 < length (years res)" using g by simp
    from cr l
    have "baseWithdrawal (years res ! 0)
            = Some (clampSpend capInputs 0 (carriedInto capInputs (baseCR capInputs) (years res) 0))"
      by blast
    moreover have "clampSpend capInputs 0 (carriedInto capInputs (baseCR capInputs) (years res) 0) = 200000"
      by (simp add: clampSpend_def floorAt_def capAt_def minCap_def orZero_def truthyPositive_def
          carriedInto_def baseCR_def capInputs_def)
    ultimately show ?thesis using run g by auto
  qed
  have b: "\<exists>res. strategyConstantPercent capInputs True silentSource 0 = Some (res, 0)
          \<and> targetWithdrawal (years res ! 0) = Some 200000 \<and> withdrawal (years res ! 0) = 200000"
  proof -
    obtain res where run: "strategyConstantPercent capInputs True silentSource 0 = Some (res, 0)"
      using strategyConstantPercent_det[of capInputs] by blast
    have g: "length (years res) = 1 \<and> year (years res ! 0) = 0
             \<and> targetOf (years res ! 0) = 200000 \<and> withdrawal (years res ! 0) = 200000"
      by (rule gen[of strategyConstantPercent res, OF run]) (simp add: strategies_def)
    then have "years res ! 0 \<in> set (years res)" by simp
    with spending_clamp[where inputs = capInputs and det = True and src = silentSource and k = 0
          and res = res and k' = 0, THEN conjunct1, THEN mp, OF run]
    have "\<exists>t. targetWithdrawal (years res ! 0) = Some t" by blast
    then have "targetWithdrawal (years res ! 0) = Some 200000"
      using g by (auto simp: targetOf_def)
    then show ?thesis using run g by auto
  qed
  have c: "\<exists>res. strategyVPW capInputs True silentSource 0 = Some (res, 0)
          \<and> targetWithdrawal (years res ! 0) = Some 200000 \<and> withdrawal (years res ! 0) = 200000"
  proof -
    obtain res where run: "strategyVPW capInputs True silentSource 0 = Some (res, 0)"
      using strategyVPW_det[of capInputs] by blast
    have g: "length (years res) = 1 \<and> year (years res ! 0) = 0
             \<and> targetOf (years res ! 0) = 200000 \<and> withdrawal (years res ! 0) = 200000"
      by (rule gen[of strategyVPW res, OF run]) (simp add: strategies_def)
    then have "years res ! 0 \<in> set (years res)" by simp
    with spending_clamp[where inputs = capInputs and det = True and src = silentSource and k = 0
          and res = res and k' = 0, THEN conjunct2, THEN conjunct1, THEN mp, OF run]
    have "\<exists>t. targetWithdrawal (years res ! 0) = Some t" by blast
    then have "targetWithdrawal (years res ! 0) = Some 200000"
      using g by (auto simp: targetOf_def)
    then show ?thesis using run g by auto
  qed
  have d: "\<exists>res. strategyGuardrails capInputs True silentSource 0 = Some (res, 0)
          \<and> baseWithdrawal (years res ! 0) = Some 200000 \<and> withdrawal (years res ! 0) = 200000"
  proof -
    obtain res where run: "strategyGuardrails capInputs True silentSource 0 = Some (res, 0)"
      using strategyGuardrails_det[of capInputs] by blast
    have g: "length (years res) = 1 \<and> year (years res ! 0) = 0
             \<and> targetOf (years res ! 0) = 200000 \<and> withdrawal (years res ! 0) = 200000"
      by (rule gen[of strategyGuardrails res, OF run]) (simp add: strategies_def)
    note gr = spending_clamp[where inputs = capInputs and det = True and src = silentSource
          and k = 0 and res = res and k' = 0, THEN conjunct2, THEN conjunct2, THEN conjunct2,
          THEN conjunct1, THEN mp, OF run]
    have l: "0 < length (years res)" using g by simp
    from gr l
    have "\<exists>t. baseWithdrawal (years res ! 0) = Some t" by blast
    moreover have "baseWithdrawal (years res ! 0) = Some (targetOf (years res ! 0))"
      using strategyGuardrails_trace(2)[OF run] l by blast
    ultimately have "baseWithdrawal (years res ! 0) = Some 200000"
      using g by simp
    then show ?thesis using run g by auto
  qed
  have e: "\<exists>res. strategyRMD capInputs True silentSource 0 = Some (res, 0)
          \<and> targetWithdrawal (years res ! 0) = Some 200000 \<and> withdrawal (years res ! 0) = 200000"
  proof -
    obtain res where run: "strategyRMD capInputs True silentSource 0 = Some (res, 0)"
      using strategyRMD_det[of capInputs] by blast
    have g: "length (years res) = 1 \<and> year (years res ! 0) = 0
             \<and> targetOf (years res ! 0) = 200000 \<and> withdrawal (years res ! 0) = 200000"
      by (rule gen[of strategyRMD res, OF run]) (simp add: strategies_def)
    then have "years res ! 0 \<in> set (years res)" by simp
    with spending_clamp[where inputs = capInputs and det = True and src = silentSource and k = 0
          and res = res and k' = 0, THEN conjunct2, THEN conjunct2, THEN conjunct1, THEN mp, OF run]
    have "\<exists>t. targetWithdrawal (years res ! 0) = Some t" by blast
    then have "targetWithdrawal (years res ! 0) = Some 200000"
      using g by (auto simp: targetOf_def)
    then show ?thesis using run g by auto
  qed
  have f: "clampSpend capInputs 0 250000 = 200000"
    using spending_clamp[where inputs = capInputs and i = 0 and c = 200000 and t = 250000,
        THEN conjunct2, THEN conjunct2, THEN conjunct2, THEN conjunct2, THEN conjunct2,
        THEN conjunct1, THEN mp, OF cap]
    by (simp add: floorAt_def capInputs_def orZero_def)
  from a b c d e f show ?thesis by blast
qed

text \<open>As stated the claim fails twice. In the constant real strategy, with a negative
  inflation multiplier, the second year's target lies below the inflation-adjusted floor
  although no ceiling is set, so it is not a floor-first clamp. And with a starting
  withdrawal above the ceiling, the first year's target is the ceiling, but the
  withdrawal that the record reports is less by the year's Social Security.\<close>

theorem spending_clamp_counterexample:
  "strategyConstantReal deflationInputs True silentSource 0 = Some (deflationResult, 0)
   \<and> baseWithdrawal (years deflationResult ! 1) = Some (- 45)
   \<and> floorAt deflationInputs 1 = - 10
   \<and> capAt deflationInputs 1 = None
   \<and> clampSpend deflationInputs 1 (- 45) = - 10
   \<and> \<not> floorAt deflationInputs 1 \<le> - 45
   \<and> strategyConstantReal pensionInputs True silentSource 0 = Some (pensionResult, 0)
   \<and> startingWithdrawal pensionInputs = Some 250000
   \<and> maxSpending pensionInputs = Some 200000
   \<and> baseWithdrawal (years pensionResult ! 0) = Some 200000
   \<and> withdrawal (years pensionResult ! 0) = 180000
   \<and> withdrawal (years pensionResult ! 0) \<noteq> 200000"
  using deflation_run pension_run
  by (simp add: deflationInputs_def deflationResult_def pensionInputs_def pensionResult_def
      floorAt_def capAt_def clampSpend_def minCap_def orZero_def)

subsection \<open>Conservation at zero return\<close>

text \<open>Claim C7, amended. In deterministic mode every strategy is, in exact arithmetic, the
  year loop over the shared part for its own net withdrawal, record fields and carried
  withdrawal (second conjunct). Take that loop with every operation on the balance and
  on the sum of the withdrawals rounded, by any rounding of relative error at most \<open>u\<close>,
  at an expected return of zero and whatever net withdrawals the strategy computes. (In
  doubles the operations of the shared part stay within 2 to the power -53 of the exact
  result as long as none overflows: a sum or a difference that would underflow is exact,
  and at zero return the products are by 1. The bound is asked of the rounding at every
  number for simplicity; a run applies it only to the exact results of its own
  operations.) The
  run returns, and if every year's withdrawal is at least 0 and at most the balance at
  the start of the year, then \<open>totalWithdrawals + finalBalance\<close> lies between the
  starting portfolio times \<open>(1 - u) ^ (3 * n)\<close> and times \<open>(1 + u) ^ (3 * n)\<close> for \<open>n\<close>
  years: it differs from the starting portfolio by at most the starting portfolio times
  \<open>(1 + u) ^ (3 * n) - 1\<close>.\<close>

theorem zero_return_conservation:
  fixes rnd :: "real \<Rightarrow> real"
  assumes "\<forall>x. \<bar>rnd x - x\<bar> \<le> u * \<bar>x\<bar>" and "0 \<le> u" and "u \<le> 1"
    and "expectedReturn inputs = 0"
  shows "(\<exists>res. roundedRun rnd inputs net flds wnext w0 k = Some (res, k)
            \<and> length (years res) = nat (planningAge inputs - retirementAge inputs)
            \<and> ((\<forall>y\<in>set (years res). 0 \<le> withdrawal y \<and> withdrawal y \<le> portfolioStart y) \<longrightarrow>
                 startingPortfolio inputs * (1 - u) ^ (3 * length (years res))
                   \<le> totalWithdrawals res + finalBalance res
                 \<and> totalWithdrawals res + finalBalance res
                   \<le> startingPortfolio inputs * (1 + u) ^ (3 * length (years res))
                 \<and> \<bar>totalWithdrawals res + finalBalance res - startingPortfolio inputs\<bar>
                   \<le> startingPortfolio inputs * ((1 + u) ^ (3 * length (years res)) - 1)))
         \<and> (\<forall>strategy\<in>set strategies. \<exists>net flds wnext w0. \<forall>src k.
               strategy inputs True src k = roundedRun (\<lambda>x. x) inputs net flds wnext w0 k)"
proof
  from roundedRun_total[of rnd inputs net flds wnext w0 k]
  obtain res k' where run: "roundedRun rnd inputs net flds wnext w0 k = Some (res, k')" by blast
  note B = roundedRun_bounds[OF assms run]
  have "\<bar>totalWithdrawals res + finalBalance res - startingPortfolio inputs\<bar>
          \<le> startingPortfolio inputs * ((1 + u) ^ (3 * length (years res)) - 1)"
    if "\<forall>y\<in>set (years res). 0 \<le> withdrawal y \<and> withdrawal y \<le> portfolioStart y"
    using B(3) that by (intro two_sided_abs[OF assms(2,3)]) blast+
  with B run
  show "\<exists>res. roundedRun rnd inputs net flds wnext w0 k = Some (res, k)
            \<and> length (years res) = nat (planningAge inputs - retirementAge inputs)
            \<and> ((\<forall>y\<in>set (years res). 0 \<le> withdrawal y \<and> withdrawal y \<le> portfolioStart y) \<longrightarrow>
                 startingPortfolio inputs * (1 - u) ^ (3 * length (years res))
                   \<le> totalWithdrawals res + finalBalance res
                 \<and> totalWithdrawals res + finalBalance res
                   \<le> startingPortfolio inputs * (1 + u) ^ (3 * length (years res))
                 \<and> \<bar>totalWithdrawals res + finalBalance res - startingPortfolio inputs\<bar>
                   \<le> startingPortfolio inputs * ((1 + u) ^ (3 * length (years res)) - 1))"
    by blast
  show "\<forall>strategy\<in>set strategies. \<exists>net flds wnext w0. \<forall>src k.
               strategy inputs True src k = roundedRun (\<lambda>x. x) inputs net flds wnext w0 k"
    using strategies_rounded_exact by blast
qed

text \<open>The claim at two runs of two years from 100000. With a rounding that returns every
  result a thousandth too large and a net withdrawal of 4500 a year, the sum ends above
  the starting portfolio and within the bound. In exact arithmetic the constant real
  strategy, which withdraws 4500 a year, ends at the starting portfolio.\<close>

theorem zero_return_conservation_witness:
  "(\<exists>res. roundedRun inflatingRound flatInputs (\<lambda>i st. 4500) (\<lambda>i st. plainFields) (\<lambda>i st. 0) 0 0
            = Some (res, 0)
      \<and> length (years res) = 2
      \<and> 100000 * (999 / 1000) ^ 6 \<le> totalWithdrawals res + finalBalance res
      \<and> totalWithdrawals res + finalBalance res \<le> 100000 * (1001 / 1000) ^ 6
      \<and> 100000 < totalWithdrawals res + finalBalance res)
   \<and> (\<exists>res. strategyConstantReal flatInputs True silentSource 0 = Some (res, 0)
      \<and> totalWithdrawals res + finalBalance res = 100000)"
proof
  have rel: "\<forall>x. \<bar>inflatingRound x - x\<bar> \<le> (1 / 1000) * \<bar>x\<bar>"
    by (simp add: inflatingRound_def abs_if)
  have er: "expectedReturn flatInputs = 0" by (simp add: flatInputs_def)
  from inflating_run obtain res where
    r: "roundedRun inflatingRound flatInputs (\<lambda>i st. 4500) (\<lambda>i st. plainFields) (\<lambda>i st. 0) 0 0
            = Some (res, 0)
     \<and> map (\<lambda>y. (withdrawal y, 4500 \<le> portfolioStart y)) (years res) = [(4500, True), (4500, True)]
     \<and> totalWithdrawals res = 90135045 / 10000
     \<and> 100000 < totalWithdrawals res + finalBalance res"
    by (rule exE)
  then obtain a b where ab: "years res = [a, b]" by auto
  with r have ok: "\<forall>y\<in>set (years res). 0 \<le> withdrawal y \<and> withdrawal y \<le> portfolioStart y"
    by auto
  from zero_return_conservation[where rnd = inflatingRound and u = "1 / 1000" and inputs = flatInputs
      and net = "\<lambda>i st. 4500" and flds = "\<lambda>i st. plainFields" and wnext = "\<lambda>i st. 0"
      and ?w0.0 = 0 and k = 0, OF rel _ _ er] r ok
  have "startingPortfolio flatInputs * (1 - 1 / 1000) ^ (3 * length (years res))
          \<le> totalWithdrawals res + finalBalance res
        \<and> totalWithdrawals res + finalBalance res
          \<le> startingPortfolio flatInputs * (1 + 1 / 1000) ^ (3 * length (years res))"
    by auto
  then have "100000 * (999 / 1000) ^ 6 \<le> totalWithdrawals res + finalBalance res
      \<and> totalWithdrawals res + finalBalance res \<le> 100000 * (1001 / 1000) ^ 6"
    by (simp add: ab flatInputs_def)
  with r ab
  show "\<exists>res. roundedRun inflatingRound flatInputs (\<lambda>i st. 4500) (\<lambda>i st. plainFields) (\<lambda>i st. 0) 0 0
            = Some (res, 0)
      \<and> length (years res) = 2
      \<and> 100000 * (999 / 1000) ^ 6 \<le> totalWithdrawals res + finalBalance res
      \<and> totalWithdrawals res + finalBalance res \<le> 100000 * (1001 / 1000) ^ 6
      \<and> 100000 < totalWithdrawals res + finalBalance res"
    by auto
next
  have er: "expectedReturn flatInputs = 0" by (simp add: flatInputs_def)
  have mem: "strategyConstantReal \<in> set strategies" by (simp add: strategies_def)
  have exact: "\<forall>x::real. \<bar>(\<lambda>x. x) x - x\<bar> \<le> 0 * \<bar>x\<bar>" by simp
  note Z = zero_return_conservation[where rnd = "\<lambda>x. x" and u = 0 and inputs = flatInputs and k = 0,
      OF exact _ _ er]
  from Z mem obtain net flds wnext w0 where
    inst: "\<forall>src k. strategyConstantReal flatInputs True src k
             = roundedRun (\<lambda>x. x) flatInputs net flds wnext w0 k"
    by (metis le_numeral_extra(3) zero_le_one)
  with flat_run have run: "roundedRun (\<lambda>x. x) flatInputs net flds wnext w0 0 = Some (flatResult, 0)"
    by simp
  have ok: "\<forall>y\<in>set (years flatResult). 0 \<le> withdrawal y \<and> withdrawal y \<le> portfolioStart y"
    by (simp add: flatResult_def)
  from Z[where net = net and flds = flds and wnext = wnext and ?w0.0 = w0] run ok
  have "startingPortfolio flatInputs * (1 - 0) ^ (3 * length (years flatResult))
          \<le> totalWithdrawals flatResult + finalBalance flatResult
        \<and> totalWithdrawals flatResult + finalBalance flatResult
          \<le> startingPortfolio flatInputs * (1 + 0) ^ (3 * length (years flatResult))"
    by auto
  then have "totalWithdrawals flatResult + finalBalance flatResult = 100000"
    by (simp add: flatInputs_def)
  with flat_run show "\<exists>res. strategyConstantReal flatInputs True silentSource 0 = Some (res, 0)
      \<and> totalWithdrawals res + finalBalance res = 100000"
    by blast
qed

text \<open>As stated the claim fails: the record keeps the withdrawal asked for, not the amount
  the portfolio could pay, so after an overdraft the sum exceeds the starting portfolio.
  All amounts of this run are whole numbers, which doubles hold exactly.\<close>

theorem zero_return_conservation_counterexample:
  "strategyConstantReal overdrawnInputs True silentSource 0 = Some (overdrawnResult, 0)
   \<and> expectedReturn overdrawnInputs = 0 \<and> volatility overdrawnInputs = 0
   \<and> inflationRate overdrawnInputs = 0 \<and> socialSecurity overdrawnInputs = 0
   \<and> totalWithdrawals overdrawnResult + finalBalance overdrawnResult = 180000
   \<and> startingPortfolio overdrawnInputs = 100000
   \<and> \<not> \<bar>totalWithdrawals overdrawnResult + finalBalance overdrawnResult
          - startingPortfolio overdrawnInputs\<bar> \<le> 1"
  using overdrawn_run by (simp add: overdrawnInputs_def overdrawnResult_def)

end
